theory Spec2Isabelle
  imports Complex_Main "HOL-Library.Word" "HOL-Library.Monad_Syntax"
begin

unbundle bit_operations_syntax

section \<open>Extended dynamic state tests: configuration model and stencil oracle\<close>

text \<open>
  A shallow embedding of \<^verbatim>\<open>vktPipelineExtendedDynamicStateTests.cpp\<close>: the
  \<^verbatim>\<open>StaticAndDynamicPair\<close> value model, the \<^verbatim>\<open>TestConfig\<close> aggregate with its
  derived queries, the vertex generators as far as their buffers and bindings go, the
  preparation and the command recording loop of
  \<^verbatim>\<open>ExtendedDynamicStateInstance::iterate\<close>, the stencil oracle (\<^verbatim>\<open>stencilPasses\<close>, \<^verbatim>\<open>stencilResult\<close>) and the stencil section of
  \<^verbatim>\<open>createExtendedDynamicStateTests\<close>.

  Conventions.
  \<^item> \<^verbatim>\<open>deUint8\<close>, \<^verbatim>\<open>deUint32\<close> and \<^verbatim>\<open>VkDeviceSize\<close> are \<open>8 word\<close>, \<open>32 word\<close> and
    \<open>64 word\<close>; a C++ \<^verbatim>\<open>int\<close> that the code keeps far from its limits is \<open>int\<close>.
  \<^item> \<^verbatim>\<open>tcu::Maybe<T>\<close> is \<open>'a option\<close>; a nullable pointer to one of the three vertex
    generator singletons is \<open>VertexGenerator option\<close>.
  \<^item> \<^verbatim>\<open>float\<close> values are only stored, copied and combined with literals by the code
    modelled here, and every value involved is a dyadic rational that a \<^verbatim>\<open>float\<close> holds
    exactly; they are modelled by \<open>rat\<close>.
  \<^item> The length of a vector is a \<open>nat\<close>. The byte counts that the code computes in
    \<^verbatim>\<open>size_t\<close> are sums of two 32-bit values and at most 256 elements of at most 96
    bytes, far from the limit of the type.
  \<^item> A failing \<^verbatim>\<open>DE_ASSERT\<close>, an out-of-range \<^verbatim>\<open>vector::at\<close>, an out-of-range
    \<^verbatim>\<open>operator[]\<close> and a null dereference end the computation: the result is \<open>None\<close>.
    The macro \<^verbatim>\<open>DE_ASSERT\<close> is defined outside this file and is compiled out of release
    builds, so every function that asserts takes the build flavour \<open>dbg\<close> as a parameter.
  \<^item> The code is the one compiled without \<^verbatim>\<open>CTS_USES_VULKANSC\<close>. The creation of Vulkan
    objects (images, buffers, pipelines) by the device is taken to succeed; what the device
    answers about the depth/stencil formats is a parameter.
\<close>

subsection \<open>Scalars, vectors and Vulkan enumerations\<close>

type_synonym deUint8 = "8 word"
type_synonym deUint32 = "32 word"
type_synonym VkDeviceSize = "64 word"
type_synonym cfloat = rat
type_synonym Vec4 = "cfloat \<times> cfloat \<times> cfloat \<times> cfloat"
type_synonym UVec4 = "deUint32 \<times> deUint32 \<times> deUint32 \<times> deUint32"

definition DE_ASSERT :: "bool \<Rightarrow> bool \<Rightarrow> unit option" where
  "DE_ASSERT dbg cond = (if dbg \<and> \<not> cond then None else Some ())"

text \<open>The enumerators of \<^verbatim>\<open>vk::VkCompareOp\<close> that the file names.\<close>

datatype VkCompareOp =
    VK_COMPARE_OP_NEVER
  | VK_COMPARE_OP_LESS
  | VK_COMPARE_OP_EQUAL
  | VK_COMPARE_OP_LESS_OR_EQUAL
  | VK_COMPARE_OP_GREATER
  | VK_COMPARE_OP_NOT_EQUAL
  | VK_COMPARE_OP_GREATER_OR_EQUAL
  | VK_COMPARE_OP_ALWAYS

text \<open>The enumerators of \<^verbatim>\<open>vk::VkStencilOp\<close> that the file names, the placeholder
  \<^verbatim>\<open>VK_STENCIL_OP_MAX_ENUM\<close> included.\<close>

datatype VkStencilOp =
    VK_STENCIL_OP_KEEP
  | VK_STENCIL_OP_ZERO
  | VK_STENCIL_OP_REPLACE
  | VK_STENCIL_OP_INCREMENT_AND_CLAMP
  | VK_STENCIL_OP_DECREMENT_AND_CLAMP
  | VK_STENCIL_OP_INVERT
  | VK_STENCIL_OP_INCREMENT_AND_WRAP
  | VK_STENCIL_OP_DECREMENT_AND_WRAP
  | VK_STENCIL_OP_MAX_ENUM

datatype VkStencilFaceFlags =
    VK_STENCIL_FACE_FRONT_BIT
  | VK_STENCIL_FACE_BACK_BIT
  | VK_STENCIL_FACE_FRONT_AND_BACK
  | VK_STENCIL_FACE_FLAG_BITS_MAX_ENUM

datatype VkCullModeFlags =
    VK_CULL_MODE_NONE
  | VK_CULL_MODE_FRONT_BIT
  | VK_CULL_MODE_BACK_BIT
  | VK_CULL_MODE_FRONT_AND_BACK

datatype VkFrontFace =
    VK_FRONT_FACE_COUNTER_CLOCKWISE
  | VK_FRONT_FACE_CLOCKWISE

datatype VkLogicOp =
    VK_LOGIC_OP_CLEAR
  | VK_LOGIC_OP_OR

datatype VkPrimitiveTopology =
    VK_PRIMITIVE_TOPOLOGY_POINT_LIST
  | VK_PRIMITIVE_TOPOLOGY_LINE_LIST
  | VK_PRIMITIVE_TOPOLOGY_LINE_STRIP
  | VK_PRIMITIVE_TOPOLOGY_TRIANGLE_LIST
  | VK_PRIMITIVE_TOPOLOGY_TRIANGLE_STRIP
  | VK_PRIMITIVE_TOPOLOGY_TRIANGLE_FAN
  | VK_PRIMITIVE_TOPOLOGY_LINE_LIST_WITH_ADJACENCY
  | VK_PRIMITIVE_TOPOLOGY_LINE_STRIP_WITH_ADJACENCY
  | VK_PRIMITIVE_TOPOLOGY_TRIANGLE_LIST_WITH_ADJACENCY
  | VK_PRIMITIVE_TOPOLOGY_TRIANGLE_STRIP_WITH_ADJACENCY
  | VK_PRIMITIVE_TOPOLOGY_PATCH_LIST

text \<open>The dynamic states that the file names; \<open>VK_DYNAMIC_STATE_OTHER v\<close> stands for any
  other enumerator of \<^verbatim>\<open>vk::VkDynamicState\<close>, by its numeric value.\<close>

datatype VkDynamicState =
    VK_DYNAMIC_STATE_DEPTH_BIAS
  | VK_DYNAMIC_STATE_CULL_MODE_EXT
  | VK_DYNAMIC_STATE_FRONT_FACE_EXT
  | VK_DYNAMIC_STATE_PRIMITIVE_TOPOLOGY_EXT
  | VK_DYNAMIC_STATE_VIEWPORT_WITH_COUNT_EXT
  | VK_DYNAMIC_STATE_SCISSOR_WITH_COUNT_EXT
  | VK_DYNAMIC_STATE_VERTEX_INPUT_BINDING_STRIDE_EXT
  | VK_DYNAMIC_STATE_DEPTH_TEST_ENABLE_EXT
  | VK_DYNAMIC_STATE_DEPTH_WRITE_ENABLE_EXT
  | VK_DYNAMIC_STATE_DEPTH_COMPARE_OP_EXT
  | VK_DYNAMIC_STATE_DEPTH_BOUNDS_TEST_ENABLE_EXT
  | VK_DYNAMIC_STATE_STENCIL_TEST_ENABLE_EXT
  | VK_DYNAMIC_STATE_STENCIL_OP_EXT
  | VK_DYNAMIC_STATE_VERTEX_INPUT_EXT
  | VK_DYNAMIC_STATE_PATCH_CONTROL_POINTS_EXT
  | VK_DYNAMIC_STATE_RASTERIZER_DISCARD_ENABLE_EXT
  | VK_DYNAMIC_STATE_DEPTH_BIAS_ENABLE_EXT
  | VK_DYNAMIC_STATE_LOGIC_OP_EXT
  | VK_DYNAMIC_STATE_PRIMITIVE_RESTART_ENABLE_EXT
  | VK_DYNAMIC_STATE_OTHER int

subsection \<open>The stencil oracle\<close>

fun stencilPasses :: "bool \<Rightarrow> VkCompareOp \<Rightarrow> deUint8 \<Rightarrow> deUint8 \<Rightarrow> bool option" where
  "stencilPasses dbg VK_COMPARE_OP_NEVER storedValue referenceValue = Some False"
| "stencilPasses dbg VK_COMPARE_OP_LESS storedValue referenceValue =
     Some (referenceValue < storedValue)"
| "stencilPasses dbg VK_COMPARE_OP_EQUAL storedValue referenceValue =
     Some (referenceValue = storedValue)"
| "stencilPasses dbg VK_COMPARE_OP_LESS_OR_EQUAL storedValue referenceValue =
     Some (referenceValue \<le> storedValue)"
| "stencilPasses dbg VK_COMPARE_OP_GREATER storedValue referenceValue =
     Some (referenceValue > storedValue)"
| "stencilPasses dbg VK_COMPARE_OP_GREATER_OR_EQUAL storedValue referenceValue =
     Some (referenceValue \<ge> storedValue)"
| "stencilPasses dbg VK_COMPARE_OP_ALWAYS storedValue referenceValue = Some True"
| "stencilPasses dbg VK_COMPARE_OP_NOT_EQUAL storedValue referenceValue =
     do { DE_ASSERT dbg False; Some False }"

text \<open>\<^verbatim>\<open>static_cast<deUint8>(result + 1)\<close> adds in \<^verbatim>\<open>int\<close> and truncates to eight
  bits, which is the addition of \<open>8 word\<close>; likewise for \<^verbatim>\<open>result - 1\<close> and
  \<^verbatim>\<open>~result\<close>.\<close>

fun stencilResult ::
  "bool \<Rightarrow> VkStencilOp \<Rightarrow> deUint8 \<Rightarrow> deUint8 \<Rightarrow> deUint8 \<Rightarrow> deUint8 \<Rightarrow> deUint8 option" where
  "stencilResult dbg VK_STENCIL_OP_KEEP storedValue referenceValue minv maxv = Some storedValue"
| "stencilResult dbg VK_STENCIL_OP_ZERO storedValue referenceValue minv maxv = Some 0"
| "stencilResult dbg VK_STENCIL_OP_REPLACE storedValue referenceValue minv maxv =
     Some referenceValue"
| "stencilResult dbg VK_STENCIL_OP_INCREMENT_AND_CLAMP storedValue referenceValue minv maxv =
     Some (if storedValue = maxv then storedValue else storedValue + 1)"
| "stencilResult dbg VK_STENCIL_OP_DECREMENT_AND_CLAMP storedValue referenceValue minv maxv =
     Some (if storedValue = minv then storedValue else storedValue - 1)"
| "stencilResult dbg VK_STENCIL_OP_INVERT storedValue referenceValue minv maxv =
     Some (NOT storedValue)"
| "stencilResult dbg VK_STENCIL_OP_INCREMENT_AND_WRAP storedValue referenceValue minv maxv =
     Some (if storedValue = maxv then minv else storedValue + 1)"
| "stencilResult dbg VK_STENCIL_OP_DECREMENT_AND_WRAP storedValue referenceValue minv maxv =
     Some (if storedValue = minv then maxv else storedValue - 1)"
| "stencilResult dbg VK_STENCIL_OP_MAX_ENUM storedValue referenceValue minv maxv =
     do { DE_ASSERT dbg False; Some storedValue }"

subsection \<open>Static and dynamic pairs\<close>

record 'a StaticAndDynamicPair =
  staticValue :: 'a
  dynamicValue :: "'a option"

text \<open>The two helper constructors.\<close>

definition StaticOnly :: "'a \<Rightarrow> 'a StaticAndDynamicPair" where
  "StaticOnly v = \<lparr>staticValue = v, dynamicValue = None\<rparr>"

definition StaticAndDynamic :: "'a \<Rightarrow> 'a \<Rightarrow> 'a StaticAndDynamicPair" where
  "StaticAndDynamic sVal dVal = \<lparr>staticValue = sVal, dynamicValue = Some dVal\<rparr>"

text \<open>\<^verbatim>\<open>StaticAndDynamicPair::swapValues\<close>: return early without a dynamic value,
  \<^verbatim>\<open>std::swap\<close> otherwise.\<close>

definition swapValuesPair :: "'a StaticAndDynamicPair \<Rightarrow> 'a StaticAndDynamicPair" where
  "swapValuesPair p =
     (case dynamicValue p of
        None \<Rightarrow> p
      | Some d \<Rightarrow> p\<lparr>staticValue := d, dynamicValue := Some (staticValue p)\<rparr>)"

subsection \<open>Configuration data\<close>

text \<open>Framebuffer size.\<close>

definition kFramebufferWidth :: deUint32 where "kFramebufferWidth = 64"
definition kFramebufferHeight :: deUint32 where "kFramebufferHeight = 64"
definition kLinePointsPerRow :: deUint32 where "kLinePointsPerRow = 4"
definition kLineVertexCount :: deUint32 where
  "kLineVertexCount = kFramebufferHeight * kLinePointsPerRow"

type_synonym StrideVec = "VkDeviceSize list"

text \<open>The three vertex generator singletons. A \<^verbatim>\<open>const VertexGenerator*\<close> is a
  \<open>VertexGenerator option\<close>, \<open>None\<close> being the null pointer.\<close>

datatype VertexGenerator =
    VertexWithPadding
  | VertexWithExtraAttributes
  | MultipleBindingsVertex

text \<open>\<^verbatim>\<open>getVertexDataStrides\<close>: the \<^verbatim>\<open>sizeof\<close> of the vertex structs, with
  \<^verbatim>\<open>tcu::Vec2\<close> taking 8 bytes and \<^verbatim>\<open>tcu::Vec4\<close> 16.\<close>

fun getVertexDataStrides :: "VertexGenerator \<Rightarrow> StrideVec" where
  "getVertexDataStrides VertexWithPadding = [16]"
| "getVertexDataStrides VertexWithExtraAttributes = [96]"
| "getVertexDataStrides MultipleBindingsVertex = [8, 40, 8, 24, 8, 40]"

record StencilOpParams =
  faceMask :: VkStencilFaceFlags
  failOp :: VkStencilOp
  passOp :: VkStencilOp
  depthFailOp :: VkStencilOp
  compareOp :: VkCompareOp

definition kDefaultStencilOpParams :: StencilOpParams where
  "kDefaultStencilOpParams =
     \<lparr>faceMask = VK_STENCIL_FACE_FRONT_AND_BACK,
      failOp = VK_STENCIL_OP_KEEP,
      passOp = VK_STENCIL_OP_KEEP,
      depthFailOp = VK_STENCIL_OP_KEEP,
      compareOp = VK_COMPARE_OP_ALWAYS\<rparr>"

record DepthBiasParams =
  constantFactor :: cfloat
  clamp :: cfloat

definition kNoDepthBiasParams :: DepthBiasParams where
  "kNoDepthBiasParams = \<lparr>constantFactor = 0, clamp = 0\<rparr>"

type_synonym StencilOpVec = "StencilOpParams list"

definition kDefaultTriangleColor :: Vec4 where "kDefaultTriangleColor = (0, 0, 1, 1)"
definition kDefaultClearColor :: Vec4 where "kDefaultClearColor = (0, 0, 0, 1)"

record MeshParams =
  color :: Vec4
  depth :: cfloat
  reversed :: bool
  scaleX :: cfloat
  scaleY :: cfloat
  offsetX :: cfloat
  offsetY :: cfloat
  stripScale :: cfloat

text \<open>The constructor of \<^verbatim>\<open>MeshParams\<close> with all its default arguments.\<close>

definition MeshParams_default :: MeshParams where
  "MeshParams_default =
     \<lparr>color = kDefaultTriangleColor, depth = 0, reversed = False, scaleX = 1, scaleY = 1,
      offsetX = 0, offsetY = 0, stripScale = 0\<rparr>"

datatype SequenceOrdering =
    CMD_BUFFER_START
  | BEFORE_DRAW
  | BETWEEN_PIPELINES
  | AFTER_PIPELINES
  | BEFORE_GOOD_STATIC
  | TWO_DRAWS_DYNAMIC
  | TWO_DRAWS_STATIC

text \<open>The three reference colour strategies. \<open>SingleColorGenerator\<close> carries its three
  members \<^verbatim>\<open>m_colorFloat\<close>, \<^verbatim>\<open>m_colorUint\<close> and \<^verbatim>\<open>isUint\<close>.\<close>

datatype ReferenceColorGenerator =
    SingleColorGenerator Vec4 UVec4 bool
  | HorizontalSplitGenerator Vec4 Vec4
  | LastSegmentMissingGenerator Vec4 Vec4

definition SingleColorGenerator_Vec4 :: "Vec4 \<Rightarrow> ReferenceColorGenerator" where
  "SingleColorGenerator_Vec4 c = SingleColorGenerator c (0, 0, 0, 0) False"

definition SingleColorGenerator_UVec4 :: "UVec4 \<Rightarrow> ReferenceColorGenerator" where
  "SingleColorGenerator_UVec4 c = SingleColorGenerator (0, 0, 0, 0) c True"

text \<open>\<^verbatim>\<open>vk::VkClearValue\<close> as the file builds it, by the two framework helpers.\<close>

datatype VkClearValue =
    makeClearValueColor Vec4
  | makeClearValueColorU32 deUint32 deUint32 deUint32 deUint32

text \<open>Helpers of the test framework that the file calls and does not define; they are
  parameters of the model. \<open>'vp\<close> is \<^verbatim>\<open>vk::VkViewport\<close>, \<open>'sc\<close> is \<^verbatim>\<open>vk::VkRect2D\<close>.\<close>

record ('vp, 'sc) framework =
  makeViewport :: "deUint32 \<Rightarrow> deUint32 \<Rightarrow> 'vp"
  makeRect2D :: "deUint32 \<Rightarrow> deUint32 \<Rightarrow> 'sc"
  toString :: "int \<Rightarrow> string"

datatype TopologyClass = POINT | LINE | TRIANGLE | PATCH | INVALID

text \<open>\<^verbatim>\<open>getTopologyClass\<close>. Its \<^verbatim>\<open>default\<close> branch is not reached by any of the eleven
  topologies.\<close>

fun getTopologyClass :: "VkPrimitiveTopology \<Rightarrow> TopologyClass" where
  "getTopologyClass VK_PRIMITIVE_TOPOLOGY_POINT_LIST = POINT"
| "getTopologyClass VK_PRIMITIVE_TOPOLOGY_LINE_LIST = LINE"
| "getTopologyClass VK_PRIMITIVE_TOPOLOGY_LINE_STRIP = LINE"
| "getTopologyClass VK_PRIMITIVE_TOPOLOGY_LINE_LIST_WITH_ADJACENCY = LINE"
| "getTopologyClass VK_PRIMITIVE_TOPOLOGY_LINE_STRIP_WITH_ADJACENCY = LINE"
| "getTopologyClass VK_PRIMITIVE_TOPOLOGY_TRIANGLE_LIST = TRIANGLE"
| "getTopologyClass VK_PRIMITIVE_TOPOLOGY_TRIANGLE_STRIP = TRIANGLE"
| "getTopologyClass VK_PRIMITIVE_TOPOLOGY_TRIANGLE_FAN = TRIANGLE"
| "getTopologyClass VK_PRIMITIVE_TOPOLOGY_TRIANGLE_LIST_WITH_ADJACENCY = TRIANGLE"
| "getTopologyClass VK_PRIMITIVE_TOPOLOGY_TRIANGLE_STRIP_WITH_ADJACENCY = TRIANGLE"
| "getTopologyClass VK_PRIMITIVE_TOPOLOGY_PATCH_LIST = PATCH"

text \<open>Is a particular dynamic state incompatible with mesh shading pipelines?\<close>

fun isMeshShadingPipelineIncompatible :: "VkDynamicState \<Rightarrow> bool" where
  "isMeshShadingPipelineIncompatible VK_DYNAMIC_STATE_PRIMITIVE_TOPOLOGY_EXT = True"
| "isMeshShadingPipelineIncompatible VK_DYNAMIC_STATE_VERTEX_INPUT_BINDING_STRIDE_EXT = True"
| "isMeshShadingPipelineIncompatible VK_DYNAMIC_STATE_PRIMITIVE_RESTART_ENABLE_EXT = True"
| "isMeshShadingPipelineIncompatible VK_DYNAMIC_STATE_PATCH_CONTROL_POINTS_EXT = True"
| "isMeshShadingPipelineIncompatible VK_DYNAMIC_STATE_VERTEX_INPUT_EXT = True"
| "isMeshShadingPipelineIncompatible _ = False"

definition isMeshShadingPipelineCompatible :: "VkDynamicState \<Rightarrow> bool" where
  "isMeshShadingPipelineCompatible state = (\<not> isMeshShadingPipelineIncompatible state)"

subsection \<open>The test configuration\<close>

record ('pct, 'vp, 'sc) TestConfig =
  pipelineConstructionType :: 'pct
  sequenceOrdering :: SequenceOrdering
  meshParams :: "MeshParams list"
  referenceStencil :: deUint32
  clearColorValue :: VkClearValue
  clearDepthValue :: cfloat
  clearStencilValue :: deUint32
  referenceColor :: ReferenceColorGenerator
  expectedDepth :: cfloat
  expectedStencil :: deUint32
  minDepthBounds :: cfloat
  maxDepthBounds :: cfloat
  forceGeometryShader :: bool
  useMeshShaders :: bool
  bindUnusedMeshShadingPipeline :: bool
  singleVertex :: bool
  singleVertexDrawCount :: deUint32
  vertexDataOffset :: VkDeviceSize
  vertexDataExtraBytes :: VkDeviceSize
  useExtraDynPCPPipeline :: bool
  vertexGenerator :: "VertexGenerator option StaticAndDynamicPair"
  cullModeConfig :: "VkCullModeFlags StaticAndDynamicPair"
  frontFaceConfig :: "VkFrontFace StaticAndDynamicPair"
  topologyConfig :: "VkPrimitiveTopology StaticAndDynamicPair"
  viewportConfig :: "'vp list StaticAndDynamicPair"
  scissorConfig :: "'sc list StaticAndDynamicPair"
  strideConfig :: "StrideVec StaticAndDynamicPair"
  depthTestEnableConfig :: "bool StaticAndDynamicPair"
  depthWriteEnableConfig :: "bool StaticAndDynamicPair"
  depthCompareOpConfig :: "VkCompareOp StaticAndDynamicPair"
  depthBoundsTestEnableConfig :: "bool StaticAndDynamicPair"
  stencilTestEnableConfig :: "bool StaticAndDynamicPair"
  stencilOpConfig :: "StencilOpVec StaticAndDynamicPair"
  depthBiasEnableConfig :: "bool StaticAndDynamicPair"
  rastDiscardEnableConfig :: "bool StaticAndDynamicPair"
  primRestartEnableConfig :: "bool StaticAndDynamicPair"
  logicOpConfig :: "VkLogicOp StaticAndDynamicPair"
  patchControlPointsConfig :: "deUint8 StaticAndDynamicPair"
  depthBiasConfig :: "DepthBiasParams StaticAndDynamicPair"
  m_swappedValues :: bool

text \<open>Create the vertex generator pair depending on having none, only the static or both
  generators.\<close>

definition makeVertexGeneratorConfig ::
  "bool \<Rightarrow> VertexGenerator option \<Rightarrow> VertexGenerator option
     \<Rightarrow> VertexGenerator option StaticAndDynamicPair option" where
  "makeVertexGeneratorConfig dbg staticGen dynamicGen =
     do {
       DE_ASSERT dbg (\<not> (dynamicGen \<noteq> None \<and> \<not> staticGen \<noteq> None));
       if dynamicGen \<noteq> None then Some (StaticAndDynamic staticGen dynamicGen)
       else if staticGen \<noteq> None then Some (StaticOnly staticGen)
       else Some (StaticOnly (Some VertexWithPadding))
     }"

text \<open>Similar, choosing the final value. The pointer returned is never null, so the
  result is the generator pointed to.\<close>

definition chooseVertexGenerator ::
  "bool \<Rightarrow> VertexGenerator option \<Rightarrow> VertexGenerator option \<Rightarrow> VertexGenerator option" where
  "chooseVertexGenerator dbg staticGen dynamicGen =
     do {
       DE_ASSERT dbg (\<not> (dynamicGen \<noteq> None \<and> \<not> staticGen \<noteq> None));
       case dynamicGen of
         Some g \<Rightarrow> Some g
       | None \<Rightarrow> (case staticGen of Some g \<Rightarrow> Some g | None \<Rightarrow> Some VertexWithPadding)
     }"

text \<open>The constructor of \<^verbatim>\<open>TestConfig\<close> ("sane defaults"); members are initialised in
  declaration order.\<close>

definition TestConfig_new ::
  "bool \<Rightarrow> ('vp, 'sc) framework \<Rightarrow> 'pct \<Rightarrow> SequenceOrdering \<Rightarrow> bool
     \<Rightarrow> VertexGenerator option \<Rightarrow> VertexGenerator option
     \<Rightarrow> ('pct, 'vp, 'sc) TestConfig option" where
  "TestConfig_new dbg fw pipelineType ordering' useMeshShaders' staticVertexGenerator
       dynamicVertexGenerator =
     do {
       vgConfig \<leftarrow> makeVertexGeneratorConfig dbg staticVertexGenerator dynamicVertexGenerator;
       chosen \<leftarrow> chooseVertexGenerator dbg staticVertexGenerator dynamicVertexGenerator;
       Some
        \<lparr>pipelineConstructionType = pipelineType,
         sequenceOrdering = ordering',
         meshParams = [MeshParams_default],
         referenceStencil = 0,
         clearColorValue = makeClearValueColor kDefaultClearColor,
         clearDepthValue = 1,
         clearStencilValue = 0,
         referenceColor = SingleColorGenerator_Vec4 kDefaultTriangleColor,
         expectedDepth = 1,
         expectedStencil = 0,
         minDepthBounds = 0,
         maxDepthBounds = 1,
         forceGeometryShader = False,
         useMeshShaders = useMeshShaders',
         bindUnusedMeshShadingPipeline = False,
         singleVertex = False,
         singleVertexDrawCount = 0,
         vertexDataOffset = 0,
         vertexDataExtraBytes = 0,
         useExtraDynPCPPipeline = False,
         vertexGenerator = vgConfig,
         cullModeConfig = StaticOnly VK_CULL_MODE_NONE,
         frontFaceConfig = StaticOnly VK_FRONT_FACE_COUNTER_CLOCKWISE,
         topologyConfig = StaticOnly VK_PRIMITIVE_TOPOLOGY_TRIANGLE_STRIP,
         viewportConfig = StaticOnly [makeViewport fw kFramebufferWidth kFramebufferHeight],
         scissorConfig = StaticOnly [makeRect2D fw kFramebufferWidth kFramebufferHeight],
         strideConfig = StaticOnly (getVertexDataStrides chosen),
         depthTestEnableConfig = StaticOnly False,
         depthWriteEnableConfig = StaticOnly False,
         depthCompareOpConfig = StaticOnly VK_COMPARE_OP_NEVER,
         depthBoundsTestEnableConfig = StaticOnly False,
         stencilTestEnableConfig = StaticOnly False,
         stencilOpConfig = StaticOnly [kDefaultStencilOpParams],
         depthBiasEnableConfig = StaticOnly False,
         rastDiscardEnableConfig = StaticOnly False,
         primRestartEnableConfig = StaticOnly False,
         logicOpConfig = StaticOnly VK_LOGIC_OP_CLEAR,
         patchControlPointsConfig = StaticOnly 1,
         depthBiasConfig = StaticOnly kNoDepthBiasParams,
         m_swappedValues = False\<rparr>
     }"

text \<open>The active-value queries.\<close>

definition getActiveViewportVec :: "('pct, 'vp, 'sc) TestConfig \<Rightarrow> 'vp list" where
  "getActiveViewportVec c =
     (if dynamicValue (viewportConfig c) \<noteq> None \<and> \<not> m_swappedValues c
      then the (dynamicValue (viewportConfig c)) else staticValue (viewportConfig c))"

definition getActiveVertexGenerator ::
  "('pct, 'vp, 'sc) TestConfig \<Rightarrow> VertexGenerator option" where
  "getActiveVertexGenerator c =
     (if dynamicValue (vertexGenerator c) \<noteq> None \<and> \<not> m_swappedValues c
      then the (dynamicValue (vertexGenerator c)) else staticValue (vertexGenerator c))"

definition getInactiveVertexGenerator ::
  "('pct, 'vp, 'sc) TestConfig \<Rightarrow> VertexGenerator option" where
  "getInactiveVertexGenerator c =
     (if dynamicValue (vertexGenerator c) \<noteq> None \<and> m_swappedValues c
      then the (dynamicValue (vertexGenerator c)) else staticValue (vertexGenerator c))"

definition getActivePatchControlPoints :: "('pct, 'vp, 'sc) TestConfig \<Rightarrow> deUint32" where
  "getActivePatchControlPoints c =
     ucast (if dynamicValue (patchControlPointsConfig c) \<noteq> None \<and> \<not> m_swappedValues c
            then the (dynamicValue (patchControlPointsConfig c))
            else staticValue (patchControlPointsConfig c))"

definition getActiveDepthBiasParams :: "('pct, 'vp, 'sc) TestConfig \<Rightarrow> DepthBiasParams" where
  "getActiveDepthBiasParams c =
     (if dynamicValue (depthBiasConfig c) \<noteq> None \<and> \<not> m_swappedValues c
      then the (dynamicValue (depthBiasConfig c)) else staticValue (depthBiasConfig c))"

definition getActivePrimitiveRestartEnable :: "('pct, 'vp, 'sc) TestConfig \<Rightarrow> bool" where
  "getActivePrimitiveRestartEnable c =
     (if dynamicValue (primRestartEnableConfig c) \<noteq> None \<and> \<not> m_swappedValues c
      then the (dynamicValue (primRestartEnableConfig c))
      else staticValue (primRestartEnableConfig c))"

definition isMultiViewport :: "('pct, 'vp, 'sc) TestConfig \<Rightarrow> bool" where
  "isMultiViewport c = (length (getActiveViewportVec c) > 1)"

definition needsGeometryShader :: "('pct, 'vp, 'sc) TestConfig \<Rightarrow> bool" where
  "needsGeometryShader c =
     ((isMultiViewport c \<and> \<not> useMeshShaders c) \<or> forceGeometryShader c)"

text \<open>Returns true if we should use the static and dynamic values exchanged.\<close>

definition isReversed :: "('pct, 'vp, 'sc) TestConfig \<Rightarrow> bool" where
  "isReversed c =
     (sequenceOrdering c = BEFORE_GOOD_STATIC \<or> sequenceOrdering c = TWO_DRAWS_STATIC)"

text \<open>Swaps static and dynamic configuration values.\<close>

definition swapValues :: "('pct, 'vp, 'sc) TestConfig \<Rightarrow> ('pct, 'vp, 'sc) TestConfig" where
  "swapValues c =
     c\<lparr>vertexGenerator := swapValuesPair (vertexGenerator c),
       cullModeConfig := swapValuesPair (cullModeConfig c),
       frontFaceConfig := swapValuesPair (frontFaceConfig c),
       topologyConfig := swapValuesPair (topologyConfig c),
       viewportConfig := swapValuesPair (viewportConfig c),
       scissorConfig := swapValuesPair (scissorConfig c),
       strideConfig := swapValuesPair (strideConfig c),
       depthTestEnableConfig := swapValuesPair (depthTestEnableConfig c),
       depthWriteEnableConfig := swapValuesPair (depthWriteEnableConfig c),
       depthCompareOpConfig := swapValuesPair (depthCompareOpConfig c),
       depthBoundsTestEnableConfig := swapValuesPair (depthBoundsTestEnableConfig c),
       stencilTestEnableConfig := swapValuesPair (stencilTestEnableConfig c),
       stencilOpConfig := swapValuesPair (stencilOpConfig c),
       depthBiasEnableConfig := swapValuesPair (depthBiasEnableConfig c),
       rastDiscardEnableConfig := swapValuesPair (rastDiscardEnableConfig c),
       primRestartEnableConfig := swapValuesPair (primRestartEnableConfig c),
       logicOpConfig := swapValuesPair (logicOpConfig c),
       patchControlPointsConfig := swapValuesPair (patchControlPointsConfig c),
       depthBiasConfig := swapValuesPair (depthBiasConfig c),
       m_swappedValues := \<not> m_swappedValues c\<rparr>"

text \<open>Returns the number of iterations when recording commands.\<close>

definition numIterations :: "('pct, 'vp, 'sc) TestConfig \<Rightarrow> deUint32" where
  "numIterations c =
     (case sequenceOrdering c of
        TWO_DRAWS_DYNAMIC \<Rightarrow> 2
      | TWO_DRAWS_STATIC \<Rightarrow> 2
      | _ \<Rightarrow> 1)"

definition testLogicOp :: "('pct, 'vp, 'sc) TestConfig \<Rightarrow> bool" where
  "testLogicOp c = (dynamicValue (logicOpConfig c) \<noteq> None)"

definition testPatchControlPoints :: "('pct, 'vp, 'sc) TestConfig \<Rightarrow> bool" where
  "testPatchControlPoints c = (dynamicValue (patchControlPointsConfig c) \<noteq> None)"

definition patchesTopology :: "('pct, 'vp, 'sc) TestConfig \<Rightarrow> bool" where
  "patchesTopology c = (getTopologyClass (staticValue (topologyConfig c)) = PATCH)"

definition needsTessellation :: "('pct, 'vp, 'sc) TestConfig \<Rightarrow> bool" where
  "needsTessellation c = (testPatchControlPoints c \<or> patchesTopology c)"

text \<open>Returns true if the test needs an index buffer. The second assertion compares
  constants.\<close>

definition needsIndexBuffer :: "bool \<Rightarrow> ('pct, 'vp, 'sc) TestConfig \<Rightarrow> bool option" where
  "needsIndexBuffer dbg c =
     (if dynamicValue (primRestartEnableConfig c) \<noteq> None
      then do {
        DE_ASSERT dbg (getTopologyClass (staticValue (topologyConfig c)) = LINE);
        DE_ASSERT dbg (kLineVertexCount = 255 + 1);
        Some True
      }
      else Some False)"

text \<open>Returns the list of dynamic states affected by this config.\<close>

definition getDynamicStates :: "('pct, 'vp, 'sc) TestConfig \<Rightarrow> VkDynamicState list" where
  "getDynamicStates c =
     (if dynamicValue (depthBiasConfig c) \<noteq> None then [VK_DYNAMIC_STATE_DEPTH_BIAS] else [])
   @ (if dynamicValue (cullModeConfig c) \<noteq> None then [VK_DYNAMIC_STATE_CULL_MODE_EXT] else [])
   @ (if dynamicValue (frontFaceConfig c) \<noteq> None then [VK_DYNAMIC_STATE_FRONT_FACE_EXT] else [])
   @ (if dynamicValue (topologyConfig c) \<noteq> None
      then [VK_DYNAMIC_STATE_PRIMITIVE_TOPOLOGY_EXT] else [])
   @ (if dynamicValue (viewportConfig c) \<noteq> None
      then [VK_DYNAMIC_STATE_VIEWPORT_WITH_COUNT_EXT] else [])
   @ (if dynamicValue (scissorConfig c) \<noteq> None
      then [VK_DYNAMIC_STATE_SCISSOR_WITH_COUNT_EXT] else [])
   @ (if dynamicValue (strideConfig c) \<noteq> None
      then [VK_DYNAMIC_STATE_VERTEX_INPUT_BINDING_STRIDE_EXT] else [])
   @ (if dynamicValue (depthTestEnableConfig c) \<noteq> None
      then [VK_DYNAMIC_STATE_DEPTH_TEST_ENABLE_EXT] else [])
   @ (if dynamicValue (depthWriteEnableConfig c) \<noteq> None
      then [VK_DYNAMIC_STATE_DEPTH_WRITE_ENABLE_EXT] else [])
   @ (if dynamicValue (depthCompareOpConfig c) \<noteq> None
      then [VK_DYNAMIC_STATE_DEPTH_COMPARE_OP_EXT] else [])
   @ (if dynamicValue (depthBoundsTestEnableConfig c) \<noteq> None
      then [VK_DYNAMIC_STATE_DEPTH_BOUNDS_TEST_ENABLE_EXT] else [])
   @ (if dynamicValue (stencilTestEnableConfig c) \<noteq> None
      then [VK_DYNAMIC_STATE_STENCIL_TEST_ENABLE_EXT] else [])
   @ (if dynamicValue (stencilOpConfig c) \<noteq> None then [VK_DYNAMIC_STATE_STENCIL_OP_EXT] else [])
   @ (if dynamicValue (vertexGenerator c) \<noteq> None then [VK_DYNAMIC_STATE_VERTEX_INPUT_EXT] else [])
   @ (if dynamicValue (patchControlPointsConfig c) \<noteq> None
      then [VK_DYNAMIC_STATE_PATCH_CONTROL_POINTS_EXT] else [])
   @ (if dynamicValue (rastDiscardEnableConfig c) \<noteq> None
      then [VK_DYNAMIC_STATE_RASTERIZER_DISCARD_ENABLE_EXT] else [])
   @ (if dynamicValue (depthBiasEnableConfig c) \<noteq> None
      then [VK_DYNAMIC_STATE_DEPTH_BIAS_ENABLE_EXT] else [])
   @ (if dynamicValue (logicOpConfig c) \<noteq> None then [VK_DYNAMIC_STATE_LOGIC_OP_EXT] else [])
   @ (if dynamicValue (primRestartEnableConfig c) \<noteq> None
      then [VK_DYNAMIC_STATE_PRIMITIVE_RESTART_ENABLE_EXT] else [])"

text \<open>Returns true if the test configuration uses dynamic states which are incompatible
  with mesh shading pipelines (\<^verbatim>\<open>std::any_of\<close> over the list).\<close>

definition badMeshShadingPipelineDynState :: "('pct, 'vp, 'sc) TestConfig \<Rightarrow> bool" where
  "badMeshShadingPipelineDynState c =
     list_ex isMeshShadingPipelineIncompatible (getDynamicStates c)"

text \<open>The start of \<^verbatim>\<open>ExtendedDynamicStateInstance::iterate\<close>: the instance's copy of the
  configuration is swapped when the ordering is a reversed one, before any resource is
  created and any command is recorded. This is the only call of \<^verbatim>\<open>swapValues\<close>.\<close>

definition iterate_config :: "('pct, 'vp, 'sc) TestConfig \<Rightarrow> ('pct, 'vp, 'sc) TestConfig" where
  "iterate_config m_testConfig =
     (let kReversed = isReversed m_testConfig
      in if kReversed then swapValues m_testConfig else m_testConfig)"

subsection \<open>Recording the command buffer\<close>

text \<open>Checked element access: \<^verbatim>\<open>vector::at\<close> throws and \<^verbatim>\<open>operator[]\<close>,
  \<^verbatim>\<open>front\<close> and \<^verbatim>\<open>back\<close> are undefined out of range.\<close>

definition at_opt :: "'a list \<Rightarrow> nat \<Rightarrow> 'a option" where
  "at_opt xs i = (if i < length xs then Some (xs ! i) else None)"

definition modify_at :: "nat \<Rightarrow> ('a \<Rightarrow> 'a) \<Rightarrow> 'a list \<Rightarrow> 'a list option" where
  "modify_at i f xs = (if i < length xs then Some (xs[i := f (xs ! i)]) else None)"

text \<open>A loop whose body appends to an output sequence and may fail.\<close>

fun concatMapM :: "('a \<Rightarrow> 'b list option) \<Rightarrow> 'a list \<Rightarrow> 'b list option" where
  "concatMapM f [] = Some []"
| "concatMapM f (x # xs) = do { a \<leftarrow> f x; b \<leftarrow> concatMapM f xs; Some (a @ b) }"

datatype VkBool32 = VK_TRUE | VK_FALSE

definition makeVkBool32 :: "bool \<Rightarrow> VkBool32" where
  "makeVkBool32 v = (if v then VK_TRUE else VK_FALSE)"

datatype VkVertexInputRate = VK_VERTEX_INPUT_RATE_VERTEX | VK_VERTEX_INPUT_RATE_INSTANCE

datatype VkFormat =
    VK_FORMAT_R32G32_SFLOAT
  | VK_FORMAT_R32G32B32A32_SFLOAT
  | VK_FORMAT_D32_SFLOAT_S8_UINT
  | VK_FORMAT_D24_UNORM_S8_UINT

text \<open>The depth/stencil formats in order of preference. The second threshold is the
  \<^verbatim>\<open>float\<close> that the literal \<^verbatim>\<open>1.0e-07f\<close> denotes.\<close>

record DepthStencilFormat =
  imageFormat :: VkFormat
  depthThreshold :: cfloat

definition kDepthStencilFormats :: "DepthStencilFormat list" where
  "kDepthStencilFormats =
     [\<lparr>imageFormat = VK_FORMAT_D32_SFLOAT_S8_UINT, depthThreshold = 0\<rparr>,
      \<lparr>imageFormat = VK_FORMAT_D24_UNORM_S8_UINT, depthThreshold = 14073749 / 2 ^ 47\<rparr>]"

record VkVertexInputBindingDescription2EXT =
  vibd_binding :: deUint32
  vibd_stride :: deUint32
  vibd_inputRate :: VkVertexInputRate
  vibd_divisor :: deUint32

record VkVertexInputAttributeDescription2EXT =
  viad_location :: deUint32
  viad_binding :: deUint32
  viad_format :: VkFormat
  viad_offset :: deUint32

definition makeVertexInputAttributeDescription2EXT ::
  "deUint32 \<Rightarrow> deUint32 \<Rightarrow> VkFormat \<Rightarrow> deUint32 \<Rightarrow> VkVertexInputAttributeDescription2EXT" where
  "makeVertexInputAttributeDescription2EXT l b f off =
     \<lparr>viad_location = l, viad_binding = b, viad_format = f, viad_offset = off\<rparr>"

definition makeVertexInputBindingDescription2EXT ::
  "deUint32 \<Rightarrow> deUint32 \<Rightarrow> VkVertexInputRate \<Rightarrow> VkVertexInputBindingDescription2EXT" where
  "makeVertexInputBindingDescription2EXT b stride rate =
     \<lparr>vibd_binding = b, vibd_stride = stride, vibd_inputRate = rate, vibd_divisor = 1\<rparr>"

text \<open>\<^verbatim>\<open>getAttributeDescriptions2\<close>; the offsets are the \<^verbatim>\<open>offsetof\<close> of the vertex
  structs.\<close>

fun getAttributeDescriptions2 ::
  "VertexGenerator \<Rightarrow> VkVertexInputAttributeDescription2EXT list" where
  "getAttributeDescriptions2 VertexWithPadding =
     [makeVertexInputAttributeDescription2EXT 0 0 VK_FORMAT_R32G32_SFLOAT 0]"
| "getAttributeDescriptions2 VertexWithExtraAttributes =
     [makeVertexInputAttributeDescription2EXT 0 0 VK_FORMAT_R32G32_SFLOAT 0,
      makeVertexInputAttributeDescription2EXT 1 0 VK_FORMAT_R32G32_SFLOAT 88]"
| "getAttributeDescriptions2 MultipleBindingsVertex =
     [makeVertexInputAttributeDescription2EXT 2 5 VK_FORMAT_R32G32B32A32_SFLOAT 0,
      makeVertexInputAttributeDescription2EXT 1 3 VK_FORMAT_R32G32_SFLOAT 8,
      makeVertexInputAttributeDescription2EXT 0 1 VK_FORMAT_R32G32_SFLOAT 32]"

text \<open>\<^verbatim>\<open>getBindingDescriptions2\<close>: \<^verbatim>\<open>strides.at(i)\<close> throws when the stride vector is
  too short.\<close>

fun getBindingDescriptions2 ::
  "VertexGenerator \<Rightarrow> StrideVec \<Rightarrow> VkVertexInputBindingDescription2EXT list option" where
  "getBindingDescriptions2 VertexWithPadding strides =
     do {
       s0 \<leftarrow> at_opt strides 0;
       Some [makeVertexInputBindingDescription2EXT 0 (ucast s0) VK_VERTEX_INPUT_RATE_VERTEX]
     }"
| "getBindingDescriptions2 VertexWithExtraAttributes strides =
     do {
       s0 \<leftarrow> at_opt strides 0;
       Some [makeVertexInputBindingDescription2EXT 0 (ucast s0) VK_VERTEX_INPUT_RATE_VERTEX]
     }"
| "getBindingDescriptions2 MultipleBindingsVertex strides =
     do {
       s2 \<leftarrow> at_opt strides 2;
       s0 \<leftarrow> at_opt strides 0;
       s1 \<leftarrow> at_opt strides 1;
       s5 \<leftarrow> at_opt strides 5;
       s4 \<leftarrow> at_opt strides 4;
       s3 \<leftarrow> at_opt strides 3;
       Some [makeVertexInputBindingDescription2EXT 2 (ucast s2) VK_VERTEX_INPUT_RATE_INSTANCE,
             makeVertexInputBindingDescription2EXT 0 (ucast s0) VK_VERTEX_INPUT_RATE_INSTANCE,
             makeVertexInputBindingDescription2EXT 1 (ucast s1) VK_VERTEX_INPUT_RATE_VERTEX,
             makeVertexInputBindingDescription2EXT 5 (ucast s5) VK_VERTEX_INPUT_RATE_VERTEX,
             makeVertexInputBindingDescription2EXT 4 (ucast s4) VK_VERTEX_INPUT_RATE_INSTANCE,
             makeVertexInputBindingDescription2EXT 3 (ucast s3) VK_VERTEX_INPUT_RATE_VERTEX]
     }"

text \<open>\<^verbatim>\<open>getBindingDescriptions\<close>, for the vertex input state of the pipelines. The
  framework helper \<^verbatim>\<open>vk::makeVertexInputBindingDescription\<close> fills the three members.\<close>

record VkVertexInputBindingDescription =
  ibd_binding :: deUint32
  ibd_stride :: deUint32
  ibd_inputRate :: VkVertexInputRate

definition makeVertexInputBindingDescription ::
  "deUint32 \<Rightarrow> deUint32 \<Rightarrow> VkVertexInputRate \<Rightarrow> VkVertexInputBindingDescription" where
  "makeVertexInputBindingDescription b stride rate =
     \<lparr>ibd_binding = b, ibd_stride = stride, ibd_inputRate = rate\<rparr>"

fun getBindingDescriptions ::
  "VertexGenerator \<Rightarrow> StrideVec \<Rightarrow> VkVertexInputBindingDescription list option" where
  "getBindingDescriptions VertexWithPadding strides =
     do {
       s0 \<leftarrow> at_opt strides 0;
       Some [makeVertexInputBindingDescription 0 (ucast s0) VK_VERTEX_INPUT_RATE_VERTEX]
     }"
| "getBindingDescriptions VertexWithExtraAttributes strides =
     do {
       s0 \<leftarrow> at_opt strides 0;
       Some [makeVertexInputBindingDescription 0 (ucast s0) VK_VERTEX_INPUT_RATE_VERTEX]
     }"
| "getBindingDescriptions MultipleBindingsVertex strides =
     do {
       s2 \<leftarrow> at_opt strides 2;
       s0 \<leftarrow> at_opt strides 0;
       s1 \<leftarrow> at_opt strides 1;
       s4 \<leftarrow> at_opt strides 4;
       s3 \<leftarrow> at_opt strides 3;
       s5 \<leftarrow> at_opt strides 5;
       Some [makeVertexInputBindingDescription 2 (ucast s2) VK_VERTEX_INPUT_RATE_INSTANCE,
             makeVertexInputBindingDescription 0 (ucast s0) VK_VERTEX_INPUT_RATE_INSTANCE,
             makeVertexInputBindingDescription 1 (ucast s1) VK_VERTEX_INPUT_RATE_VERTEX,
             makeVertexInputBindingDescription 4 (ucast s4) VK_VERTEX_INPUT_RATE_INSTANCE,
             makeVertexInputBindingDescription 3 (ucast s3) VK_VERTEX_INPUT_RATE_VERTEX,
             makeVertexInputBindingDescription 5 (ucast s5) VK_VERTEX_INPUT_RATE_VERTEX]
     }"

text \<open>The vertex structs that the generators write into their buffers (the template
  argument of \<^verbatim>\<open>createSingleBindingVertexData\<close>), with their \<^verbatim>\<open>sizeof\<close>.\<close>

type_synonym Vec2 = "cfloat \<times> cfloat"

datatype VertexStruct =
    VertexWithPadding_VertexData
  | VertexWithExtraAttributes_VertexData
  | Zeros
  | PaddingOnes
  | CoordsData
  | OneZeroPadding

fun sizeof_T :: "VertexStruct \<Rightarrow> nat" where
  "sizeof_T VertexWithPadding_VertexData = 16"
| "sizeof_T VertexWithExtraAttributes_VertexData = 96"
| "sizeof_T Zeros = 8"
| "sizeof_T PaddingOnes = 40"
| "sizeof_T CoordsData = 24"
| "sizeof_T OneZeroPadding = 40"

text \<open>The byte vector that \<^verbatim>\<open>createSingleBindingVertexData\<close> returns, by what determines
  it: the number of bytes of the padding pattern at its start, one vertex struct for each
  coordinate, and the number of bytes of the padding pattern at its end.\<close>

record VertexDataBytes =
  leadingBytes :: nat
  vertexStruct :: VertexStruct
  vertexCoords :: "Vec2 list"
  trailingBytes :: nat

text \<open>\<^verbatim>\<open>de::dataSize\<close> of such a vector.\<close>

definition dataSize :: "VertexDataBytes \<Rightarrow> nat" where
  "dataSize bufferBytes =
     leadingBytes bufferBytes
     + length (vertexCoords bufferBytes) * sizeof_T (vertexStruct bufferBytes)
     + trailingBytes bufferBytes"

text \<open>Create a single binding vertex data vector given a type T for vertex data.\<close>

definition createSingleBindingVertexData ::
  "bool \<Rightarrow> VertexStruct \<Rightarrow> Vec2 list \<Rightarrow> VkDeviceSize \<Rightarrow> VkDeviceSize
     \<Rightarrow> VertexDataBytes option" where
  "createSingleBindingVertexData dbg T coords dataOffset trailingPadding =
     do {
       DE_ASSERT dbg (\<not> coords = []);
       let dataOffsetSz = unat dataOffset;
       let trailingPaddingSz = unat trailingPadding;
       Some \<lparr>leadingBytes = dataOffsetSz, vertexStruct = T, vertexCoords = coords,
             trailingBytes = trailingPaddingSz\<rparr>
     }"

text \<open>\<^verbatim>\<open>createVertexData\<close>: one byte vector for each binding.\<close>

fun createVertexData ::
  "bool \<Rightarrow> VertexGenerator \<Rightarrow> Vec2 list \<Rightarrow> VkDeviceSize \<Rightarrow> VkDeviceSize
     \<Rightarrow> VertexDataBytes list option" where
  "createVertexData dbg VertexWithPadding coords dataOffset trailingPadding =
     do {
       b \<leftarrow> createSingleBindingVertexData dbg VertexWithPadding_VertexData coords dataOffset
              trailingPadding;
       Some [b]
     }"
| "createVertexData dbg VertexWithExtraAttributes coords dataOffset trailingPadding =
     do {
       b \<leftarrow> createSingleBindingVertexData dbg VertexWithExtraAttributes_VertexData coords
              dataOffset trailingPadding;
       Some [b]
     }"
| "createVertexData dbg MultipleBindingsVertex coords dataOffset trailingPadding =
     do {
       b0 \<leftarrow> createSingleBindingVertexData dbg Zeros coords dataOffset trailingPadding;
       b1 \<leftarrow> createSingleBindingVertexData dbg PaddingOnes coords dataOffset trailingPadding;
       b2 \<leftarrow> createSingleBindingVertexData dbg Zeros coords dataOffset trailingPadding;
       b3 \<leftarrow> createSingleBindingVertexData dbg CoordsData coords dataOffset trailingPadding;
       b4 \<leftarrow> createSingleBindingVertexData dbg Zeros coords dataOffset trailingPadding;
       b5 \<leftarrow> createSingleBindingVertexData dbg OneZeroPadding coords dataOffset trailingPadding;
       Some [b0, b1, b2, b3, b4, b5]
     }"

text \<open>A buffer that \<^verbatim>\<open>prepareVertexBuffers\<close> creates, by its size, its usage (storage
  buffer or vertex buffer) and the bytes copied into it; and \<^verbatim>\<open>VertexBufferInfo\<close>.\<close>

record BufferWithMemory =
  buf_size :: VkDeviceSize
  buf_storage :: bool
  buf_bytes :: VertexDataBytes

record VertexBufferInfo =
  vbi_buffer :: BufferWithMemory
  vbi_offset :: VkDeviceSize
  vbi_dataSize :: VkDeviceSize

text \<open>The four pipelines that \<^verbatim>\<open>iterate\<close> builds. \<open>graphicsPipeline\<close> is the dynamic
  pipeline.\<close>

datatype Pipeline =
    staticPipeline
  | graphicsPipeline
  | meshNoOutPipeline
  | extraDynPCPPipeline

record PushConstants =
  triangleColor :: Vec4
  meshDepth :: cfloat
  viewPortIndex :: deUint32
  pc_scaleX :: cfloat
  pc_scaleY :: cfloat
  pc_offsetX :: cfloat
  pc_offsetY :: cfloat
  pc_stripScale :: cfloat

text \<open>The commands recorded into the command buffer, with the arguments that depend on
  the configuration. \<open>'buf\<close> is \<^verbatim>\<open>VertexBufferInfo\<close>: a vertex buffer binding command
  takes the buffers, offsets and sizes of its list. \<open>CmdBeginRenderPass i\<close> begins the
  render pass on \<^verbatim>\<open>framebuffers[i]\<close>.\<close>

datatype ('vp, 'sc, 'buf) Cmd =
    CmdBeginCommandBuffer
  | CmdEndCommandBuffer
  | CmdSetCullMode VkCullModeFlags
  | CmdSetFrontFace VkFrontFace
  | CmdSetPrimitiveTopology VkPrimitiveTopology
  | CmdSetViewportWithCount deUint32 "'vp list"
  | CmdSetScissorWithCount deUint32 "'sc list"
  | CmdSetDepthTestEnable VkBool32
  | CmdSetDepthWriteEnable VkBool32
  | CmdSetDepthCompareOp VkCompareOp
  | CmdSetDepthBoundsTestEnable VkBool32
  | CmdSetStencilTestEnable VkBool32
  | CmdSetDepthBiasEnable VkBool32
  | CmdSetDepthBias cfloat cfloat cfloat
  | CmdSetRasterizerDiscardEnable VkBool32
  | CmdSetPrimitiveRestartEnable VkBool32
  | CmdSetLogicOpEXT VkLogicOp
  | CmdSetPatchControlPointsEXT deUint32
  | CmdSetStencilOp VkStencilFaceFlags VkStencilOp VkStencilOp VkStencilOp VkCompareOp
  | CmdSetVertexInputEXT deUint32 "VkVertexInputBindingDescription2EXT list"
      deUint32 "VkVertexInputAttributeDescription2EXT list"
  | CmdBindVertexBuffers2 deUint32 deUint32 "'buf list" StrideVec
  | CmdBindVertexBuffers deUint32 deUint32 "'buf list"
  | CmdBindIndexBuffer
  | CmdBindDescriptorSets bool
  | CmdBeginRenderPass deUint32
  | CmdEndRenderPass
  | CmdBindPipeline Pipeline
  | CmdPushConstants PushConstants
  | CmdDraw deUint32 deUint32 deUint32 deUint32
  | CmdDrawIndexed deUint32 deUint32 deUint32 deUint32 deUint32
  | CmdDrawMeshTasksEXT deUint32 deUint32 deUint32

text \<open>Sets values for dynamic states if needed according to the test configuration. The
  vertex input command is the last one recorded; the null generator and the short stride
  vector that make it fail are looked at first here, which does not change the result.\<close>

definition setDynamicStates ::
  "('pct, 'vp, 'sc) TestConfig \<Rightarrow> ('vp, 'sc, 'buf) Cmd list option" where
  "setDynamicStates testConfig =
     do {
       vertexInput \<leftarrow>
         (case dynamicValue (vertexGenerator testConfig) of
            None \<Rightarrow> Some []
          | Some generatorPtr \<Rightarrow>
              do {
                generator \<leftarrow> generatorPtr;
                bindings \<leftarrow> getBindingDescriptions2 generator
                              (staticValue (strideConfig testConfig));
                let attributes = getAttributeDescriptions2 generator;
                Some [CmdSetVertexInputEXT (of_nat (length bindings)) bindings
                        (of_nat (length attributes)) attributes]
              });
       Some (
         (case dynamicValue (cullModeConfig testConfig) of
            None \<Rightarrow> [] | Some v \<Rightarrow> [CmdSetCullMode v])
       @ (case dynamicValue (frontFaceConfig testConfig) of
            None \<Rightarrow> [] | Some v \<Rightarrow> [CmdSetFrontFace v])
       @ (case dynamicValue (topologyConfig testConfig) of
            None \<Rightarrow> [] | Some v \<Rightarrow> [CmdSetPrimitiveTopology v])
       @ (case dynamicValue (viewportConfig testConfig) of
            None \<Rightarrow> []
          | Some viewports \<Rightarrow> [CmdSetViewportWithCount (of_nat (length viewports)) viewports])
       @ (case dynamicValue (scissorConfig testConfig) of
            None \<Rightarrow> []
          | Some scissors \<Rightarrow> [CmdSetScissorWithCount (of_nat (length scissors)) scissors])
       @ (case dynamicValue (depthTestEnableConfig testConfig) of
            None \<Rightarrow> [] | Some v \<Rightarrow> [CmdSetDepthTestEnable (makeVkBool32 v)])
       @ (case dynamicValue (depthWriteEnableConfig testConfig) of
            None \<Rightarrow> [] | Some v \<Rightarrow> [CmdSetDepthWriteEnable (makeVkBool32 v)])
       @ (case dynamicValue (depthCompareOpConfig testConfig) of
            None \<Rightarrow> [] | Some v \<Rightarrow> [CmdSetDepthCompareOp v])
       @ (case dynamicValue (depthBoundsTestEnableConfig testConfig) of
            None \<Rightarrow> [] | Some v \<Rightarrow> [CmdSetDepthBoundsTestEnable (makeVkBool32 v)])
       @ (case dynamicValue (stencilTestEnableConfig testConfig) of
            None \<Rightarrow> [] | Some v \<Rightarrow> [CmdSetStencilTestEnable (makeVkBool32 v)])
       @ (case dynamicValue (depthBiasEnableConfig testConfig) of
            None \<Rightarrow> [] | Some v \<Rightarrow> [CmdSetDepthBiasEnable (makeVkBool32 v)])
       @ (case dynamicValue (depthBiasConfig testConfig) of
            None \<Rightarrow> []
          | Some bias \<Rightarrow> [CmdSetDepthBias (constantFactor bias) (clamp bias) 0])
       @ (case dynamicValue (rastDiscardEnableConfig testConfig) of
            None \<Rightarrow> [] | Some v \<Rightarrow> [CmdSetRasterizerDiscardEnable (makeVkBool32 v)])
       @ (case dynamicValue (primRestartEnableConfig testConfig) of
            None \<Rightarrow> [] | Some v \<Rightarrow> [CmdSetPrimitiveRestartEnable (makeVkBool32 v)])
       @ (case dynamicValue (logicOpConfig testConfig) of
            None \<Rightarrow> [] | Some v \<Rightarrow> [CmdSetLogicOpEXT v])
       @ (case dynamicValue (patchControlPointsConfig testConfig) of
            None \<Rightarrow> [] | Some v \<Rightarrow> [CmdSetPatchControlPointsEXT (ucast v)])
       @ (case dynamicValue (stencilOpConfig testConfig) of
            None \<Rightarrow> []
          | Some paramsVec \<Rightarrow>
              map (\<lambda>params. CmdSetStencilOp (faceMask params) (failOp params) (passOp params)
                                (depthFailOp params) (compareOp params)) paramsVec)
       @ vertexInput)
     }"

text \<open>What \<^verbatim>\<open>iterate\<close> has built before it records: the sizes of \<^verbatim>\<open>vertices\<close> and
  \<^verbatim>\<open>indices\<close>, and the vertex buffers of the normal and the reversed mesh.\<close>

record 'buf Geometry =
  verticesSize :: nat
  indicesSize :: nat
  vertBuffers :: "'buf list"
  rvertBuffers :: "'buf list"

text \<open>Bind the appropriate vertex buffers using dynamic strides if the test configuration
  needs a dynamic stride. Return true if the vertex buffer was bound.\<close>

definition maybeBindVertexBufferDynStride ::
  "bool \<Rightarrow> ('pct, 'vp, 'sc) TestConfig \<Rightarrow> nat \<Rightarrow> 'buf Geometry
     \<Rightarrow> (bool \<times> ('vp, 'sc, 'buf) Cmd list) option" where
  "maybeBindVertexBufferDynStride dbg testConfig meshIdx geo =
     (if \<not> dynamicValue (strideConfig testConfig) \<noteq> None then Some (False, [])
      else do {
        DE_ASSERT dbg (\<not> useMeshShaders testConfig);
        let viewportVec = getActiveViewportVec testConfig;
        DE_ASSERT dbg ((length viewportVec = 1 \<and> length (meshParams testConfig) = 1)
                       \<or> sequenceOrdering testConfig = BEFORE_DRAW
                       \<or> sequenceOrdering testConfig = AFTER_PIPELINES);
        let strides = the (dynamicValue (strideConfig testConfig));
        mesh \<leftarrow> at_opt (meshParams testConfig) meshIdx;
        let chosenBuffers = (if reversed mesh then rvertBuffers geo else vertBuffers geo);
        DE_ASSERT dbg (length chosenBuffers = length strides);
        Some (True, [CmdBindVertexBuffers2 0 (of_nat (length chosenBuffers)) chosenBuffers strides])
      })"

text \<open>Bind the given vertex buffers with the non-dynamic call.\<close>

definition bindVertexBuffers :: "'buf list \<Rightarrow> ('vp, 'sc, 'buf) Cmd list" where
  "bindVertexBuffers vertexBuffers =
     [CmdBindVertexBuffers 0 (of_nat (length vertexBuffers)) vertexBuffers]"

text \<open>Create a vector of \<^verbatim>\<open>VertexBufferInfo\<close> elements using the given vertex generator
  and set of vertices. Both callers pass an empty vector to fill. The sum of the offset
  and the trailing size is computed in 32 bits.\<close>

definition prepareVertexBuffers ::
  "bool \<Rightarrow> VertexGenerator option \<Rightarrow> Vec2 list \<Rightarrow> deUint32 \<Rightarrow> deUint32 \<Rightarrow> bool
     \<Rightarrow> VertexBufferInfo list option" where
  "prepareVertexBuffers dbg generatorPtr vertices dataOffset trailingSize ssbos =
     do {
       generator \<leftarrow> generatorPtr;
       vertexData \<leftarrow> createVertexData dbg generator vertices (ucast dataOffset)
                       (ucast trailingSize);
       concatMapM (\<lambda>bufferBytes.
           do {
             let bufferSize = (of_nat (dataSize bufferBytes) :: VkDeviceSize);
             let extraSize = (ucast (dataOffset + trailingSize) :: VkDeviceSize);
             DE_ASSERT dbg (bufferSize > extraSize);
             let dataSize' = bufferSize - extraSize;
             Some [\<lparr>vbi_buffer = \<lparr>buf_size = bufferSize, buf_storage = ssbos,
                                   buf_bytes = bufferBytes\<rparr>,
                    vbi_offset = ucast dataOffset,
                    vbi_dataSize = dataSize'\<rparr>]
           })
         vertexData
     }"

text \<open>\<^verbatim>\<open>setDynamicStates\<close> followed by \<^verbatim>\<open>maybeBindVertexBufferDynStride\<close>, as the
  recording loop calls them at each of its timing points.\<close>

definition setStatesAndBind ::
  "bool \<Rightarrow> ('pct, 'vp, 'sc) TestConfig \<Rightarrow> nat \<Rightarrow> 'buf Geometry
     \<Rightarrow> (bool \<times> ('vp, 'sc, 'buf) Cmd list) option" where
  "setStatesAndBind dbg testConfig meshIdx geo =
     do {
       states \<leftarrow> setDynamicStates testConfig;
       (bound, binds) \<leftarrow> maybeBindVertexBufferDynStride dbg testConfig meshIdx geo;
       Some (bound, states @ binds)
     }"

text \<open>The body of the two inner loops of the recording: one mesh in one viewport.\<close>

definition recordMesh ::
  "bool \<Rightarrow> 'buf Geometry \<Rightarrow> ('pct, 'vp, 'sc) TestConfig \<Rightarrow> SequenceOrdering \<Rightarrow> bool \<Rightarrow> bool
     \<Rightarrow> nat \<Rightarrow> nat \<Rightarrow> ('vp, 'sc, 'buf) Cmd list option" where
  "recordMesh dbg geo m_testConfig kSequenceOrdering vertDataAsSSBO boundInAdvance
       viewportIdx meshIdx =
     do {
       mesh \<leftarrow> at_opt (meshParams m_testConfig) meshIdx;
       let pushConstants =
             \<lparr>triangleColor = color mesh, meshDepth = depth mesh,
              viewPortIndex = of_nat viewportIdx,
              pc_scaleX = scaleX mesh, pc_scaleY = scaleY mesh,
              pc_offsetX = offsetX mesh, pc_offsetY = offsetY mesh,
              pc_stripScale = stripScale mesh\<rparr>;
       (boundBeforeDraw, beforeDraw) \<leftarrow>
         (if kSequenceOrdering = BEFORE_DRAW \<or> kSequenceOrdering = AFTER_PIPELINES
          then setStatesAndBind dbg m_testConfig meshIdx geo
          else Some (False, []));
       staticBind \<leftarrow>
         (if \<not> (boundInAdvance \<or> boundBeforeDraw) \<and> \<not> useMeshShaders m_testConfig
          then do {
            needsIndex \<leftarrow> needsIndexBuffer dbg m_testConfig;
            Some (bindVertexBuffers (if reversed mesh then rvertBuffers geo else vertBuffers geo)
                  @ (if needsIndex then [CmdBindIndexBuffer] else []))
          }
          else Some []);
       let descriptorSets =
             (if vertDataAsSSBO then [CmdBindDescriptorSets (reversed mesh)] else []);
       needsIndex \<leftarrow> needsIndexBuffer dbg m_testConfig;
       draw \<leftarrow>
         (if needsIndex
          then Some [CmdDrawIndexed (of_nat (indicesSize geo)) 1 0 0 0]
          else if useMeshShaders m_testConfig
          then do {
            DE_ASSERT dbg (verticesSize geo > 2);
            DE_ASSERT dbg (\<not> dynamicValue (topologyConfig m_testConfig) \<noteq> None);
            DE_ASSERT dbg (staticValue (topologyConfig m_testConfig)
                           = VK_PRIMITIVE_TOPOLOGY_TRIANGLE_STRIP);
            Some [CmdDrawMeshTasksEXT (of_nat (verticesSize geo) - 2) 1 1]
          }
          else Some [CmdDraw (if singleVertex m_testConfig
                              then singleVertexDrawCount m_testConfig
                              else of_nat (verticesSize geo)) 1 0 0]);
       Some ([CmdPushConstants pushConstants] @ beforeDraw @ staticBind @ descriptorSets @ draw)
     }"

text \<open>One iteration of the recording loop, from the optional state setting at the start
  of the command buffer to the end of the render pass.\<close>

definition recordIteration ::
  "bool \<Rightarrow> 'buf Geometry \<Rightarrow> ('pct, 'vp, 'sc) TestConfig \<Rightarrow> SequenceOrdering \<Rightarrow> bool \<Rightarrow> bool
     \<Rightarrow> nat \<Rightarrow> ('vp, 'sc, 'buf) Cmd list option" where
  "recordIteration dbg geo m_testConfig kSequenceOrdering bindStaticFirst vertDataAsSSBO
       iteration =
     do {
       (boundAtStart, atStart) \<leftarrow>
         (if kSequenceOrdering = CMD_BUFFER_START
          then setStatesAndBind dbg m_testConfig 0 geo
          else Some (False, []));
       let beginPass = [CmdBeginRenderPass (of_nat iteration)];
       let staticFirst =
             (if bindStaticFirst \<and> iteration = 0 then [CmdBindPipeline staticPipeline] else []);
       (boundBetween, between) \<leftarrow>
         (if kSequenceOrdering = BETWEEN_PIPELINES
          then setStatesAndBind dbg m_testConfig 0 geo
          else Some (boundAtStart, []));
       dynamicBind \<leftarrow>
         (if (kSequenceOrdering \<noteq> TWO_DRAWS_DYNAMIC \<and> kSequenceOrdering \<noteq> TWO_DRAWS_STATIC)
             \<or> (kSequenceOrdering = TWO_DRAWS_DYNAMIC \<and> iteration > 0)
             \<or> (kSequenceOrdering = TWO_DRAWS_STATIC \<and> iteration = 0)
          then do {
            unused \<leftarrow>
              (if bindUnusedMeshShadingPipeline m_testConfig
               then do {
                 DE_ASSERT dbg (kSequenceOrdering = CMD_BUFFER_START);
                 Some [CmdBindPipeline meshNoOutPipeline]
               }
               else Some []);
            let extra =
              (if useExtraDynPCPPipeline m_testConfig
               then [CmdBindPipeline extraDynPCPPipeline]
                    @ (if kSequenceOrdering \<noteq> CMD_BUFFER_START
                          \<and> kSequenceOrdering \<noteq> BETWEEN_PIPELINES
                       then [CmdSetPatchControlPointsEXT
                               (ucast (staticValue (patchControlPointsConfig m_testConfig)))]
                       else [])
                    @ [CmdDraw 3 1 0 0]
               else []);
            Some (unused @ extra @ [CmdBindPipeline graphicsPipeline])
          }
          else Some []);
       (boundInAdvance, afterDynamic) \<leftarrow>
         (if kSequenceOrdering = BEFORE_GOOD_STATIC
             \<or> (kSequenceOrdering = TWO_DRAWS_DYNAMIC \<and> iteration > 0)
             \<or> (kSequenceOrdering = TWO_DRAWS_STATIC \<and> iteration = 0)
          then setStatesAndBind dbg m_testConfig 0 geo
          else Some (boundBetween, []));
       let staticLast =
             (if kSequenceOrdering = BEFORE_GOOD_STATIC
                 \<or> (kSequenceOrdering = TWO_DRAWS_STATIC \<and> iteration > 0)
              then [CmdBindPipeline staticPipeline] else []);
       let viewportVec = getActiveViewportVec m_testConfig;
       meshes \<leftarrow>
         concatMapM (\<lambda>viewportIdx.
             concatMapM (\<lambda>meshIdx.
                 recordMesh dbg geo m_testConfig kSequenceOrdering vertDataAsSSBO boundInAdvance
                   viewportIdx meshIdx)
               [0..<length (meshParams m_testConfig)])
           [0..<length viewportVec];
       Some (atStart @ beginPass @ staticFirst @ between @ dynamicBind @ afterDynamic
             @ staticLast @ meshes @ [CmdEndRenderPass])
     }"

text \<open>The recording of the command buffer in \<^verbatim>\<open>iterate\<close>: the loop over the
  iterations between \<^verbatim>\<open>beginCommandBuffer\<close> and \<^verbatim>\<open>endCommandBuffer\<close>.\<close>

definition recordCommandBuffer ::
  "bool \<Rightarrow> 'buf Geometry \<Rightarrow> ('pct, 'vp, 'sc) TestConfig \<Rightarrow> SequenceOrdering \<Rightarrow> deUint32
     \<Rightarrow> bool \<Rightarrow> bool \<Rightarrow> ('vp, 'sc, 'buf) Cmd list option" where
  "recordCommandBuffer dbg geo m_testConfig kSequenceOrdering kNumIterations bindStaticFirst
       vertDataAsSSBO =
     do {
       iterations \<leftarrow>
         concatMapM (recordIteration dbg geo m_testConfig kSequenceOrdering bindStaticFirst
                       vertDataAsSSBO)
           [0..<unat kNumIterations];
       Some ([CmdBeginCommandBuffer] @ iterations @ [CmdEndCommandBuffer])
     }"

text \<open>The vertices that \<^verbatim>\<open>iterate\<close> draws, as the topology class of the static topology
  asks: a full-screen triangle strip with six vertices, two triangles making a quad for
  patches, and otherwise one segmented line of four points for each row of pixels. The
  coordinates are computed in \<^verbatim>\<open>float\<close> without rounding. Each of the three vectors has
  six vertices or more, so \<^verbatim>\<open>vertices.resize(1)\<close> keeps the first one.\<close>

definition iterate_vertices ::
  "bool \<Rightarrow> ('pct, 'vp, 'sc) TestConfig \<Rightarrow> Vec2 list option" where
  "iterate_vertices dbg m_testConfig =
     (let topologyClass = getTopologyClass (staticValue (topologyConfig m_testConfig))
      in do {
        vertices \<leftarrow>
          (if topologyClass = TRIANGLE
           then Some [(- 1, - 1), (- 1, 1), (0, - 1), (0, 1), (1, - 1), (1, 1 :: cfloat)]
           else if topologyClass = PATCH
           then do {
             DE_ASSERT dbg (getActivePatchControlPoints m_testConfig > 1);
             Some [(- 1, 1), (1, 1), (1, - 1), (1, - 1), (- 1, - 1), (- 1, 1)]
           }
           else
             (let lineHeight = 2 / of_nat (unat kFramebufferHeight)
              in Some (concat (map (\<lambda>rowIdx.
                   (let yCoord = (lineHeight / 2) + lineHeight * of_nat rowIdx - 1
                    in [(- 1, yCoord), (- (1 / 2), yCoord), (1 / 2, yCoord), (1, yCoord)]))
                 [0..<unat kFramebufferHeight]))));
        Some (if singleVertex m_testConfig then take 1 vertices else vertices)
      })"

text \<open>Reversed vertices order in triangle strip (1, 0, 3, 2, 5, 4); empty for the other
  topology classes.\<close>

definition iterate_rvertices ::
  "bool \<Rightarrow> ('pct, 'vp, 'sc) TestConfig \<Rightarrow> Vec2 list \<Rightarrow> Vec2 list option" where
  "iterate_rvertices dbg m_testConfig vertices =
     (let topologyClass = getTopologyClass (staticValue (topologyConfig m_testConfig))
      in if topologyClass = TRIANGLE
         then do {
           DE_ASSERT dbg (\<not> vertices = []);
           if singleVertex m_testConfig
           then do { v0 \<leftarrow> at_opt vertices 0; Some [v0] }
           else do {
             v1 \<leftarrow> at_opt vertices 1;
             v0 \<leftarrow> at_opt vertices 0;
             v3 \<leftarrow> at_opt vertices 3;
             v2 \<leftarrow> at_opt vertices 2;
             v5 \<leftarrow> at_opt vertices 5;
             v4 \<leftarrow> at_opt vertices 4;
             Some [v1, v0, v3, v2, v5, v4]
           }
         }
         else Some [])"

text \<open>The part of \<^verbatim>\<open>iterate\<close> between the swap and the recording: the vertices of
  the mesh and of the reversed mesh, the check that only triangles are drawn reversed, the
  indices, the vertex buffers, the descriptor buffer infos of a mesh shading test, the
  vertex input state of the pipelines and the checks of the viewport state. The result is
  what the recording uses. The images, the image views and the framebuffers are one for
  each iteration: the colour views are as many as the depth/stencil views, as
  \<^verbatim>\<open>iterate\<close> asserts, and the recording finds \<^verbatim>\<open>framebuffers[iteration]\<close>.\<close>

definition iterate_prepare ::
  "bool \<Rightarrow> ('pct, 'vp, 'sc) TestConfig \<Rightarrow> bool \<Rightarrow> VertexBufferInfo Geometry option" where
  "iterate_prepare dbg m_testConfig vertDataAsSSBO =
     (let topologyClass = getTopologyClass (staticValue (topologyConfig m_testConfig))
      in do {
        vertices \<leftarrow> iterate_vertices dbg m_testConfig;
        rvertices \<leftarrow> iterate_rvertices dbg m_testConfig vertices;
        (if topologyClass \<noteq> TRIANGLE
         then concatMapM (\<lambda>mesh. do { DE_ASSERT dbg (\<not> reversed mesh); Some [mesh] })
                (meshParams m_testConfig)
         else Some []);
        let indices = map (\<lambda>i. (of_nat i :: deUint8)) [0..<unat kLineVertexCount];
        let dataOffset = (ucast (vertexDataOffset m_testConfig) :: deUint32);
        let trailingSize = (ucast (vertexDataExtraBytes m_testConfig) :: deUint32);
        let generator = getActiveVertexGenerator m_testConfig;
        vertBuffers \<leftarrow> prepareVertexBuffers dbg generator vertices dataOffset trailingSize
                         vertDataAsSSBO;
        rvertBuffers \<leftarrow>
          (if topologyClass = TRIANGLE
           then prepareVertexBuffers dbg generator rvertices dataOffset trailingSize
                  vertDataAsSSBO
           else Some []);
        (if vertDataAsSSBO
         then do {
           DE_ASSERT dbg (length vertBuffers = length rvertBuffers);
           concatMapM (\<lambda>i.
               do {
                 b \<leftarrow> at_opt vertBuffers i;
                 r \<leftarrow> at_opt rvertBuffers i;
                 Some [(b, r)]
               })
             [0..<length vertBuffers]
         }
         else Some []);
        staticGenerator \<leftarrow> staticValue (vertexGenerator m_testConfig);
        vertexBindings \<leftarrow> getBindingDescriptions staticGenerator
                            (staticValue (strideConfig m_testConfig));
        (if dynamicValue (viewportConfig m_testConfig) \<noteq> None
         then DE_ASSERT dbg (length (the (dynamicValue (viewportConfig m_testConfig))) > 0)
         else DE_ASSERT dbg (length (staticValue (viewportConfig m_testConfig)) > 0));
        (if dynamicValue (scissorConfig m_testConfig) \<noteq> None
         then DE_ASSERT dbg (length (the (dynamicValue (scissorConfig m_testConfig))) > 0)
         else DE_ASSERT dbg (length (staticValue (scissorConfig m_testConfig)) > 0));
        Some \<lparr>verticesSize = length vertices, indicesSize = length indices,
              vertBuffers = vertBuffers, rvertBuffers = rvertBuffers\<rparr>
      })"

text \<open>\<^verbatim>\<open>iterate\<close> as far as the command buffer goes: the constants taken from the
  configuration at the start, the choice of the depth/stencil format (the test is not
  supported when the device, which answers \<open>supportsDS\<close>, has the required features for
  none of them), the swap of the reversed orderings, the preparation and the recording
  with the configuration so prepared.\<close>

definition iterate_record ::
  "bool \<Rightarrow> (VkFormat \<Rightarrow> bool) \<Rightarrow> ('pct, 'vp, 'sc) TestConfig
     \<Rightarrow> ('vp, 'sc, VertexBufferInfo) Cmd list option" where
  "iterate_record dbg supportsDS testConfig =
     (let kNumIterations = numIterations testConfig;
          kSequenceOrdering = sequenceOrdering testConfig;
          vertDataAsSSBO = useMeshShaders testConfig
      in do {
        dsFormatInfo \<leftarrow> find (\<lambda>kDepthStencilFormat.
                             supportsDS (imageFormat kDepthStencilFormat)) kDepthStencilFormats;
        let m_testConfig = iterate_config testConfig;
        geo \<leftarrow> iterate_prepare dbg m_testConfig vertDataAsSSBO;
        let bindStaticFirst = (kSequenceOrdering = BETWEEN_PIPELINES
                               \<or> kSequenceOrdering = AFTER_PIPELINES
                               \<or> kSequenceOrdering = TWO_DRAWS_DYNAMIC);
        recordCommandBuffer dbg geo m_testConfig kSequenceOrdering kNumIterations
          bindStaticFirst vertDataAsSSBO
      })"

text \<open>The commands that matter for the ordering of state setting, pipeline binding and
  drawing, with the render pass of each iteration as a bracket around them. The dynamic
  stride is set by binding the vertex buffers with \<^verbatim>\<open>vkCmdBindVertexBuffers2\<close>, and the
  milestone keeps the strides; every other dynamic state has a command of its own.\<close>

datatype Milestone =
    BeginsRenderPass deUint32
  | EndsRenderPass
  | SetsDynamicState
  | SetsDynamicStride StrideVec
  | Binds Pipeline
  | Draws

fun milestone :: "('vp, 'sc, 'buf) Cmd \<Rightarrow> Milestone option" where
  "milestone (CmdSetCullMode _) = Some SetsDynamicState"
| "milestone (CmdSetFrontFace _) = Some SetsDynamicState"
| "milestone (CmdSetPrimitiveTopology _) = Some SetsDynamicState"
| "milestone (CmdSetViewportWithCount _ _) = Some SetsDynamicState"
| "milestone (CmdSetScissorWithCount _ _) = Some SetsDynamicState"
| "milestone (CmdSetDepthTestEnable _) = Some SetsDynamicState"
| "milestone (CmdSetDepthWriteEnable _) = Some SetsDynamicState"
| "milestone (CmdSetDepthCompareOp _) = Some SetsDynamicState"
| "milestone (CmdSetDepthBoundsTestEnable _) = Some SetsDynamicState"
| "milestone (CmdSetStencilTestEnable _) = Some SetsDynamicState"
| "milestone (CmdSetDepthBiasEnable _) = Some SetsDynamicState"
| "milestone (CmdSetDepthBias _ _ _) = Some SetsDynamicState"
| "milestone (CmdSetRasterizerDiscardEnable _) = Some SetsDynamicState"
| "milestone (CmdSetPrimitiveRestartEnable _) = Some SetsDynamicState"
| "milestone (CmdSetLogicOpEXT _) = Some SetsDynamicState"
| "milestone (CmdSetPatchControlPointsEXT _) = Some SetsDynamicState"
| "milestone (CmdSetStencilOp _ _ _ _ _) = Some SetsDynamicState"
| "milestone (CmdSetVertexInputEXT _ _ _ _) = Some SetsDynamicState"
| "milestone (CmdBindVertexBuffers2 _ _ _ strides) = Some (SetsDynamicStride strides)"
| "milestone (CmdBeginRenderPass i) = Some (BeginsRenderPass i)"
| "milestone CmdEndRenderPass = Some EndsRenderPass"
| "milestone (CmdBindPipeline p) = Some (Binds p)"
| "milestone (CmdDraw _ _ _ _) = Some Draws"
| "milestone (CmdDrawIndexed _ _ _ _ _) = Some Draws"
| "milestone (CmdDrawMeshTasksEXT _ _ _) = Some Draws"
| "milestone _ = None"

definition milestones :: "('vp, 'sc, 'buf) Cmd list \<Rightarrow> Milestone list" where
  "milestones cmds = List.map_filter milestone cmds"

subsection \<open>Test cases and the stencil enumeration\<close>

record ('pct, 'vp, 'sc) ExtendedDynamicStateTest =
  testName :: string
  testDescription :: string
  m_testConfig :: "('pct, 'vp, 'sc) TestConfig"

text \<open>The constructor of a test case checks the consistency of its configuration.\<close>

definition ExtendedDynamicStateTest_new ::
  "bool \<Rightarrow> string \<Rightarrow> string \<Rightarrow> ('pct, 'vp, 'sc) TestConfig
     \<Rightarrow> ('pct, 'vp, 'sc) ExtendedDynamicStateTest option" where
  "ExtendedDynamicStateTest_new dbg name description testConfig =
     (let staticTopologyClass = getTopologyClass (staticValue (topologyConfig testConfig))
      in do {
        DE_ASSERT dbg (\<not> dynamicValue (topologyConfig testConfig) \<noteq> None
                       \<or> staticTopologyClass
                          = getTopologyClass (the (dynamicValue (topologyConfig testConfig))));
        DE_ASSERT dbg (staticTopologyClass = LINE \<or> staticTopologyClass = TRIANGLE
                       \<or> staticTopologyClass = PATCH);
        DE_ASSERT dbg (\<not> (testPatchControlPoints testConfig \<and> \<not> patchesTopology testConfig));
        DE_ASSERT dbg (\<not> (patchesTopology testConfig
                           \<and> getActivePatchControlPoints testConfig \<le> 1));
        DE_ASSERT dbg (\<not> useExtraDynPCPPipeline testConfig \<or> testPatchControlPoints testConfig);
        Some \<lparr>testName = name, testDescription = description, m_testConfig = testConfig\<rparr>
      })"

record FaceCase =
  face :: VkStencilFaceFlags
  face_name :: string

definition kFaces :: "FaceCase list" where
  "kFaces =
     [\<lparr>face = VK_STENCIL_FACE_FRONT_BIT, face_name = ''face_front''\<rparr>,
      \<lparr>face = VK_STENCIL_FACE_BACK_BIT, face_name = ''face_back''\<rparr>,
      \<lparr>face = VK_STENCIL_FACE_FRONT_AND_BACK, face_name = ''face_both_single''\<rparr>,
      \<lparr>face = VK_STENCIL_FACE_FLAG_BITS_MAX_ENUM, face_name = ''face_both_dual''\<rparr>]"

record CompareCase =
  compare_compareOp :: VkCompareOp
  compare_name :: string

definition kCompare :: "CompareCase list" where
  "kCompare =
     [\<lparr>compare_compareOp = VK_COMPARE_OP_NEVER, compare_name = ''xf''\<rparr>,
      \<lparr>compare_compareOp = VK_COMPARE_OP_LESS, compare_name = ''lt''\<rparr>,
      \<lparr>compare_compareOp = VK_COMPARE_OP_EQUAL, compare_name = ''eq''\<rparr>,
      \<lparr>compare_compareOp = VK_COMPARE_OP_LESS_OR_EQUAL, compare_name = ''le''\<rparr>,
      \<lparr>compare_compareOp = VK_COMPARE_OP_GREATER, compare_name = ''gt''\<rparr>,
      \<lparr>compare_compareOp = VK_COMPARE_OP_GREATER_OR_EQUAL, compare_name = ''ge''\<rparr>,
      \<lparr>compare_compareOp = VK_COMPARE_OP_ALWAYS, compare_name = ''xt''\<rparr>]"

definition kMinVal :: deUint8 where "kMinVal = 0"
definition kMaxVal :: deUint8 where "kMaxVal = 255"

text \<open>\<^verbatim>\<open>static_cast<deUint8>(kMaxVal * 2u / 5u)\<close>, computed in \<^verbatim>\<open>unsigned int\<close>.\<close>

definition kMidVal :: deUint8 where
  "kMidVal = ucast (((ucast kMaxVal :: 32 word) * 2) div 5)"

definition kMinValI :: int where "kMinValI = uint kMinVal"
definition kMaxValI :: int where "kMaxValI = uint kMaxVal"

record StencilOpCase =
  stencilOp :: VkStencilOp
  op_name :: string
  clearValues :: "deUint8 list"
  incompatibleOp :: VkStencilOp

definition kStencilOps :: "StencilOpCase list" where
  "kStencilOps =
     [\<lparr>stencilOp = VK_STENCIL_OP_KEEP, op_name = ''keep'',
       clearValues = [kMidVal], incompatibleOp = VK_STENCIL_OP_ZERO\<rparr>,
      \<lparr>stencilOp = VK_STENCIL_OP_ZERO, op_name = ''zero'',
       clearValues = [kMidVal], incompatibleOp = VK_STENCIL_OP_KEEP\<rparr>,
      \<lparr>stencilOp = VK_STENCIL_OP_REPLACE, op_name = ''replace'',
       clearValues = [kMidVal], incompatibleOp = VK_STENCIL_OP_ZERO\<rparr>,
      \<lparr>stencilOp = VK_STENCIL_OP_INCREMENT_AND_CLAMP, op_name = ''inc_clamp'',
       clearValues = [kMaxVal - 1, kMaxVal], incompatibleOp = VK_STENCIL_OP_ZERO\<rparr>,
      \<lparr>stencilOp = VK_STENCIL_OP_DECREMENT_AND_CLAMP, op_name = ''dec_clamp'',
       clearValues = [kMinVal + 1, kMinVal],
       incompatibleOp = VK_STENCIL_OP_INCREMENT_AND_CLAMP\<rparr>,
      \<lparr>stencilOp = VK_STENCIL_OP_INVERT, op_name = ''invert'',
       clearValues = [kMidVal], incompatibleOp = VK_STENCIL_OP_ZERO\<rparr>,
      \<lparr>stencilOp = VK_STENCIL_OP_INCREMENT_AND_WRAP, op_name = ''inc_wrap'',
       clearValues = [kMaxVal - 1, kMaxVal], incompatibleOp = VK_STENCIL_OP_KEEP\<rparr>,
      \<lparr>stencilOp = VK_STENCIL_OP_DECREMENT_AND_WRAP, op_name = ''dec_wrap'',
       clearValues = [kMinVal + 1, kMinVal], incompatibleOp = VK_STENCIL_OP_KEEP\<rparr>]"

text \<open>\<^verbatim>\<open>activeOp\<close> and \<^verbatim>\<open>inactiveOps\<close> point to one of the three operations of the
  dynamic stencil parameters.\<close>

datatype OpSlot = FailOp | PassOp | DepthFailOp

fun setOp :: "OpSlot \<Rightarrow> VkStencilOp \<Rightarrow> StencilOpParams \<Rightarrow> StencilOpParams" where
  "setOp FailOp v params = params\<lparr>failOp := v\<rparr>"
| "setOp PassOp v params = params\<lparr>passOp := v\<rparr>"
| "setOp DepthFailOp v params = params\<lparr>depthFailOp := v\<rparr>"

text \<open>The body of the innermost loop: one sub-case (the pass or fail case, or the depth
  fail variant) for a face, a compare operation, a stencil operation, a clear value and a
  reference value in range.\<close>

definition stencilSubCase ::
  "bool \<Rightarrow> ('vp, 'sc) framework \<Rightarrow> 'pct \<Rightarrow> SequenceOrdering \<Rightarrow> bool
     \<Rightarrow> FaceCase \<Rightarrow> CompareCase \<Rightarrow> StencilOpCase \<Rightarrow> deUint8 \<Rightarrow> int \<Rightarrow> deUint8 \<Rightarrow> deUint32
     \<Rightarrow> bool \<Rightarrow> nat \<Rightarrow> ('pct, 'vp, 'sc) ExtendedDynamicStateTest option" where
  "stencilSubCase dbg fw pipelineConstructionType' kOrdering kUseMeshShaders
       fc compare op clearVal refVal refValU8 refValU32 wouldPass subCaseIdx =
     do {
       let depthFail = (subCaseIdx > 0);
       let globalPass = (wouldPass \<and> \<not> depthFail);
       config \<leftarrow> TestConfig_new dbg fw pipelineConstructionType' kOrdering kUseMeshShaders
                   None None;
       meshes \<leftarrow>
         (if face fc = VK_STENCIL_FACE_FRONT_BIT then Some (meshParams config)
          else if face fc = VK_STENCIL_FACE_BACK_BIT
          then modify_at 0 (\<lambda>m. m\<lparr>reversed := True\<rparr>) (meshParams config)
          else do {
            front \<leftarrow> at_opt (meshParams config) 0;
            let ms = meshParams config @ [front];
            ms \<leftarrow> modify_at (length ms - 1) (\<lambda>m. m\<lparr>reversed := True\<rparr>) ms;
            ms \<leftarrow> modify_at 0 (\<lambda>m. m\<lparr>scaleY := 1 / 2\<rparr>) ms;
            ms \<leftarrow> modify_at 0 (\<lambda>m. m\<lparr>offsetY := - (1 / 2)\<rparr>) ms;
            ms \<leftarrow> modify_at (length ms - 1) (\<lambda>m. m\<lparr>scaleY := 1 / 2\<rparr>) ms;
            modify_at (length ms - 1) (\<lambda>m. m\<lparr>offsetY := 1 / 2\<rparr>) ms
          });
       let config = config\<lparr>meshParams := meshes\<rparr>;
       let config = config\<lparr>stencilTestEnableConfig :=
                             (stencilTestEnableConfig config)\<lparr>staticValue := True\<rparr>\<rparr>;
       let dynamicStencilConfig =
             \<lparr>faceMask = face fc,
              failOp = VK_STENCIL_OP_MAX_ENUM,
              passOp = VK_STENCIL_OP_MAX_ENUM,
              depthFailOp = VK_STENCIL_OP_MAX_ENUM,
              compareOp = compare_compareOp compare\<rparr>;
       let (activeOp, inactiveOp0, inactiveOp1) =
             (if wouldPass
              then (if depthFail then (DepthFailOp, PassOp, FailOp)
                    else (PassOp, DepthFailOp, FailOp))
              else (FailOp, PassOp, DepthFailOp));
       let dynamicStencilConfig = setOp activeOp (stencilOp op) dynamicStencilConfig;
       let dynamicStencilConfig = setOp inactiveOp0 (incompatibleOp op) dynamicStencilConfig;
       let dynamicStencilConfig = setOp inactiveOp1 (incompatibleOp op) dynamicStencilConfig;
       DE_ASSERT dbg (failOp dynamicStencilConfig \<noteq> VK_STENCIL_OP_MAX_ENUM);
       DE_ASSERT dbg (passOp dynamicStencilConfig \<noteq> VK_STENCIL_OP_MAX_ENUM);
       DE_ASSERT dbg (depthFailOp dynamicStencilConfig \<noteq> VK_STENCIL_OP_MAX_ENUM);
       staticFront \<leftarrow> at_opt (staticValue (stencilOpConfig config)) 0;
       let staticStencilConfig =
             staticFront\<lparr>faceMask := face fc,
                         compareOp := (if globalPass then VK_COMPARE_OP_NEVER
                                       else VK_COMPARE_OP_ALWAYS),
                         passOp := incompatibleOp op,
                         failOp := incompatibleOp op,
                         depthFailOp := incompatibleOp op\<rparr>;
       let stencilOps = [dynamicStencilConfig];
       first \<leftarrow> at_opt stencilOps 0;
       (stencilOps, staticStencilConfig) \<leftarrow>
         (if faceMask first = VK_STENCIL_FACE_FLAG_BITS_MAX_ENUM
          then do {
            let ops = stencilOps @ [first];
            ops \<leftarrow> modify_at 0 (\<lambda>p. p\<lparr>faceMask := VK_STENCIL_FACE_FRONT_BIT\<rparr>) ops;
            ops \<leftarrow> modify_at (length ops - 1) (\<lambda>p. p\<lparr>faceMask := VK_STENCIL_FACE_BACK_BIT\<rparr>) ops;
            Some (ops, staticStencilConfig\<lparr>faceMask := VK_STENCIL_FACE_FRONT_AND_BACK\<rparr>)
          }
          else Some (stencilOps, staticStencilConfig));
       staticOps \<leftarrow> modify_at 0 (\<lambda>_. staticStencilConfig) (staticValue (stencilOpConfig config));
       let config = config\<lparr>stencilOpConfig :=
                             \<lparr>staticValue = staticOps, dynamicValue = Some stencilOps\<rparr>,
                           clearStencilValue := ucast clearVal,
                           referenceStencil := refValU32\<rparr>;
       let config =
             (if depthFail
              then config\<lparr>depthTestEnableConfig :=
                            (depthTestEnableConfig config)\<lparr>staticValue := True\<rparr>,
                          clearDepthValue := 1 / 2,
                          depthCompareOpConfig :=
                            (depthCompareOpConfig config)\<lparr>staticValue := VK_COMPARE_OP_LESS\<rparr>,
                          meshParams := map (\<lambda>meshPar. meshPar\<lparr>depth := 3 / 4\<rparr>)
                                          (meshParams config)\<rparr>
              else config);
       expected \<leftarrow> stencilResult dbg (stencilOp op) clearVal refValU8 kMinVal kMaxVal;
       let config = config\<lparr>referenceColor :=
                             SingleColorGenerator_Vec4
                               (if globalPass then kDefaultTriangleColor else kDefaultClearColor),
                           expectedDepth := clearDepthValue config,
                           expectedStencil := ucast expected\<rparr>;
       let name = ''stencil_state'' @ ''_'' @ face_name fc @ ''_'' @ compare_name compare
                  @ ''_'' @ op_name op
                  @ ''_clear_'' @ toString fw (uint clearVal)
                  @ ''_ref_'' @ toString fw refVal
                  @ ''_'' @ (if wouldPass then (if depthFail then ''depthfail'' else ''pass'')
                             else ''fail'');
       ExtendedDynamicStateTest_new dbg name
         (''Dynamically configure stencil test, variant '' @ name) config
     }"

text \<open>The body of the loop over the reference deltas: the reference value is the clear
  value plus the delta, in \<^verbatim>\<open>int\<close>; values out of range are skipped.\<close>

definition stencilDeltaCases ::
  "bool \<Rightarrow> ('vp, 'sc) framework \<Rightarrow> 'pct \<Rightarrow> SequenceOrdering \<Rightarrow> bool
     \<Rightarrow> FaceCase \<Rightarrow> CompareCase \<Rightarrow> StencilOpCase \<Rightarrow> deUint8 \<Rightarrow> int
     \<Rightarrow> ('pct, 'vp, 'sc) ExtendedDynamicStateTest list option" where
  "stencilDeltaCases dbg fw pipelineConstructionType' kOrdering kUseMeshShaders
       fc compare op clearVal delta =
     (let refVal = uint clearVal + delta
      in if refVal < kMinValI \<or> refVal > kMaxValI then Some []
         else do {
           let refValU8 = (of_int refVal :: deUint8);
           let refValU32 = (of_int refVal :: deUint32);
           wouldPass \<leftarrow> stencilPasses dbg (compare_compareOp compare) clearVal refValU8;
           let subCases = (if wouldPass then 2 else 1 :: nat);
           concatMapM (\<lambda>subCaseIdx.
               do {
                 test \<leftarrow> stencilSubCase dbg fw pipelineConstructionType' kOrdering
                           kUseMeshShaders fc compare op clearVal refVal refValU8 refValU32
                           wouldPass subCaseIdx;
                 Some [test]
               })
             [0..<subCases]
         })"

text \<open>The stencil operation section of \<^verbatim>\<open>createExtendedDynamicStateTests\<close>, for one
  ordering and one mesh shading case: the children it adds to the ordering group, in
  order.\<close>

definition stencilOpTests ::
  "bool \<Rightarrow> ('vp, 'sc) framework \<Rightarrow> 'pct \<Rightarrow> SequenceOrdering \<Rightarrow> bool
     \<Rightarrow> ('pct, 'vp, 'sc) ExtendedDynamicStateTest list option" where
  "stencilOpTests dbg fw pipelineConstructionType' kOrdering kUseMeshShaders =
     concatMapM (\<lambda>fc.
       concatMapM (\<lambda>compare.
         concatMapM (\<lambda>op.
           concatMapM (\<lambda>clearVal.
             concatMapM (\<lambda>delta.
                 stencilDeltaCases dbg fw pipelineConstructionType' kOrdering kUseMeshShaders
                   fc compare op clearVal delta)
               [-1, 0, 1])
             (clearValues op))
           kStencilOps)
         kCompare)
       kFaces"

subsection \<open>The first test of the enumeration and an instance of the framework\<close>

text \<open>The first test that \<^verbatim>\<open>createExtendedDynamicStateTests\<close> adds to every ordering
  group: cull mode statically front, dynamically none.\<close>

definition cullNoneTest ::
  "bool \<Rightarrow> ('vp, 'sc) framework \<Rightarrow> 'pct \<Rightarrow> SequenceOrdering \<Rightarrow> bool
     \<Rightarrow> ('pct, 'vp, 'sc) ExtendedDynamicStateTest option" where
  "cullNoneTest dbg fw pipelineConstructionType' kOrdering kUseMeshShaders =
     do {
       config \<leftarrow> TestConfig_new dbg fw pipelineConstructionType' kOrdering kUseMeshShaders
                   None None;
       let config = config\<lparr>cullModeConfig :=
                             (cullModeConfig config)\<lparr>staticValue := VK_CULL_MODE_FRONT_BIT,
                                                      dynamicValue := Some VK_CULL_MODE_NONE\<rparr>\<rparr>;
       ExtendedDynamicStateTest_new dbg ''cull_none'' ''Dynamically set cull mode to none'' config
     }"

text \<open>The first of the three tests with a dynamic stride that the enumeration adds for a
  stride case (a generator and a name prefix) and a case of binding the unused mesh
  shading pipeline (the flag and the suffixes of the name and the description): the
  strides of the generator are the dynamic value, half of each the static one.\<close>

definition strideTest ::
  "bool \<Rightarrow> ('vp, 'sc) framework \<Rightarrow> 'pct \<Rightarrow> SequenceOrdering \<Rightarrow> bool
     \<Rightarrow> VertexGenerator \<Rightarrow> string \<Rightarrow> bool \<Rightarrow> string \<Rightarrow> string
     \<Rightarrow> ('pct, 'vp, 'sc) ExtendedDynamicStateTest option" where
  "strideTest dbg fw pipelineConstructionType' kOrdering kUseMeshShaders
       factory prefix bindUnused nameSuffix descSuffix =
     do {
       let vertexStrides = getVertexDataStrides factory;
       let halfStrides = map (\<lambda>stride. stride div 2) vertexStrides;
       config \<leftarrow> TestConfig_new dbg fw pipelineConstructionType' kOrdering kUseMeshShaders
                   (Some factory) None;
       let config = config\<lparr>strideConfig :=
                             (strideConfig config)\<lparr>staticValue := halfStrides,
                                                    dynamicValue := Some vertexStrides\<rparr>,
                           bindUnusedMeshShadingPipeline := bindUnused\<rparr>;
       ExtendedDynamicStateTest_new dbg (prefix @ nameSuffix)
         (''Dynamically set stride'' @ descSuffix) config
     }"

text \<open>An instance of the framework helpers, for evaluating the model: a viewport and a
  scissor rectangle are their width and height, and integers print in decimal.\<close>

fun decimal :: "nat \<Rightarrow> string" where
  "decimal n =
     (if n < 10 then [char_of (n + 48)] else decimal (n div 10) @ [char_of (n mod 10 + 48)])"

definition exampleFramework :: "(nat \<times> nat, nat \<times> nat) framework" where
  "exampleFramework =
     \<lparr>makeViewport = (\<lambda>w h. (unat w, unat h)),
      makeRect2D = (\<lambda>w h. (unat w, unat h)),
      toString = (\<lambda>i. if i < 0 then CHR ''-'' # decimal (nat (- i)) else decimal (nat i))\<rparr>"

text \<open>A device that has the required features for every depth/stencil format.\<close>

definition exampleDevice :: "VkFormat \<Rightarrow> bool" where
  "exampleDevice fmt = True"

subsection \<open>The active value as the specification words it\<close>

text \<open>\<open>active(swapped)\<close> of a pair: the dynamic value if it is present and the values are
  not swapped, the static value otherwise.\<close>

definition active_spec :: "'a StaticAndDynamicPair \<Rightarrow> bool \<Rightarrow> 'a" where
  "active_spec p swapped =
     (case dynamicValue p of
        Some d \<Rightarrow> (if \<not> swapped then d else staticValue p)
      | None \<Rightarrow> staticValue p)"

section \<open>Properties\<close>

subsection \<open>The stencil oracle\<close>

text \<open>
  Claim C1. For each of the seven compare operations NEVER, LESS, EQUAL, LESS_OR_EQUAL,
  GREATER, GREATER_OR_EQUAL and ALWAYS and all 8-bit stored and reference values,
  \<open>stencilPasses\<close> returns normally, in either build flavour, and its result is the
  comparison written as reference OP stored: NEVER is false, ALWAYS is true, LESS is
  reference < stored, and so on. With stored 10 and reference 5, LESS passes; with stored 5
  and reference 10 it does not, so the operands are not flipped.
\<close>

theorem stencilPasses_reference_op_stored:
  "stencilPasses dbg VK_COMPARE_OP_NEVER stored reference = Some False
   \<and> stencilPasses dbg VK_COMPARE_OP_ALWAYS stored reference = Some True
   \<and> stencilPasses dbg VK_COMPARE_OP_LESS stored reference = Some (reference < stored)
   \<and> stencilPasses dbg VK_COMPARE_OP_EQUAL stored reference = Some (reference = stored)
   \<and> stencilPasses dbg VK_COMPARE_OP_LESS_OR_EQUAL stored reference = Some (reference \<le> stored)
   \<and> stencilPasses dbg VK_COMPARE_OP_GREATER stored reference = Some (reference > stored)
   \<and> stencilPasses dbg VK_COMPARE_OP_GREATER_OR_EQUAL stored reference = Some (reference \<ge> stored)
   \<and> stencilPasses dbg VK_COMPARE_OP_LESS 10 5 = Some True
   \<and> stencilPasses dbg VK_COMPARE_OP_LESS 5 10 = Some False"
  by simp

theorem stencilPasses_reference_op_stored_witness:
  "stencilPasses True VK_COMPARE_OP_GREATER 7 9 = Some True
   \<and> stencilPasses False VK_COMPARE_OP_GREATER 9 7 = Some False
   \<and> stencilPasses True VK_COMPARE_OP_LESS_OR_EQUAL 200 200 = Some True
   \<and> stencilPasses True VK_COMPARE_OP_LESS 10 5 = Some True"
  using stencilPasses_reference_op_stored [of True 7 9]
    stencilPasses_reference_op_stored [of False 9 7]
    stencilPasses_reference_op_stored [of True 200 200]
  by simp

text \<open>
  Claim C2. For each of the eight stencil operations KEEP, ZERO, REPLACE,
  INCREMENT_AND_CLAMP, DECREMENT_AND_CLAMP, INVERT, INCREMENT_AND_WRAP and
  DECREMENT_AND_WRAP and all 8-bit stored, reference, min and max, \<open>stencilResult\<close>
  returns normally, in either build flavour, with: stored; 0; reference; stored if it
  equals max and stored + 1 otherwise; stored if it equals min and stored - 1 otherwise;
  the bitwise complement of stored; min if stored equals max and stored + 1 otherwise; max
  if stored equals min and stored - 1 otherwise. With min 0 and max 255, incrementing 255
  clamps to 255 or wraps to 0, and decrementing 0 wraps to 255.
\<close>

theorem stencilResult_table:
  "stencilResult dbg VK_STENCIL_OP_KEEP stored reference minv maxv = Some stored
   \<and> stencilResult dbg VK_STENCIL_OP_ZERO stored reference minv maxv = Some 0
   \<and> stencilResult dbg VK_STENCIL_OP_REPLACE stored reference minv maxv = Some reference
   \<and> stencilResult dbg VK_STENCIL_OP_INCREMENT_AND_CLAMP stored reference minv maxv =
       Some (if stored = maxv then stored else stored + 1)
   \<and> stencilResult dbg VK_STENCIL_OP_DECREMENT_AND_CLAMP stored reference minv maxv =
       Some (if stored = minv then stored else stored - 1)
   \<and> stencilResult dbg VK_STENCIL_OP_INVERT stored reference minv maxv = Some (NOT stored)
   \<and> stencilResult dbg VK_STENCIL_OP_INCREMENT_AND_WRAP stored reference minv maxv =
       Some (if stored = maxv then minv else stored + 1)
   \<and> stencilResult dbg VK_STENCIL_OP_DECREMENT_AND_WRAP stored reference minv maxv =
       Some (if stored = minv then maxv else stored - 1)
   \<and> stencilResult dbg VK_STENCIL_OP_INCREMENT_AND_CLAMP 255 reference 0 255 = Some 255
   \<and> stencilResult dbg VK_STENCIL_OP_INCREMENT_AND_WRAP 255 reference 0 255 = Some 0
   \<and> stencilResult dbg VK_STENCIL_OP_DECREMENT_AND_WRAP 0 reference 0 255 = Some 255"
  by simp

theorem stencilResult_table_witness:
  "stencilResult True VK_STENCIL_OP_INCREMENT_AND_CLAMP 254 3 0 255 = Some 255
   \<and> stencilResult True VK_STENCIL_OP_DECREMENT_AND_CLAMP 0 3 0 255 = Some 0
   \<and> stencilResult True VK_STENCIL_OP_INVERT 102 3 0 255 = Some 153
   \<and> stencilResult True VK_STENCIL_OP_DECREMENT_AND_WRAP 0 3 0 255 = Some 255"
  using stencilResult_table [of True 254 3 0 255] stencilResult_table [of True 0 3 0 255]
    stencilResult_table [of True 102 3 0 255]
  by simp

subsection \<open>Auxiliary facts about pairs, swapping and the recorded commands\<close>

lemma swapValuesPair_involution: "swapValuesPair (swapValuesPair p) = p"
  by (cases p) (simp add: swapValuesPair_def split: option.splits)

lemma swapValuesPair_dynamic_None [simp]:
  "dynamicValue (swapValuesPair p) = None \<longleftrightarrow> dynamicValue p = None"
  by (simp add: swapValuesPair_def split: option.splits)

lemma swapValuesPair_static:
  "dynamicValue p = Some d \<Longrightarrow> staticValue (swapValuesPair p) = d"
  "dynamicValue p = None \<Longrightarrow> swapValuesPair p = p"
  by (simp_all add: swapValuesPair_def)

lemma active_spec_swap:
  "active_spec (swapValuesPair p) (\<not> swapped) = active_spec p swapped"
  by (cases p) (simp add: active_spec_def swapValuesPair_def split: option.splits)

lemma swapValues_fields:
  "m_swappedValues (swapValues c) = (\<not> m_swappedValues c)"
  "vertexGenerator (swapValues c) = swapValuesPair (vertexGenerator c)"
  "cullModeConfig (swapValues c) = swapValuesPair (cullModeConfig c)"
  "frontFaceConfig (swapValues c) = swapValuesPair (frontFaceConfig c)"
  "topologyConfig (swapValues c) = swapValuesPair (topologyConfig c)"
  "viewportConfig (swapValues c) = swapValuesPair (viewportConfig c)"
  "scissorConfig (swapValues c) = swapValuesPair (scissorConfig c)"
  "strideConfig (swapValues c) = swapValuesPair (strideConfig c)"
  "depthTestEnableConfig (swapValues c) = swapValuesPair (depthTestEnableConfig c)"
  "depthWriteEnableConfig (swapValues c) = swapValuesPair (depthWriteEnableConfig c)"
  "depthCompareOpConfig (swapValues c) = swapValuesPair (depthCompareOpConfig c)"
  "depthBoundsTestEnableConfig (swapValues c) = swapValuesPair (depthBoundsTestEnableConfig c)"
  "stencilTestEnableConfig (swapValues c) = swapValuesPair (stencilTestEnableConfig c)"
  "stencilOpConfig (swapValues c) = swapValuesPair (stencilOpConfig c)"
  "depthBiasEnableConfig (swapValues c) = swapValuesPair (depthBiasEnableConfig c)"
  "rastDiscardEnableConfig (swapValues c) = swapValuesPair (rastDiscardEnableConfig c)"
  "primRestartEnableConfig (swapValues c) = swapValuesPair (primRestartEnableConfig c)"
  "logicOpConfig (swapValues c) = swapValuesPair (logicOpConfig c)"
  "patchControlPointsConfig (swapValues c) = swapValuesPair (patchControlPointsConfig c)"
  "depthBiasConfig (swapValues c) = swapValuesPair (depthBiasConfig c)"
  by (simp_all add: swapValues_def)

lemma getActive_as_spec:
  "getActiveViewportVec c = active_spec (viewportConfig c) (m_swappedValues c)"
  "getActiveVertexGenerator c = active_spec (vertexGenerator c) (m_swappedValues c)"
  "getActivePatchControlPoints c =
     ucast (active_spec (patchControlPointsConfig c) (m_swappedValues c))"
  "getActiveDepthBiasParams c = active_spec (depthBiasConfig c) (m_swappedValues c)"
  "getActivePrimitiveRestartEnable c =
     active_spec (primRestartEnableConfig c) (m_swappedValues c)"
  by (auto simp add: getActiveViewportVec_def getActiveVertexGenerator_def
      getActivePatchControlPoints_def getActiveDepthBiasParams_def
      getActivePrimitiveRestartEnable_def active_spec_def split: option.splits)

lemma swapValues_involution: "swapValues (swapValues c) = c"
  by (simp add: swapValues_def swapValuesPair_involution)

lemma milestones_Nil [simp]: "milestones [] = []"
  by (simp add: milestones_def)

lemma milestones_Cons:
  "milestones (c # cs) = (case milestone c of None \<Rightarrow> milestones cs | Some m \<Rightarrow> m # milestones cs)"
  by (simp add: milestones_def split: option.splits)

lemma milestones_append [simp]: "milestones (xs @ ys) = milestones xs @ milestones ys"
  by (simp add: milestones_def map_filter_def)

lemma milestones_all_same:
  "(\<forall>c \<in> set cs. milestone c = Some m) \<Longrightarrow> milestones cs = replicate (length cs) m"
  by (induction cs) (simp_all add: milestones_Cons)

lemma concatMapM_milestones:
  assumes "\<And>x ys. x \<in> set xs \<Longrightarrow> f x = Some ys \<Longrightarrow> milestones ys = replicate k m"
    and "concatMapM f xs = Some zs"
  shows "milestones zs = replicate (length xs * k) m"
  using assms
proof (induction xs arbitrary: zs)
  case Nil
  then show ?case by simp
next
  case (Cons x xs)
  from Cons.prems(2) obtain a b where a: "f x = Some a" and b: "concatMapM f xs = Some b"
    and zs: "zs = a @ b"
    by (auto simp: bind_eq_Some_conv)
  have "milestones a = replicate k m" using Cons.prems(1) [OF _ a] by simp
  moreover have "milestones b = replicate (length xs * k) m"
  proof (rule Cons.IH [OF _ b])
    fix x' ys
    assume "x' \<in> set xs" "f x' = Some ys"
    then show "milestones ys = replicate k m" using Cons.prems(1) [of x' ys] by simp
  qed
  ultimately show ?case using zs by (simp add: replicate_add)
qed

lemma bind_result_ball:
  assumes "Option.bind m (\<lambda>x. Some (g x)) = Some ys"
    and "\<And>x. m = Some x \<Longrightarrow> \<forall>y \<in> set (g x). P y"
  shows "\<forall>y \<in> set ys. P y"
  using assms by (auto simp add: bind_eq_Some_conv)

lemma setDynamicStates_milestones:
  assumes "setDynamicStates c = Some (states :: ('vp, 'sc, 'buf) Cmd list)"
  shows "milestones states = replicate (length states) SetsDynamicState"
proof -
  have "\<forall>cmd \<in> set states. milestone cmd = Some SetsDynamicState"
  proof (rule bind_result_ball [OF assms [unfolded setDynamicStates_def]], goal_cases)
    case (1 vi)
    then have v: "\<forall>cmd \<in> set vi. milestone cmd = Some SetsDynamicState"
      by (auto simp add: bind_eq_Some_conv Let_def split: option.splits)
    show ?case by (auto simp add: ball_Un v)
  qed
  then show ?thesis by (rule milestones_all_same)
qed

lemma maybeBind_milestones:
  "maybeBindVertexBufferDynStride dbg c i geo = Some (b, cmds) \<Longrightarrow>
     milestones cmds =
       (case dynamicValue (strideConfig c) of
          None \<Rightarrow> [] | Some strides \<Rightarrow> [SetsDynamicStride strides])"
  by (auto simp add: maybeBindVertexBufferDynStride_def bind_eq_Some_conv Let_def
      milestones_Cons split: if_splits)

lemma setStatesAndBind_milestones:
  assumes "setStatesAndBind dbg c i geo = Some (b, cmds :: ('vp, 'sc, 'buf) Cmd list)"
  shows "\<exists>states :: ('vp, 'sc, 'buf) Cmd list. setDynamicStates c = Some states
           \<and> milestones cmds =
               replicate (length states) SetsDynamicState
               @ (case dynamicValue (strideConfig c) of
                    None \<Rightarrow> [] | Some strides \<Rightarrow> [SetsDynamicStride strides])"
  using assms
  by (auto simp add: setStatesAndBind_def bind_eq_Some_conv
      setDynamicStates_milestones maybeBind_milestones)

lemma recordMesh_milestones:
  assumes "recordMesh dbg geo c ord ssbo bound v i = Some cmds"
    and "ord \<noteq> BEFORE_DRAW" "ord \<noteq> AFTER_PIPELINES"
  shows "milestones cmds = [Draws]"
  using assms
  by (auto simp add: recordMesh_def bind_eq_Some_conv Let_def milestones_Cons
      bindVertexBuffers_def split: if_splits)

lemma recordMeshes_milestones:
  assumes "concatMapM (\<lambda>viewportIdx.
             concatMapM (\<lambda>meshIdx. recordMesh dbg geo c ord ssbo bound viewportIdx meshIdx) ms)
           vs = Some cmds"
    and "ord \<noteq> BEFORE_DRAW" "ord \<noteq> AFTER_PIPELINES"
  shows "milestones cmds = replicate (length vs * length ms) Draws"
proof (rule concatMapM_milestones [OF _ assms(1)])
  fix x ys
  assume "concatMapM (recordMesh dbg geo c ord ssbo bound x) ms = Some ys"
  then have "milestones ys = replicate (length ms * 1) Draws"
  proof (rule concatMapM_milestones [rotated])
    fix i zs
    assume "recordMesh dbg geo c ord ssbo bound x i = Some zs"
    then show "milestones zs = replicate 1 Draws"
      using recordMesh_milestones assms(2,3) by fastforce
  qed
  then show "milestones ys = replicate (length ms) Draws" by simp
qed


lemma recordIteration_static_first:
  assumes "recordIteration dbg geo m TWO_DRAWS_DYNAMIC True ssbo 0 = Some cmds"
  shows "milestones cmds =
           [BeginsRenderPass 0, Binds staticPipeline]
           @ replicate (length (getActiveViewportVec m) * length (meshParams m)) Draws
           @ [EndsRenderPass]"
  using assms
  by (auto simp add: recordIteration_def bind_eq_Some_conv Let_def milestones_Cons
      dest!: recordMeshes_milestones)

lemma recordIteration_static_last:
  assumes "recordIteration dbg geo m TWO_DRAWS_STATIC False ssbo (Suc 0) = Some cmds"
  shows "milestones cmds =
           [BeginsRenderPass 1, Binds staticPipeline]
           @ replicate (length (getActiveViewportVec m) * length (meshParams m)) Draws
           @ [EndsRenderPass]"
  using assms
  by (auto simp add: recordIteration_def bind_eq_Some_conv Let_def milestones_Cons
      dest!: recordMeshes_milestones)

lemma recordIteration_dynamic:
  assumes "recordIteration dbg geo m ord bsf ssbo i = Some (cmds :: ('vp, 'sc, 'buf) Cmd list)"
    and "(ord = TWO_DRAWS_DYNAMIC \<and> i = Suc 0 \<and> bsf) \<or> (ord = TWO_DRAWS_STATIC \<and> i = 0 \<and> \<not> bsf)"
  shows "\<exists>states :: ('vp, 'sc, 'buf) Cmd list. setDynamicStates m = Some states \<and>
         milestones cmds =
           [BeginsRenderPass (of_nat i)]
           @ (if bindUnusedMeshShadingPipeline m then [Binds meshNoOutPipeline] else [])
           @ (if useExtraDynPCPPipeline m
              then [Binds extraDynPCPPipeline, SetsDynamicState, Draws] else [])
           @ [Binds graphicsPipeline]
           @ replicate (length states) SetsDynamicState
           @ (case dynamicValue (strideConfig m) of
                None \<Rightarrow> [] | Some strides \<Rightarrow> [SetsDynamicStride strides])
           @ replicate (length (getActiveViewportVec m) * length (meshParams m)) Draws
           @ [EndsRenderPass]"
  using assms
  by (auto simp add: recordIteration_def bind_eq_Some_conv Let_def milestones_Cons
      dest!: recordMeshes_milestones setStatesAndBind_milestones split: if_splits)

lemma swapValues_other_fields:
  "sequenceOrdering (swapValues c) = sequenceOrdering c"
  "meshParams (swapValues c) = meshParams c"
  "useMeshShaders (swapValues c) = useMeshShaders c"
  "bindUnusedMeshShadingPipeline (swapValues c) = bindUnusedMeshShadingPipeline c"
  "useExtraDynPCPPipeline (swapValues c) = useExtraDynPCPPipeline c"
  "singleVertex (swapValues c) = singleVertex c"
  by (simp_all add: swapValues_def)

lemma getActiveViewportVec_swapValues:
  "getActiveViewportVec (swapValues c) = getActiveViewportVec c"
  by (simp add: getActiveViewportVec_def swapValues_fields swapValuesPair_def
      split: option.splits)

lemma two_iterations: "[0..<2] = [0, Suc 0]"
  by (simp add: numeral_2_eq_2)

lemma recordCommandBuffer_two:
  assumes "recordCommandBuffer dbg geo m ord 2 bsf ssbo = Some cmds"
  shows "\<exists>a b. recordIteration dbg geo m ord bsf ssbo 0 = Some a
           \<and> recordIteration dbg geo m ord bsf ssbo (Suc 0) = Some b
           \<and> milestones cmds = milestones a @ milestones b"
  using assms
  by (auto simp add: recordCommandBuffer_def two_iterations bind_eq_Some_conv milestones_Cons)

lemma iterate_record_Some:
  assumes "iterate_record dbg dev c = Some cmds"
  shows "\<exists>geo. iterate_prepare dbg (iterate_config c) (useMeshShaders c) = Some geo
           \<and> recordCommandBuffer dbg geo (iterate_config c) (sequenceOrdering c)
               (numIterations c)
               (sequenceOrdering c = BETWEEN_PIPELINES \<or> sequenceOrdering c = AFTER_PIPELINES
                \<or> sequenceOrdering c = TWO_DRAWS_DYNAMIC)
               (useMeshShaders c) = Some cmds"
  using assms by (auto simp add: iterate_record_def Let_def bind_eq_Some_conv)

lemma two_draws_dynamic_milestones:
  assumes "sequenceOrdering c = TWO_DRAWS_DYNAMIC"
    and "iterate_record dbg dev c = Some cmds"
  shows "\<exists>states :: ('vp, 'sc, VertexBufferInfo) Cmd list. setDynamicStates c = Some states \<and>
          milestones cmds =
            [BeginsRenderPass 0, Binds staticPipeline]
            @ replicate (length (getActiveViewportVec c) * length (meshParams c)) Draws
            @ [EndsRenderPass, BeginsRenderPass 1]
            @ (if bindUnusedMeshShadingPipeline c then [Binds meshNoOutPipeline] else [])
            @ (if useExtraDynPCPPipeline c
               then [Binds extraDynPCPPipeline, SetsDynamicState, Draws] else [])
            @ [Binds graphicsPipeline]
            @ replicate (length states) SetsDynamicState
            @ (case dynamicValue (strideConfig c) of
                 None \<Rightarrow> [] | Some strides \<Rightarrow> [SetsDynamicStride strides])
            @ replicate (length (getActiveViewportVec c) * length (meshParams c)) Draws
            @ [EndsRenderPass]"
proof -
  from iterate_record_Some [OF assms(2)] obtain geo where
    rec: "recordCommandBuffer dbg geo c TWO_DRAWS_DYNAMIC 2 True (useMeshShaders c) = Some cmds"
    using assms(1)
    by (auto simp add: iterate_config_def isReversed_def numIterations_def Let_def)
  from recordCommandBuffer_two [OF rec] obtain a b where
    a: "recordIteration dbg geo c TWO_DRAWS_DYNAMIC True (useMeshShaders c) 0 = Some a" and
    b: "recordIteration dbg geo c TWO_DRAWS_DYNAMIC True (useMeshShaders c) (Suc 0) = Some b" and
    ab: "milestones cmds = milestones a @ milestones b"
    by blast
  from recordIteration_dynamic [OF b]
  obtain states :: "('vp, 'sc, VertexBufferInfo) Cmd list" where
    "setDynamicStates c = Some states" and
    "milestones b =
           [BeginsRenderPass (of_nat (Suc 0))]
           @ (if bindUnusedMeshShadingPipeline c then [Binds meshNoOutPipeline] else [])
           @ (if useExtraDynPCPPipeline c
              then [Binds extraDynPCPPipeline, SetsDynamicState, Draws] else [])
           @ [Binds graphicsPipeline]
           @ replicate (length states) SetsDynamicState
           @ (case dynamicValue (strideConfig c) of
                None \<Rightarrow> [] | Some strides \<Rightarrow> [SetsDynamicStride strides])
           @ replicate (length (getActiveViewportVec c) * length (meshParams c)) Draws
           @ [EndsRenderPass]"
    by auto
  then show ?thesis
    using recordIteration_static_first [OF a] ab by simp
qed

lemma two_draws_static_milestones:
  assumes "sequenceOrdering c = TWO_DRAWS_STATIC"
    and "iterate_record dbg dev c = Some cmds"
  shows "\<exists>states :: ('vp, 'sc, VertexBufferInfo) Cmd list.
          setDynamicStates (swapValues c) = Some states \<and>
          milestones cmds =
            [BeginsRenderPass 0]
            @ (if bindUnusedMeshShadingPipeline c then [Binds meshNoOutPipeline] else [])
            @ (if useExtraDynPCPPipeline c
               then [Binds extraDynPCPPipeline, SetsDynamicState, Draws] else [])
            @ [Binds graphicsPipeline]
            @ replicate (length states) SetsDynamicState
            @ (case dynamicValue (strideConfig (swapValues c)) of
                 None \<Rightarrow> [] | Some strides \<Rightarrow> [SetsDynamicStride strides])
            @ replicate (length (getActiveViewportVec c) * length (meshParams c)) Draws
            @ [EndsRenderPass, BeginsRenderPass 1, Binds staticPipeline]
            @ replicate (length (getActiveViewportVec c) * length (meshParams c)) Draws
            @ [EndsRenderPass]"
proof -
  from iterate_record_Some [OF assms(2)] obtain geo where
    rec: "recordCommandBuffer dbg geo (swapValues c) TWO_DRAWS_STATIC 2 False (useMeshShaders c)
               = Some cmds"
    using assms(1)
    by (auto simp add: iterate_config_def isReversed_def numIterations_def Let_def)
  from recordCommandBuffer_two [OF rec] obtain a b where
    a: "recordIteration dbg geo (swapValues c) TWO_DRAWS_STATIC False (useMeshShaders c) 0 = Some a" and
    b: "recordIteration dbg geo (swapValues c) TWO_DRAWS_STATIC False (useMeshShaders c) (Suc 0)
          = Some b" and
    ab: "milestones cmds = milestones a @ milestones b"
    by blast
  from recordIteration_dynamic [OF a]
  obtain states :: "('vp, 'sc, VertexBufferInfo) Cmd list" where
    "setDynamicStates (swapValues c) = Some states" and
    "milestones a =
           [BeginsRenderPass (of_nat 0)]
           @ (if bindUnusedMeshShadingPipeline (swapValues c) then [Binds meshNoOutPipeline] else [])
           @ (if useExtraDynPCPPipeline (swapValues c)
              then [Binds extraDynPCPPipeline, SetsDynamicState, Draws] else [])
           @ [Binds graphicsPipeline]
           @ replicate (length states) SetsDynamicState
           @ (case dynamicValue (strideConfig (swapValues c)) of
                None \<Rightarrow> [] | Some strides \<Rightarrow> [SetsDynamicStride strides])
           @ replicate (length (getActiveViewportVec (swapValues c)) * length (meshParams (swapValues c))) Draws
           @ [EndsRenderPass]"
    by auto
  then show ?thesis
    using recordIteration_static_last [OF b] ab
    by (simp add: swapValues_other_fields getActiveViewportVec_swapValues)
qed


lemma concatMapM_total:
  "(\<And>x. x \<in> set xs \<Longrightarrow> f x \<noteq> None) \<Longrightarrow> concatMapM f xs \<noteq> None"
  by (induction xs) (auto simp add: bind_eq_None_conv)

lemma concatMapM_length:
  assumes "\<And>x. x \<in> set xs \<Longrightarrow> \<exists>y. f x = Some [y]"
  shows "\<exists>ys. concatMapM f xs = Some ys \<and> length ys = length xs"
  using assms
proof (induction xs)
  case Nil
  then show ?case by simp
next
  case (Cons x xs)
  obtain y where y: "f x = Some [y]" using Cons.prems [of x] by auto
  obtain ys where ys: "concatMapM f xs = Some ys" "length ys = length xs"
    using Cons.IH Cons.prems by auto
  show ?case using y ys by simp
qed

lemma line_vertices_length:
  "length (concat (map (\<lambda>rowIdx. [f1 rowIdx, f2 rowIdx, f3 rowIdx, f4 rowIdx]) [0..<n])) = 4 * n"
  by (induction n) simp_all

lemma iterate_vertices_Some:
  assumes "getTopologyClass (staticValue (topologyConfig m)) = PATCH
             \<longrightarrow> 1 < getActivePatchControlPoints m"
  shows "\<exists>vs. iterate_vertices dbg m = Some vs \<and> vs \<noteq> [] \<and> length vs \<le> 256
           \<and> (getTopologyClass (staticValue (topologyConfig m)) = TRIANGLE \<longrightarrow>
                length vs = (if singleVertex m then 1 else 6))"
  using assms
  by (auto simp add: iterate_vertices_def Let_def DE_ASSERT_def line_vertices_length
      kFramebufferHeight_def intro: exI [of _ 0])

lemma iterate_rvertices_Some:
  assumes "vs \<noteq> []" "getTopologyClass (staticValue (topologyConfig m)) = TRIANGLE \<longrightarrow>
                length vs = (if singleVertex m then 1 else 6)"
  shows "\<exists>rs. iterate_rvertices dbg m vs = Some rs
           \<and> (getTopologyClass (staticValue (topologyConfig m)) = TRIANGLE \<longrightarrow>
                rs \<noteq> [] \<and> length rs \<le> 256)"
  using assms
  by (simp add: iterate_rvertices_def Let_def DE_ASSERT_def at_opt_def)

lemma createVertexData_Some:
  assumes "vs \<noteq> []"
  shows "\<exists>bs. createVertexData dbg g vs off tr = Some bs
          \<and> length bs = length (getVertexDataStrides g)
          \<and> (\<forall>b \<in> set bs. leadingBytes b = unat off \<and> trailingBytes b = unat tr
                \<and> vertexCoords b = vs \<and> 8 \<le> sizeof_T (vertexStruct b)
                \<and> sizeof_T (vertexStruct b) \<le> 96)"
  using assms
  by (cases g) (simp_all add: createSingleBindingVertexData_def DE_ASSERT_def)

lemma unat_ucast_32_64: "unat (ucast (w :: 32 word) :: 64 word) = unat w"
proof -
  have "unat w < 2 ^ 32" using unsigned_less [of w, where ?'a = nat] by simp
  then have "unat w < 2 ^ 64" by simp
  then have "take_bit 64 (unat w) = unat w" by (rule take_bit_nat_eq_self)
  then show ?thesis by (simp add: unsigned_ucast_eq)
qed

lemma bufferSize_gt_extraSize:
  fixes dataOffset trailingSize :: deUint32
  assumes "0 < n" "n \<le> 256" "8 \<le> sz" "sz \<le> 96"
  shows "(ucast (dataOffset + trailingSize) :: VkDeviceSize)
           < of_nat (unat (ucast dataOffset :: VkDeviceSize) + n * sz
                     + unat (ucast trailingSize :: VkDeviceSize))"
proof -
  have a: "unat (ucast dataOffset :: VkDeviceSize) = unat dataOffset"
    "unat (ucast trailingSize :: VkDeviceSize) = unat trailingSize"
    by (simp_all only: unat_ucast_32_64)
  have b: "unat dataOffset < 2 ^ 32" "unat trailingSize < 2 ^ 32"
    using unsigned_less [of dataOffset, where ?'a = nat] unsigned_less [of trailingSize, where ?'a = nat] by simp_all
  have c: "n * sz \<le> 256 * 96" using assms(2,4) by (rule mult_le_mono)
  have d: "0 < n * sz" using assms by simp
  let ?N = "unat dataOffset + n * sz + unat trailingSize"
  have N: "?N < 2 ^ 64" using b c by simp
  have "unat (of_nat ?N :: VkDeviceSize) = ?N mod 2 ^ LENGTH(64)"
    by (rule unat_of_nat)
  also have "\<dots> = ?N" using N by simp
  finally have e: "unat (of_nat ?N :: VkDeviceSize) = ?N" .
  have f: "unat (ucast (dataOffset + trailingSize) :: VkDeviceSize) = unat (dataOffset + trailingSize)"
    by (simp only: unat_ucast_32_64)
  have g: "unat (dataOffset + trailingSize) \<le> unat dataOffset + unat trailingSize"
    by (simp add: unat_word_ariths)
  show ?thesis
    unfolding word_less_nat_alt a e f using g d by linarith
qed

lemma getBindingDescriptions_Some:
  "length (getVertexDataStrides sg) \<le> length strides \<Longrightarrow>
     \<exists>bs. getBindingDescriptions sg strides = Some bs"
  by (cases sg) (auto simp add: at_opt_def)

lemma prepareVertexBuffers_Some:
  assumes "vs \<noteq> []" "length vs \<le> 256"
  shows "\<exists>bs. prepareVertexBuffers dbg (Some g) vs dataOffset trailingSize ssbos = Some bs
           \<and> length bs = length (getVertexDataStrides g)"
proof -
  from createVertexData_Some [OF assms(1), of dbg g "ucast dataOffset" "ucast trailingSize"]
  obtain vd where vd: "createVertexData dbg g vs (ucast dataOffset) (ucast trailingSize) = Some vd"
    and len: "length vd = length (getVertexDataStrides g)"
    and el: "\<forall>b \<in> set vd. leadingBytes b = unat (ucast dataOffset :: VkDeviceSize)
                \<and> trailingBytes b = unat (ucast trailingSize :: VkDeviceSize)
                \<and> vertexCoords b = vs \<and> 8 \<le> sizeof_T (vertexStruct b)
                \<and> sizeof_T (vertexStruct b) \<le> 96"
    by blast
  have n: "0 < length vs" using assms(1) by simp
  have "\<exists>ys. concatMapM (\<lambda>bufferBytes.
           do {
             let bufferSize = (of_nat (dataSize bufferBytes) :: VkDeviceSize);
             let extraSize = (ucast (dataOffset + trailingSize) :: VkDeviceSize);
             DE_ASSERT dbg (bufferSize > extraSize);
             let dataSize' = bufferSize - extraSize;
             Some [\<lparr>vbi_buffer = \<lparr>buf_size = bufferSize, buf_storage = ssbos,
                                   buf_bytes = bufferBytes\<rparr>,
                    vbi_offset = ucast dataOffset,
                    vbi_dataSize = dataSize'\<rparr>]
           }) vd = Some ys \<and> length ys = length vd"
  proof (rule concatMapM_length)
    fix b
    assume "b \<in> set vd"
    then have b: "leadingBytes b = unat (ucast dataOffset :: VkDeviceSize)"
      "trailingBytes b = unat (ucast trailingSize :: VkDeviceSize)"
      "vertexCoords b = vs" "8 \<le> sizeof_T (vertexStruct b)" "sizeof_T (vertexStruct b) \<le> 96"
      using el by simp_all
    have "(ucast (dataOffset + trailingSize) :: VkDeviceSize) < of_nat (dataSize b)"
      unfolding dataSize_def b(1-3)
      by (rule bufferSize_gt_extraSize [OF n assms(2) b(4,5)])
    then show "\<exists>y. do {
             let bufferSize = (of_nat (dataSize b) :: VkDeviceSize);
             let extraSize = (ucast (dataOffset + trailingSize) :: VkDeviceSize);
             DE_ASSERT dbg (bufferSize > extraSize);
             let dataSize' = bufferSize - extraSize;
             Some [\<lparr>vbi_buffer = \<lparr>buf_size = bufferSize, buf_storage = ssbos,
                                   buf_bytes = b\<rparr>,
                    vbi_offset = ucast dataOffset,
                    vbi_dataSize = dataSize'\<rparr>]
           } = Some [y]"
      by (simp add: Let_def DE_ASSERT_def)
  qed
  then show ?thesis using vd len by (auto simp add: prepareVertexBuffers_def)
qed

lemma mesh_check_Some:
  "list_all (\<lambda>mesh. \<not> reversed mesh) ms \<Longrightarrow>
     \<exists>ys. concatMapM (\<lambda>mesh. do { DE_ASSERT dbg (\<not> reversed mesh); Some [mesh] }) ms = Some ys"
  by (induction ms) (auto simp add: DE_ASSERT_def)

lemma descriptor_infos_Some:
  assumes "length bs = length rbs"
  shows "\<exists>ys. concatMapM (\<lambda>i.
               do {
                 b \<leftarrow> at_opt bs i;
                 r \<leftarrow> at_opt rbs i;
                 Some [(b, r)]
               })
             [0..<length bs] = Some ys"
proof -
  have "\<exists>ys. concatMapM (\<lambda>i.
               do {
                 b \<leftarrow> at_opt bs i;
                 r \<leftarrow> at_opt rbs i;
                 Some [(b, r)]
               })
             [0..<length bs] = Some ys \<and> length ys = length [0..<length bs]"
    by (rule concatMapM_length) (use assms in \<open>simp add: at_opt_def\<close>)
  then show ?thesis by blast
qed

lemma iterate_prepare_Some:
  assumes tc: "getTopologyClass (staticValue (topologyConfig m)) = TRIANGLE
               \<or> list_all (\<lambda>mesh. \<not> reversed mesh) (meshParams m)
                 \<and> (getTopologyClass (staticValue (topologyConfig m)) = PATCH
                      \<longrightarrow> 1 < getActivePatchControlPoints m)"
    and gen: "getActiveVertexGenerator m = Some g" "staticValue (vertexGenerator m) = Some sg"
    and str: "length (getVertexDataStrides sg) \<le> length (staticValue (strideConfig m))"
    and vp: "case dynamicValue (viewportConfig m) of
               None \<Rightarrow> staticValue (viewportConfig m) \<noteq> [] | Some v \<Rightarrow> v \<noteq> []"
    and sc: "case dynamicValue (scissorConfig m) of
               None \<Rightarrow> staticValue (scissorConfig m) \<noteq> [] | Some v \<Rightarrow> v \<noteq> []"
    and ssbo: "ssbo \<longrightarrow> getTopologyClass (staticValue (topologyConfig m)) = TRIANGLE"
  shows "\<exists>geo. iterate_prepare dbg m ssbo = Some geo
           \<and> length (vertBuffers geo) = length (getVertexDataStrides g)
           \<and> (getTopologyClass (staticValue (topologyConfig m)) = TRIANGLE \<longrightarrow>
                length (rvertBuffers geo) = length (getVertexDataStrides g)
                \<and> verticesSize geo = (if singleVertex m then 1 else 6))"
proof -
  let ?tc = "getTopologyClass (staticValue (topologyConfig m))"
  have p: "?tc = PATCH \<longrightarrow> 1 < getActivePatchControlPoints m" using tc by auto
  from iterate_vertices_Some [OF p, of dbg] obtain vs where
    vs: "iterate_vertices dbg m = Some vs" "vs \<noteq> []" "length vs \<le> 256"
      "?tc = TRIANGLE \<longrightarrow> length vs = (if singleVertex m then 1 else 6)"
    by blast
  from iterate_rvertices_Some [OF vs(2,4), of dbg] obtain rs where
    rs: "iterate_rvertices dbg m vs = Some rs" "?tc = TRIANGLE \<longrightarrow> rs \<noteq> [] \<and> length rs \<le> 256"
    by blast
  have mc: "?tc \<noteq> TRIANGLE \<Longrightarrow>
     \<exists>ys. concatMapM (\<lambda>mesh. do { DE_ASSERT dbg (\<not> reversed mesh); Some [mesh] }) (meshParams m)
        = Some ys"
    using tc by (intro mesh_check_Some) auto
  from prepareVertexBuffers_Some [OF vs(2,3), of dbg g] obtain bs where
    bs: "prepareVertexBuffers dbg (Some g) vs (ucast (vertexDataOffset m))
           (ucast (vertexDataExtraBytes m)) ssbo = Some bs"
      "length bs = length (getVertexDataStrides g)"
    by blast
  have rb: "?tc = TRIANGLE \<Longrightarrow> \<exists>rbs. prepareVertexBuffers dbg (Some g) rs
       (ucast (vertexDataOffset m)) (ucast (vertexDataExtraBytes m)) ssbo = Some rbs
       \<and> length rbs = length (getVertexDataStrides g)"
    using rs(2) by (intro prepareVertexBuffers_Some) auto
  from getBindingDescriptions_Some [OF str] obtain vb where
    vb: "getBindingDescriptions sg (staticValue (strideConfig m)) = Some vb"
    by blast
  show ?thesis
  proof (cases "?tc = TRIANGLE")
    case True
    from rb [OF True] obtain rbs where
      rbs: "prepareVertexBuffers dbg (Some g) rs
       (ucast (vertexDataOffset m)) (ucast (vertexDataExtraBytes m)) ssbo = Some rbs"
       "length rbs = length (getVertexDataStrides g)"
      by blast
    have "length bs = length rbs" using bs(2) rbs(2) by simp
    from descriptor_infos_Some [OF this] obtain ds where
      ds: "concatMapM (\<lambda>i.
               do {
                 b \<leftarrow> at_opt bs i;
                 r \<leftarrow> at_opt rbs i;
                 Some [(b, r)]
               })
             [0..<length bs] = Some ds"
      by blast
    show ?thesis
      using True vs(1,4) rs(1) bs rbs ds vb gen vp sc
      by (auto simp add: iterate_prepare_def Let_def DE_ASSERT_def split: option.splits)
  next
    case False
    from mc [OF False] obtain ys where
      ys: "concatMapM (\<lambda>mesh. do { DE_ASSERT dbg (\<not> reversed mesh); Some [mesh] }) (meshParams m)
        = Some ys"
      by blast
    have "\<not> ssbo" using False ssbo by simp
    then show ?thesis
      using False vs(1) rs(1) bs ys vb gen vp sc
      by (auto simp add: iterate_prepare_def Let_def DE_ASSERT_def split: option.splits)
  qed
qed

lemma getBindingDescriptions2_Some:
  "length (getVertexDataStrides dg) \<le> length strides \<Longrightarrow>
     \<exists>bs. getBindingDescriptions2 dg strides = Some bs"
  by (cases dg) (auto simp add: at_opt_def)

lemma setDynamicStates_total:
  assumes "case dynamicValue (vertexGenerator m) of
             None \<Rightarrow> True
           | Some None \<Rightarrow> False
           | Some (Some dg) \<Rightarrow>
               length (getVertexDataStrides dg) \<le> length (staticValue (strideConfig m))"
  shows "setDynamicStates m \<noteq> None"
proof (cases "dynamicValue (vertexGenerator m)")
  case None
  then show ?thesis by (simp add: setDynamicStates_def)
next
  case (Some d)
  then obtain dg where d: "d = Some dg"
    and l: "length (getVertexDataStrides dg) \<le> length (staticValue (strideConfig m))"
    using assms by (cases d) simp_all
  from getBindingDescriptions2_Some [OF l] obtain bs where
    "getBindingDescriptions2 dg (staticValue (strideConfig m)) = Some bs"
    by blast
  then show ?thesis using Some d by (simp add: setDynamicStates_def Let_def)
qed

lemma setStatesAndBind_total:
  assumes "case dynamicValue (vertexGenerator m) of
             None \<Rightarrow> True
           | Some None \<Rightarrow> False
           | Some (Some dg) \<Rightarrow>
               length (getVertexDataStrides dg) \<le> length (staticValue (strideConfig m))"
    and "case dynamicValue (strideConfig m) of
           None \<Rightarrow> True
         | Some strides \<Rightarrow>
             \<not> useMeshShaders m \<and> length (getActiveViewportVec m) = 1
             \<and> length (meshParams m) = 1
             \<and> length (if reversed (meshParams m ! 0) then rvertBuffers geo else vertBuffers geo)
                 = length strides"
  shows "setStatesAndBind dbg m 0 geo \<noteq> None"
proof -
  from setDynamicStates_total [OF assms(1)]
  obtain states :: "('b, 'c, 'd) Cmd list" where "setDynamicStates m = Some states"
    by auto
  moreover have "maybeBindVertexBufferDynStride dbg m 0 geo \<noteq> None"
    using assms(2)
    by (auto simp add: maybeBindVertexBufferDynStride_def at_opt_def DE_ASSERT_def Let_def
        split: option.splits)
  ultimately show ?thesis
    by (auto simp add: setStatesAndBind_def)
qed

lemma recordMesh_total:
  assumes "i < length (meshParams m)" "ord \<noteq> BEFORE_DRAW" "ord \<noteq> AFTER_PIPELINES"
    and "dynamicValue (primRestartEnableConfig m) \<noteq> None \<longrightarrow>
           getTopologyClass (staticValue (topologyConfig m)) = LINE"
    and "useMeshShaders m \<longrightarrow>
           2 < verticesSize geo \<and> dynamicValue (topologyConfig m) = None
           \<and> staticValue (topologyConfig m) = VK_PRIMITIVE_TOPOLOGY_TRIANGLE_STRIP"
  shows "recordMesh dbg geo m ord ssbo bound v i \<noteq> None"
  using assms
  by (auto simp add: recordMesh_def at_opt_def needsIndexBuffer_def Let_def DE_ASSERT_def
      kLineVertexCount_def kFramebufferHeight_def kLinePointsPerRow_def)

lemma recordMeshes_total:
  assumes "ord \<noteq> BEFORE_DRAW" "ord \<noteq> AFTER_PIPELINES"
    and "dynamicValue (primRestartEnableConfig m) \<noteq> None \<longrightarrow>
           getTopologyClass (staticValue (topologyConfig m)) = LINE"
    and "useMeshShaders m \<longrightarrow>
           2 < verticesSize geo \<and> dynamicValue (topologyConfig m) = None
           \<and> staticValue (topologyConfig m) = VK_PRIMITIVE_TOPOLOGY_TRIANGLE_STRIP"
  shows "concatMapM (\<lambda>viewportIdx.
             concatMapM (\<lambda>meshIdx. recordMesh dbg geo m ord ssbo bound viewportIdx meshIdx)
               [0..<length (meshParams m)])
           vs \<noteq> None"
  by (intro concatMapM_total recordMesh_total assms) simp

lemma recordIteration_total:
  assumes "ord = TWO_DRAWS_DYNAMIC \<or> ord = TWO_DRAWS_STATIC"
    and "case dynamicValue (vertexGenerator m) of
             None \<Rightarrow> True
           | Some None \<Rightarrow> False
           | Some (Some dg) \<Rightarrow>
               length (getVertexDataStrides dg) \<le> length (staticValue (strideConfig m))"
    and "case dynamicValue (strideConfig m) of
           None \<Rightarrow> True
         | Some strides \<Rightarrow>
             \<not> useMeshShaders m \<and> length (getActiveViewportVec m) = 1
             \<and> length (meshParams m) = 1
             \<and> length (if reversed (meshParams m ! 0) then rvertBuffers geo else vertBuffers geo)
                 = length strides"
    and "dynamicValue (primRestartEnableConfig m) \<noteq> None \<longrightarrow>
           getTopologyClass (staticValue (topologyConfig m)) = LINE"
    and "useMeshShaders m \<longrightarrow>
           2 < verticesSize geo \<and> dynamicValue (topologyConfig m) = None
           \<and> staticValue (topologyConfig m) = VK_PRIMITIVE_TOPOLOGY_TRIANGLE_STRIP"
    and "\<not> bindUnusedMeshShadingPipeline m"
  shows "recordIteration dbg geo m ord bsf ssbo i \<noteq> None"
proof -
  have ord: "ord \<noteq> BEFORE_DRAW" "ord \<noteq> AFTER_PIPELINES" "ord \<noteq> CMD_BUFFER_START"
    "ord \<noteq> BETWEEN_PIPELINES" "ord \<noteq> BEFORE_GOOD_STATIC"
    using assms(1) by auto
  note ms = recordMeshes_total [OF ord(1,2) assms(4,5)]
  have sb: "\<exists>a b. setStatesAndBind dbg m 0 geo = Some (a, b)"
    using setStatesAndBind_total [OF assms(2,3), of dbg] by auto
  show ?thesis
    using ord assms(6)
    by (auto simp add: recordIteration_def bind_eq_None_conv Let_def split_beta ms sb)
qed

lemma iterate_config_fields:
  "dynamicValue (primRestartEnableConfig (iterate_config c)) = None
     \<longleftrightarrow> dynamicValue (primRestartEnableConfig c) = None"
  "dynamicValue (topologyConfig (iterate_config c)) = None
     \<longleftrightarrow> dynamicValue (topologyConfig c) = None"
  "dynamicValue (strideConfig (iterate_config c)) = None
     \<longleftrightarrow> dynamicValue (strideConfig c) = None"
  "useMeshShaders (iterate_config c) = useMeshShaders c"
  "bindUnusedMeshShadingPipeline (iterate_config c) = bindUnusedMeshShadingPipeline c"
  "meshParams (iterate_config c) = meshParams c"
  "singleVertex (iterate_config c) = singleVertex c"
  "getActiveViewportVec (iterate_config c) = getActiveViewportVec c"
  by (simp_all add: iterate_config_def Let_def swapValues_fields swapValues_other_fields
      getActiveViewportVec_swapValues)

lemma iterate_record_total:
  fixes c :: "('pct, 'vp, 'sc) TestConfig"
  assumes ord: "sequenceOrdering c = TWO_DRAWS_DYNAMIC \<or> sequenceOrdering c = TWO_DRAWS_STATIC"
    and dev: "list_ex (\<lambda>f. dev (imageFormat f)) kDepthStencilFormats"
    and gen: "getActiveVertexGenerator (iterate_config c) = Some g"
      "staticValue (vertexGenerator (iterate_config c)) = Some sg"
    and dg: "case dynamicValue (vertexGenerator (iterate_config c)) of
               None \<Rightarrow> True
             | Some None \<Rightarrow> False
             | Some (Some dg) \<Rightarrow>
                 length (getVertexDataStrides dg)
                   \<le> length (staticValue (strideConfig (iterate_config c)))"
    and str: "length (getVertexDataStrides sg)
                \<le> length (staticValue (strideConfig (iterate_config c)))"
    and bu: "\<not> bindUnusedMeshShadingPipeline c"
    and tc: "getTopologyClass (staticValue (topologyConfig (iterate_config c))) = TRIANGLE
               \<or> list_all (\<lambda>mesh. \<not> reversed mesh) (meshParams c)
                 \<and> (getTopologyClass (staticValue (topologyConfig (iterate_config c))) = PATCH
                      \<longrightarrow> 1 < getActivePatchControlPoints (iterate_config c))"
    and pr: "dynamicValue (primRestartEnableConfig c) \<noteq> None \<longrightarrow>
               getTopologyClass (staticValue (topologyConfig (iterate_config c))) = LINE"
    and ms: "useMeshShaders c \<longrightarrow>
               staticValue (topologyConfig (iterate_config c))
                 = VK_PRIMITIVE_TOPOLOGY_TRIANGLE_STRIP
               \<and> dynamicValue (topologyConfig c) = None \<and> \<not> singleVertex c
               \<and> dynamicValue (strideConfig c) = None"
    and dyn: "case dynamicValue (strideConfig (iterate_config c)) of
                None \<Rightarrow> True
              | Some strides \<Rightarrow>
                  length strides = length (getVertexDataStrides g)
                  \<and> length (getActiveViewportVec c) = 1 \<and> length (meshParams c) = 1"
    and vp: "case dynamicValue (viewportConfig (iterate_config c)) of
               None \<Rightarrow> staticValue (viewportConfig (iterate_config c)) \<noteq> []
             | Some v \<Rightarrow> v \<noteq> []"
    and sc: "case dynamicValue (scissorConfig (iterate_config c)) of
               None \<Rightarrow> staticValue (scissorConfig (iterate_config c)) \<noteq> []
             | Some v \<Rightarrow> v \<noteq> []"
  shows "iterate_record dbg dev c \<noteq> None"
proof -
  let ?m = "iterate_config c"
  let ?tc = "getTopologyClass (staticValue (topologyConfig ?m))"
  note f = iterate_config_fields [of c]
  have tc': "?tc = TRIANGLE
               \<or> list_all (\<lambda>mesh. \<not> reversed mesh) (meshParams ?m)
                 \<and> (?tc = PATCH \<longrightarrow> 1 < getActivePatchControlPoints ?m)"
    using tc by (simp add: f)
  have ssbo: "useMeshShaders c \<longrightarrow> ?tc = TRIANGLE"
    using ms by auto
  from iterate_prepare_Some [OF tc' gen str vp sc ssbo, of dbg] obtain geo where
    geo: "iterate_prepare dbg ?m (useMeshShaders c) = Some geo"
      "length (vertBuffers geo) = length (getVertexDataStrides g)"
      "?tc = TRIANGLE \<longrightarrow> length (rvertBuffers geo) = length (getVertexDataStrides g)
                \<and> verticesSize geo = (if singleVertex ?m then 1 else 6)"
    by blast
  have sb: "case dynamicValue (strideConfig ?m) of
           None \<Rightarrow> True
         | Some strides \<Rightarrow>
             \<not> useMeshShaders ?m \<and> length (getActiveViewportVec ?m) = 1
             \<and> length (meshParams ?m) = 1
             \<and> length (if reversed (meshParams ?m ! 0) then rvertBuffers geo else vertBuffers geo)
                 = length strides"
  proof (cases "dynamicValue (strideConfig ?m)")
    case None
    then show ?thesis by simp
  next
    case (Some strides)
    then have l: "length strides = length (getVertexDataStrides g)"
      "length (getActiveViewportVec c) = 1" "length (meshParams c) = 1"
      using dyn by simp_all
    have nm: "\<not> useMeshShaders c"
      using ms Some f(3) by auto
    have "reversed (meshParams c ! 0) \<Longrightarrow> ?tc = TRIANGLE"
      using tc l(3) by (cases "meshParams c") auto
    then have "length (if reversed (meshParams c ! 0) then rvertBuffers geo else vertBuffers geo)
                 = length strides"
      using geo(2,3) l(1) by auto
    then show ?thesis using Some l nm by (simp add: f)
  qed
  have pr': "dynamicValue (primRestartEnableConfig ?m) \<noteq> None \<longrightarrow> ?tc = LINE"
    using pr by (simp add: f)
  have ms': "useMeshShaders ?m \<longrightarrow>
           2 < verticesSize geo \<and> dynamicValue (topologyConfig ?m) = None
           \<and> staticValue (topologyConfig ?m) = VK_PRIMITIVE_TOPOLOGY_TRIANGLE_STRIP"
    using ms geo(3) by (auto simp add: f)
  have "recordIteration dbg geo ?m (sequenceOrdering c) bsf ssbo i \<noteq> None" for bsf ssbo i
    using ord dg sb pr' ms' bu by (intro recordIteration_total) (simp_all add: f)
  then have "recordCommandBuffer dbg geo ?m (sequenceOrdering c) n bsf ssbo \<noteq> None" for n bsf ssbo
    by (simp add: recordCommandBuffer_def bind_eq_None_conv concatMapM_total)
  moreover
  have "\<exists>d. find (\<lambda>f. dev (imageFormat f)) kDepthStencilFormats = Some d"
    using dev by (cases "find (\<lambda>f. dev (imageFormat f)) kDepthStencilFormats")
      (auto simp add: find_None_iff list_ex_iff)
  ultimately show ?thesis
    using geo(1) by (auto simp add: iterate_record_def Let_def bind_eq_None_conv)
qed

lemma concatMapM_None:
  "x \<in> set xs \<Longrightarrow> f x = None \<Longrightarrow> concatMapM f xs = None"
  by (induction xs) (auto simp add: bind_eq_None_conv)

lemma iterate_prepare_reversed:
  assumes "dbg" "getTopologyClass (staticValue (topologyConfig m)) \<noteq> TRIANGLE"
    and "list_ex reversed (meshParams m)"
  shows "iterate_prepare dbg m ssbo = None"
proof -
  obtain mesh where "mesh \<in> set (meshParams m)" "reversed mesh"
    using assms(3) by (auto simp add: list_ex_iff)
  then have "concatMapM (\<lambda>mesh. do { DE_ASSERT dbg (\<not> reversed mesh); Some [mesh] })
               (meshParams m) = None"
    using assms(1) by (intro concatMapM_None [of mesh]) (simp_all add: DE_ASSERT_def)
  then show ?thesis
    using assms(2)
    by (cases "iterate_vertices dbg m"; cases "iterate_rvertices dbg m (the (iterate_vertices dbg m))")
      (simp_all add: iterate_prepare_def Let_def)
qed

lemma iterate_record_aborts:
  "dbg \<Longrightarrow> getTopologyClass (staticValue (topologyConfig (iterate_config c))) \<noteq> TRIANGLE \<Longrightarrow>
     list_ex reversed (meshParams c) \<Longrightarrow> iterate_record dbg dev c = None"
  "\<not> list_ex (\<lambda>f. dev (imageFormat f)) kDepthStencilFormats \<Longrightarrow> iterate_record dbg dev c = None"
proof -
  assume "dbg" "getTopologyClass (staticValue (topologyConfig (iterate_config c))) \<noteq> TRIANGLE"
    "list_ex reversed (meshParams c)"
  then have "iterate_prepare dbg (iterate_config c) (useMeshShaders c) = None"
    by (intro iterate_prepare_reversed) (simp_all add: iterate_config_fields)
  then show "iterate_record dbg dev c = None"
    by (simp add: iterate_record_def Let_def bind_eq_None_conv)
next
  assume "\<not> list_ex (\<lambda>f. dev (imageFormat f)) kDepthStencilFormats"
  then have "find (\<lambda>f. dev (imageFormat f)) kDepthStencilFormats = None"
    by (simp add: find_None_iff list_ex_iff)
  then show "iterate_record dbg dev c = None"
    by (simp add: iterate_record_def Let_def)
qed

lemma cullNoneTest_config:
  assumes "cullNoneTest dbg fw pct ord mesh = Some t"
  shows "sequenceOrdering (m_testConfig t) = ord"
    and "dynamicValue (vertexGenerator (m_testConfig t)) = None"
    and "dynamicValue (strideConfig (m_testConfig t)) = None"
    and "dynamicValue (primRestartEnableConfig (m_testConfig t)) = None"
    and "useMeshShaders (m_testConfig t) = mesh"
    and "\<not> bindUnusedMeshShadingPipeline (m_testConfig t)"
    and "\<not> useExtraDynPCPPipeline (m_testConfig t)"
    and "length (getActiveViewportVec (m_testConfig t)) = 1"
    and "length (meshParams (m_testConfig t)) = 1"
    and "setDynamicStates (m_testConfig t) = Some [CmdSetCullMode VK_CULL_MODE_NONE]"
    and "setDynamicStates (swapValues (m_testConfig t)) = Some [CmdSetCullMode VK_CULL_MODE_FRONT_BIT]"
  using assms
  by (auto simp add: cullNoneTest_def TestConfig_new_def ExtendedDynamicStateTest_new_def
      makeVertexGeneratorConfig_def chooseVertexGenerator_def StaticOnly_def
      bind_eq_Some_conv Let_def getActiveViewportVec_def setDynamicStates_def
      swapValues_fields swapValuesPair_def)

lemma cullNoneTest_Some:
  "\<exists>t. cullNoneTest dbg fw pct ord mesh = Some t"
  by (simp add: cullNoneTest_def TestConfig_new_def ExtendedDynamicStateTest_new_def
      makeVertexGeneratorConfig_def chooseVertexGenerator_def StaticOnly_def
      Let_def testPatchControlPoints_def patchesTopology_def DE_ASSERT_def)

lemma cullNoneTest_dynamic_values:
  assumes "cullNoneTest dbg fw pct ord mesh = Some t"
  shows "dynamicValue (cullModeConfig (m_testConfig t)) = Some VK_CULL_MODE_NONE"
    and "dynamicValue (vertexGenerator (m_testConfig t)) = None"
    and "dynamicValue (frontFaceConfig (m_testConfig t)) = None"
    and "dynamicValue (topologyConfig (m_testConfig t)) = None"
    and "dynamicValue (viewportConfig (m_testConfig t)) = None"
    and "dynamicValue (scissorConfig (m_testConfig t)) = None"
    and "dynamicValue (strideConfig (m_testConfig t)) = None"
    and "dynamicValue (depthTestEnableConfig (m_testConfig t)) = None"
    and "dynamicValue (depthWriteEnableConfig (m_testConfig t)) = None"
    and "dynamicValue (depthCompareOpConfig (m_testConfig t)) = None"
    and "dynamicValue (depthBoundsTestEnableConfig (m_testConfig t)) = None"
    and "dynamicValue (stencilTestEnableConfig (m_testConfig t)) = None"
    and "dynamicValue (stencilOpConfig (m_testConfig t)) = None"
    and "dynamicValue (depthBiasEnableConfig (m_testConfig t)) = None"
    and "dynamicValue (rastDiscardEnableConfig (m_testConfig t)) = None"
    and "dynamicValue (primRestartEnableConfig (m_testConfig t)) = None"
    and "dynamicValue (logicOpConfig (m_testConfig t)) = None"
    and "dynamicValue (patchControlPointsConfig (m_testConfig t)) = None"
    and "dynamicValue (depthBiasConfig (m_testConfig t)) = None"
  using assms
  by (auto simp add: cullNoneTest_def TestConfig_new_def ExtendedDynamicStateTest_new_def
      makeVertexGeneratorConfig_def chooseVertexGenerator_def StaticOnly_def
      bind_eq_Some_conv Let_def)

lemma cullNoneTest_pairs:
  assumes "cullNoneTest dbg fw pct ord mesh = Some t"
  shows "cullModeConfig (m_testConfig t) =
           \<lparr>staticValue = VK_CULL_MODE_FRONT_BIT, dynamicValue = Some VK_CULL_MODE_NONE\<rparr>"
    and "viewportConfig (m_testConfig t) =
           StaticOnly [makeViewport fw kFramebufferWidth kFramebufferHeight]"
    and "patchControlPointsConfig (m_testConfig t) = StaticOnly 1"
    and "topologyConfig (m_testConfig t) = StaticOnly VK_PRIMITIVE_TOPOLOGY_TRIANGLE_STRIP"
    and "\<not> m_swappedValues (m_testConfig t)"
  using assms
  by (auto simp add: cullNoneTest_def TestConfig_new_def ExtendedDynamicStateTest_new_def
      makeVertexGeneratorConfig_def chooseVertexGenerator_def StaticOnly_def
      bind_eq_Some_conv Let_def)

lemma cullNoneTest_buffers:
  assumes "cullNoneTest dbg fw pct ord mesh = Some t"
  shows "vertexGenerator (m_testConfig t) = StaticOnly (Some VertexWithPadding)"
    and "strideConfig (m_testConfig t) = StaticOnly [16]"
    and "scissorConfig (m_testConfig t) =
           StaticOnly [makeRect2D fw kFramebufferWidth kFramebufferHeight]"
    and "meshParams (m_testConfig t) = [MeshParams_default]"
    and "\<not> singleVertex (m_testConfig t)"
  using assms
  by (auto simp add: cullNoneTest_def TestConfig_new_def ExtendedDynamicStateTest_new_def
      makeVertexGeneratorConfig_def chooseVertexGenerator_def StaticOnly_def
      bind_eq_Some_conv Let_def)

lemma strideTest_Some:
  "\<exists>t. strideTest dbg fw pct ord mesh factory prefix bindUnused nameSuffix descSuffix = Some t"
  by (simp add: strideTest_def TestConfig_new_def ExtendedDynamicStateTest_new_def
      makeVertexGeneratorConfig_def chooseVertexGenerator_def StaticOnly_def
      Let_def testPatchControlPoints_def patchesTopology_def DE_ASSERT_def)

lemma strideTest_config:
  assumes "strideTest dbg fw pct ord mesh factory prefix bindUnused nameSuffix descSuffix = Some t"
  shows "sequenceOrdering (m_testConfig t) = ord"
    and "vertexGenerator (m_testConfig t) = StaticOnly (Some factory)"
    and "strideConfig (m_testConfig t) =
           \<lparr>staticValue = map (\<lambda>stride. stride div 2) (getVertexDataStrides factory),
            dynamicValue = Some (getVertexDataStrides factory)\<rparr>"
    and "dynamicValue (primRestartEnableConfig (m_testConfig t)) = None"
    and "useMeshShaders (m_testConfig t) = mesh"
    and "bindUnusedMeshShadingPipeline (m_testConfig t) = bindUnused"
    and "\<not> useExtraDynPCPPipeline (m_testConfig t)"
    and "topologyConfig (m_testConfig t) = StaticOnly VK_PRIMITIVE_TOPOLOGY_TRIANGLE_STRIP"
    and "viewportConfig (m_testConfig t) =
           StaticOnly [makeViewport fw kFramebufferWidth kFramebufferHeight]"
    and "scissorConfig (m_testConfig t) =
           StaticOnly [makeRect2D fw kFramebufferWidth kFramebufferHeight]"
    and "meshParams (m_testConfig t) = [MeshParams_default]"
    and "\<not> m_swappedValues (m_testConfig t)"
    and "\<not> singleVertex (m_testConfig t)"
    and "setDynamicStates (m_testConfig t) = Some []"
    and "setDynamicStates (swapValues (m_testConfig t)) = Some []"
  using assms
  by (auto simp add: strideTest_def TestConfig_new_def ExtendedDynamicStateTest_new_def
      makeVertexGeneratorConfig_def chooseVertexGenerator_def StaticOnly_def
      bind_eq_Some_conv Let_def setDynamicStates_def swapValues_fields swapValuesPair_def)

subsection \<open>Pairs and swapping\<close>

text \<open>
  Claim C3. Each of the five active-value queries of a configuration
  (\<open>getActiveViewportVec\<close>, \<open>getActiveVertexGenerator\<close>, \<open>getActivePatchControlPoints\<close>,
  \<open>getActiveDepthBiasParams\<close>, \<open>getActivePrimitiveRestartEnable\<close>) is the active value of
  its pair under the swapped flag of the configuration, where the active value of a pair of
  any type is the dynamic value when one is present and the flag is false, and the static
  value otherwise. For a pair without a dynamic value, swapping leaves the pair unchanged
  and the active value is the static value for both values of the flag.
\<close>

theorem active_value_of_pairs:
  "getActiveViewportVec c = active_spec (viewportConfig c) (m_swappedValues c)
   \<and> getActiveVertexGenerator c = active_spec (vertexGenerator c) (m_swappedValues c)
   \<and> getActivePatchControlPoints c =
       ucast (active_spec (patchControlPointsConfig c) (m_swappedValues c))
   \<and> getActiveDepthBiasParams c = active_spec (depthBiasConfig c) (m_swappedValues c)
   \<and> getActivePrimitiveRestartEnable c =
       active_spec (primRestartEnableConfig c) (m_swappedValues c)
   \<and> (dynamicValue p = Some d \<longrightarrow>
        active_spec p False = d \<and> active_spec p True = staticValue p)
   \<and> (dynamicValue p = None \<longrightarrow>
        swapValuesPair p = p \<and> active_spec p False = staticValue p
        \<and> active_spec p True = staticValue p)"
  by (simp add: getActive_as_spec active_spec_def swapValuesPair_def)

theorem active_value_of_pairs_witness:
  "(\<exists>t. cullNoneTest True exampleFramework () CMD_BUFFER_START False = Some t
        \<and> getActiveViewportVec (m_testConfig t) = [(64, 64)]
        \<and> getActivePatchControlPoints (m_testConfig t) = 1)
   \<and> active_spec (StaticAndDynamic VK_CULL_MODE_FRONT_BIT VK_CULL_MODE_NONE) False
       = VK_CULL_MODE_NONE
   \<and> active_spec (StaticAndDynamic VK_CULL_MODE_FRONT_BIT VK_CULL_MODE_NONE) True
       = VK_CULL_MODE_FRONT_BIT
   \<and> swapValuesPair (StaticOnly VK_CULL_MODE_BACK_BIT) = StaticOnly VK_CULL_MODE_BACK_BIT
   \<and> active_spec (StaticOnly VK_CULL_MODE_BACK_BIT) True = VK_CULL_MODE_BACK_BIT"
proof -
  obtain t where t: "cullNoneTest True exampleFramework () CMD_BUFFER_START False = Some t"
    using cullNoneTest_Some [of True exampleFramework "()" CMD_BUFFER_START False] by auto
  note f = cullNoneTest_pairs [OF t]
  have "getActiveViewportVec (m_testConfig t) = [(64, 64)]
        \<and> getActivePatchControlPoints (m_testConfig t) = 1"
    using active_value_of_pairs
      [where c = "m_testConfig t" and p = "StaticOnly VK_CULL_MODE_BACK_BIT"
         and d = VK_CULL_MODE_BACK_BIT] f
    by (simp add: active_spec_def StaticOnly_def exampleFramework_def kFramebufferWidth_def
        kFramebufferHeight_def)
  moreover
  have "active_spec (StaticAndDynamic VK_CULL_MODE_FRONT_BIT VK_CULL_MODE_NONE) False
          = VK_CULL_MODE_NONE
        \<and> active_spec (StaticAndDynamic VK_CULL_MODE_FRONT_BIT VK_CULL_MODE_NONE) True
          = VK_CULL_MODE_FRONT_BIT"
    using active_value_of_pairs
      [where c = "m_testConfig t"
         and p = "StaticAndDynamic VK_CULL_MODE_FRONT_BIT VK_CULL_MODE_NONE"
         and d = VK_CULL_MODE_NONE]
    by (simp add: StaticAndDynamic_def)
  moreover
  have "swapValuesPair (StaticOnly VK_CULL_MODE_BACK_BIT) = StaticOnly VK_CULL_MODE_BACK_BIT
        \<and> active_spec (StaticOnly VK_CULL_MODE_BACK_BIT) True = VK_CULL_MODE_BACK_BIT"
    using active_value_of_pairs
      [where c = "m_testConfig t" and p = "StaticOnly VK_CULL_MODE_BACK_BIT"
         and d = VK_CULL_MODE_BACK_BIT]
    by (simp add: StaticOnly_def)
  ultimately show ?thesis using t by blast
qed

text \<open>
  Claim C6. For a pair of any type with a static value \<open>s\<close> and a dynamic value \<open>d\<close>, one
  swap gives the pair with static value \<open>d\<close> and dynamic value \<open>s\<close>; swapping any pair twice
  gives the pair back. \<open>TestConfig::swapValues\<close> swaps each of its nineteen pairs and
  toggles the swapped flag, and applying it twice gives the configuration back.
\<close>

theorem swap_is_an_involution:
  "swapValuesPair \<lparr>staticValue = s, dynamicValue = Some d\<rparr>
     = \<lparr>staticValue = d, dynamicValue = Some s\<rparr>
   \<and> swapValuesPair (swapValuesPair p) = p
   \<and> swapValues (swapValues c) = c
   \<and> m_swappedValues (swapValues c) = (\<not> m_swappedValues c)
   \<and> vertexGenerator (swapValues c) = swapValuesPair (vertexGenerator c)
   \<and> cullModeConfig (swapValues c) = swapValuesPair (cullModeConfig c)
   \<and> frontFaceConfig (swapValues c) = swapValuesPair (frontFaceConfig c)
   \<and> topologyConfig (swapValues c) = swapValuesPair (topologyConfig c)
   \<and> viewportConfig (swapValues c) = swapValuesPair (viewportConfig c)
   \<and> scissorConfig (swapValues c) = swapValuesPair (scissorConfig c)
   \<and> strideConfig (swapValues c) = swapValuesPair (strideConfig c)
   \<and> depthTestEnableConfig (swapValues c) = swapValuesPair (depthTestEnableConfig c)
   \<and> depthWriteEnableConfig (swapValues c) = swapValuesPair (depthWriteEnableConfig c)
   \<and> depthCompareOpConfig (swapValues c) = swapValuesPair (depthCompareOpConfig c)
   \<and> depthBoundsTestEnableConfig (swapValues c) = swapValuesPair (depthBoundsTestEnableConfig c)
   \<and> stencilTestEnableConfig (swapValues c) = swapValuesPair (stencilTestEnableConfig c)
   \<and> stencilOpConfig (swapValues c) = swapValuesPair (stencilOpConfig c)
   \<and> depthBiasEnableConfig (swapValues c) = swapValuesPair (depthBiasEnableConfig c)
   \<and> rastDiscardEnableConfig (swapValues c) = swapValuesPair (rastDiscardEnableConfig c)
   \<and> primRestartEnableConfig (swapValues c) = swapValuesPair (primRestartEnableConfig c)
   \<and> logicOpConfig (swapValues c) = swapValuesPair (logicOpConfig c)
   \<and> patchControlPointsConfig (swapValues c) = swapValuesPair (patchControlPointsConfig c)
   \<and> depthBiasConfig (swapValues c) = swapValuesPair (depthBiasConfig c)"
  by (simp add: swapValues_involution swapValuesPair_involution swapValues_fields)
    (simp add: swapValuesPair_def)

theorem swap_is_an_involution_witness:
  "swapValuesPair (StaticAndDynamic VK_FRONT_FACE_CLOCKWISE VK_FRONT_FACE_COUNTER_CLOCKWISE)
     = StaticAndDynamic VK_FRONT_FACE_COUNTER_CLOCKWISE VK_FRONT_FACE_CLOCKWISE
   \<and> (\<exists>t. cullNoneTest True exampleFramework () TWO_DRAWS_STATIC False = Some t
        \<and> cullModeConfig (swapValues (m_testConfig t)) =
            \<lparr>staticValue = VK_CULL_MODE_NONE, dynamicValue = Some VK_CULL_MODE_FRONT_BIT\<rparr>
        \<and> m_swappedValues (swapValues (m_testConfig t))
        \<and> swapValues (swapValues (m_testConfig t)) = m_testConfig t)"
proof -
  obtain t where t: "cullNoneTest True exampleFramework () TWO_DRAWS_STATIC False = Some t"
    using cullNoneTest_Some [of True exampleFramework "()" TWO_DRAWS_STATIC False] by auto
  note f = cullNoneTest_pairs [OF t]
  have "cullModeConfig (swapValues (m_testConfig t)) =
            \<lparr>staticValue = VK_CULL_MODE_NONE, dynamicValue = Some VK_CULL_MODE_FRONT_BIT\<rparr>
        \<and> m_swappedValues (swapValues (m_testConfig t))
        \<and> swapValues (swapValues (m_testConfig t)) = m_testConfig t"
    using swap_is_an_involution
      [where s = VK_CULL_MODE_FRONT_BIT and d = VK_CULL_MODE_NONE
         and p = "cullModeConfig (m_testConfig t)" and c = "m_testConfig t"] f
    by simp
  moreover
  have "swapValuesPair (StaticAndDynamic VK_FRONT_FACE_CLOCKWISE VK_FRONT_FACE_COUNTER_CLOCKWISE)
     = StaticAndDynamic VK_FRONT_FACE_COUNTER_CLOCKWISE VK_FRONT_FACE_CLOCKWISE"
    using swap_is_an_involution
      [where s = VK_FRONT_FACE_CLOCKWISE and d = VK_FRONT_FACE_COUNTER_CLOCKWISE
         and p = "StaticOnly VK_FRONT_FACE_CLOCKWISE" and c = "m_testConfig t"]
    by (simp add: StaticAndDynamic_def)
  ultimately show ?thesis using t by blast
qed

text \<open>
  Claim C10. Each of the five active-value queries returns the same value on a
  configuration and on the configuration after \<open>swapValues\<close>, which exchanges the static and
  the dynamic value of every pair and toggles the swapped flag that the queries read.
\<close>

theorem active_values_invariant_under_swap:
  "getActiveViewportVec (swapValues c) = getActiveViewportVec c
   \<and> getActiveVertexGenerator (swapValues c) = getActiveVertexGenerator c
   \<and> getActivePatchControlPoints (swapValues c) = getActivePatchControlPoints c
   \<and> getActiveDepthBiasParams (swapValues c) = getActiveDepthBiasParams c
   \<and> getActivePrimitiveRestartEnable (swapValues c) = getActivePrimitiveRestartEnable c"
  by (simp add: getActive_as_spec swapValues_fields active_spec_swap)

theorem active_values_invariant_under_swap_witness:
  "\<exists>t. cullNoneTest True exampleFramework () TWO_DRAWS_STATIC False = Some t
      \<and> getActivePatchControlPoints
          ((m_testConfig t)\<lparr>patchControlPointsConfig := StaticAndDynamic 1 3\<rparr>) = 3
      \<and> getActivePatchControlPoints
          (swapValues ((m_testConfig t)\<lparr>patchControlPointsConfig := StaticAndDynamic 1 3\<rparr>)) = 3
      \<and> patchControlPointsConfig
          (swapValues ((m_testConfig t)\<lparr>patchControlPointsConfig := StaticAndDynamic 1 3\<rparr>))
          = StaticAndDynamic 3 1"
proof -
  obtain t where t: "cullNoneTest True exampleFramework () TWO_DRAWS_STATIC False = Some t"
    using cullNoneTest_Some [of True exampleFramework "()" TWO_DRAWS_STATIC False] by auto
  note f = cullNoneTest_pairs [OF t]
  let ?c = "(m_testConfig t)\<lparr>patchControlPointsConfig := StaticAndDynamic 1 3\<rparr>"
  have a: "getActivePatchControlPoints ?c = 3"
    using f by (simp add: getActivePatchControlPoints_def StaticAndDynamic_def)
  have "getActivePatchControlPoints (swapValues ?c) = 3"
    using active_values_invariant_under_swap [of ?c] a by simp
  moreover
  have "patchControlPointsConfig (swapValues ?c) = StaticAndDynamic 3 1"
    by (simp add: swapValues_fields swapValuesPair_def StaticAndDynamic_def)
  ultimately show ?thesis using t a by blast
qed

text \<open>
  Claim C5. \<open>isReversed\<close> is true exactly for the orderings BEFORE_GOOD_STATIC and
  TWO_DRAWS_STATIC. When it is true, \<^verbatim>\<open>iterate\<close> swaps the configuration once before it
  prepares its buffers and records: the configuration it prepares and records with is
  \<open>swapValues\<close> of the original, its swapped flag is toggled once, and the static value of
  every pair that had a dynamic value is the original dynamic value. When it is false the
  configuration is left as it is.
\<close>

theorem reversed_orderings_swap_once:
  "(isReversed c \<longleftrightarrow>
      sequenceOrdering c = BEFORE_GOOD_STATIC \<or> sequenceOrdering c = TWO_DRAWS_STATIC)
   \<and> (isReversed c \<longrightarrow>
       iterate_config c = swapValues c
       \<and> iterate_record dbg dev c =
           do {
             dsFormatInfo \<leftarrow> find (\<lambda>f. dev (imageFormat f)) kDepthStencilFormats;
             geo \<leftarrow> iterate_prepare dbg (swapValues c) (useMeshShaders c);
             recordCommandBuffer dbg geo (swapValues c) (sequenceOrdering c) (numIterations c)
               False (useMeshShaders c)
           }
       \<and> m_swappedValues (iterate_config c) = (\<not> m_swappedValues c)
       \<and> (\<forall>d. dynamicValue (vertexGenerator c) = Some d \<longrightarrow>
              staticValue (vertexGenerator (iterate_config c)) = d)
       \<and> (\<forall>d. dynamicValue (cullModeConfig c) = Some d \<longrightarrow>
              staticValue (cullModeConfig (iterate_config c)) = d)
       \<and> (\<forall>d. dynamicValue (frontFaceConfig c) = Some d \<longrightarrow>
              staticValue (frontFaceConfig (iterate_config c)) = d)
       \<and> (\<forall>d. dynamicValue (topologyConfig c) = Some d \<longrightarrow>
              staticValue (topologyConfig (iterate_config c)) = d)
       \<and> (\<forall>d. dynamicValue (viewportConfig c) = Some d \<longrightarrow>
              staticValue (viewportConfig (iterate_config c)) = d)
       \<and> (\<forall>d. dynamicValue (scissorConfig c) = Some d \<longrightarrow>
              staticValue (scissorConfig (iterate_config c)) = d)
       \<and> (\<forall>d. dynamicValue (strideConfig c) = Some d \<longrightarrow>
              staticValue (strideConfig (iterate_config c)) = d)
       \<and> (\<forall>d. dynamicValue (depthTestEnableConfig c) = Some d \<longrightarrow>
              staticValue (depthTestEnableConfig (iterate_config c)) = d)
       \<and> (\<forall>d. dynamicValue (depthWriteEnableConfig c) = Some d \<longrightarrow>
              staticValue (depthWriteEnableConfig (iterate_config c)) = d)
       \<and> (\<forall>d. dynamicValue (depthCompareOpConfig c) = Some d \<longrightarrow>
              staticValue (depthCompareOpConfig (iterate_config c)) = d)
       \<and> (\<forall>d. dynamicValue (depthBoundsTestEnableConfig c) = Some d \<longrightarrow>
              staticValue (depthBoundsTestEnableConfig (iterate_config c)) = d)
       \<and> (\<forall>d. dynamicValue (stencilTestEnableConfig c) = Some d \<longrightarrow>
              staticValue (stencilTestEnableConfig (iterate_config c)) = d)
       \<and> (\<forall>d. dynamicValue (stencilOpConfig c) = Some d \<longrightarrow>
              staticValue (stencilOpConfig (iterate_config c)) = d)
       \<and> (\<forall>d. dynamicValue (depthBiasEnableConfig c) = Some d \<longrightarrow>
              staticValue (depthBiasEnableConfig (iterate_config c)) = d)
       \<and> (\<forall>d. dynamicValue (rastDiscardEnableConfig c) = Some d \<longrightarrow>
              staticValue (rastDiscardEnableConfig (iterate_config c)) = d)
       \<and> (\<forall>d. dynamicValue (primRestartEnableConfig c) = Some d \<longrightarrow>
              staticValue (primRestartEnableConfig (iterate_config c)) = d)
       \<and> (\<forall>d. dynamicValue (logicOpConfig c) = Some d \<longrightarrow>
              staticValue (logicOpConfig (iterate_config c)) = d)
       \<and> (\<forall>d. dynamicValue (patchControlPointsConfig c) = Some d \<longrightarrow>
              staticValue (patchControlPointsConfig (iterate_config c)) = d)
       \<and> (\<forall>d. dynamicValue (depthBiasConfig c) = Some d \<longrightarrow>
              staticValue (depthBiasConfig (iterate_config c)) = d)
       )
   \<and> (\<not> isReversed c \<longrightarrow> iterate_config c = c)"
proof -
  have r: "isReversed c \<longleftrightarrow>
      sequenceOrdering c = BEFORE_GOOD_STATIC \<or> sequenceOrdering c = TWO_DRAWS_STATIC"
    by (simp add: isReversed_def)
  have n: "\<not> isReversed c \<Longrightarrow> iterate_config c = c"
    by (simp add: iterate_config_def)
  have s: "isReversed c \<Longrightarrow> iterate_config c = swapValues c"
    by (simp add: iterate_config_def)
  have i: "isReversed c \<Longrightarrow> iterate_record dbg dev c =
           do {
             dsFormatInfo \<leftarrow> find (\<lambda>f. dev (imageFormat f)) kDepthStencilFormats;
             geo \<leftarrow> iterate_prepare dbg (swapValues c) (useMeshShaders c);
             recordCommandBuffer dbg geo (swapValues c) (sequenceOrdering c) (numIterations c)
               False (useMeshShaders c)
           }"
    by (auto simp add: iterate_record_def iterate_config_def isReversed_def Let_def)
  show ?thesis
    using r n s i
    by (simp add: swapValues_fields swapValuesPair_static)
qed

theorem reversed_orderings_swap_once_witness:
  "\<exists>t. cullNoneTest True exampleFramework () BEFORE_GOOD_STATIC False = Some t
      \<and> isReversed (m_testConfig t)
      \<and> cullModeConfig (m_testConfig t) =
          \<lparr>staticValue = VK_CULL_MODE_FRONT_BIT, dynamicValue = Some VK_CULL_MODE_NONE\<rparr>
      \<and> staticValue (cullModeConfig (iterate_config (m_testConfig t))) = VK_CULL_MODE_NONE
      \<and> m_swappedValues (iterate_config (m_testConfig t))"
proof -
  obtain t where t: "cullNoneTest True exampleFramework () BEFORE_GOOD_STATIC False = Some t"
    using cullNoneTest_Some [of True exampleFramework "()" BEFORE_GOOD_STATIC False] by auto
  note o = cullNoneTest_config(1) [OF t]
  note f = cullNoneTest_pairs [OF t]
  note th = reversed_orderings_swap_once [of "m_testConfig t" True exampleDevice]
  have rev: "isReversed (m_testConfig t)"
    using th [THEN conjunct1] o by simp
  note sw = th [THEN conjunct2, THEN conjunct1, THEN mp, OF rev]
  have d: "dynamicValue (cullModeConfig (m_testConfig t)) = Some VK_CULL_MODE_NONE"
    using f(1) by simp
  have "staticValue (cullModeConfig (iterate_config (m_testConfig t))) = VK_CULL_MODE_NONE"
    using sw [THEN conjunct2, THEN conjunct2, THEN conjunct2, THEN conjunct2, THEN conjunct1] d
    by simp
  moreover
  have "m_swappedValues (iterate_config (m_testConfig t))"
    using sw [THEN conjunct2, THEN conjunct2, THEN conjunct1] f(5) by simp
  ultimately show ?thesis using t rev f(1) by blast
qed

subsection \<open>Mesh shading pipelines\<close>

lemma list_ex_if_single: "list_ex P (if b then [x] else []) \<longleftrightarrow> b \<and> P x"
  by simp

lemma isMeshShadingPipelineIncompatible_iff:
  "isMeshShadingPipelineIncompatible state \<longleftrightarrow>
     state \<in> {VK_DYNAMIC_STATE_PRIMITIVE_TOPOLOGY_EXT,
               VK_DYNAMIC_STATE_VERTEX_INPUT_BINDING_STRIDE_EXT,
               VK_DYNAMIC_STATE_PRIMITIVE_RESTART_ENABLE_EXT,
               VK_DYNAMIC_STATE_PATCH_CONTROL_POINTS_EXT,
               VK_DYNAMIC_STATE_VERTEX_INPUT_EXT}"
  by (cases state) simp_all

lemma badMeshShadingPipelineDynState_fields:
  "badMeshShadingPipelineDynState c \<longleftrightarrow>
        dynamicValue (topologyConfig c) \<noteq> None
        \<or> dynamicValue (strideConfig c) \<noteq> None
        \<or> dynamicValue (primRestartEnableConfig c) \<noteq> None
        \<or> dynamicValue (patchControlPointsConfig c) \<noteq> None
        \<or> dynamicValue (vertexGenerator c) \<noteq> None"
  unfolding badMeshShadingPipelineDynState_def getDynamicStates_def
  by (simp only: list_ex_append list_ex_if_single isMeshShadingPipelineIncompatible.simps
      simp_thms) blast

text \<open>
  Claim C7. \<open>isMeshShadingPipelineIncompatible\<close> is true exactly for the five dynamic
  states primitive topology, vertex input binding stride, primitive restart enable, patch
  control points and vertex input, and false for every other state. A configuration has a
  bad mesh shading dynamic state exactly when its list of dynamic states has one of these
  five, that is, exactly when one of the five corresponding pairs has a dynamic value.
\<close>

theorem mesh_shading_incompatible_states:
  "(isMeshShadingPipelineIncompatible state \<longleftrightarrow>
      state \<in> {VK_DYNAMIC_STATE_PRIMITIVE_TOPOLOGY_EXT,
               VK_DYNAMIC_STATE_VERTEX_INPUT_BINDING_STRIDE_EXT,
               VK_DYNAMIC_STATE_PRIMITIVE_RESTART_ENABLE_EXT,
               VK_DYNAMIC_STATE_PATCH_CONTROL_POINTS_EXT,
               VK_DYNAMIC_STATE_VERTEX_INPUT_EXT})
   \<and> (badMeshShadingPipelineDynState c \<longleftrightarrow>
        (\<exists>s \<in> set (getDynamicStates c).
           s \<in> {VK_DYNAMIC_STATE_PRIMITIVE_TOPOLOGY_EXT,
                 VK_DYNAMIC_STATE_VERTEX_INPUT_BINDING_STRIDE_EXT,
                 VK_DYNAMIC_STATE_PRIMITIVE_RESTART_ENABLE_EXT,
                 VK_DYNAMIC_STATE_PATCH_CONTROL_POINTS_EXT,
                 VK_DYNAMIC_STATE_VERTEX_INPUT_EXT}))
   \<and> (badMeshShadingPipelineDynState c \<longleftrightarrow>
        dynamicValue (topologyConfig c) \<noteq> None
        \<or> dynamicValue (strideConfig c) \<noteq> None
        \<or> dynamicValue (primRestartEnableConfig c) \<noteq> None
        \<or> dynamicValue (patchControlPointsConfig c) \<noteq> None
        \<or> dynamicValue (vertexGenerator c) \<noteq> None)"
proof (intro conjI)
  show "isMeshShadingPipelineIncompatible state \<longleftrightarrow>
      state \<in> {VK_DYNAMIC_STATE_PRIMITIVE_TOPOLOGY_EXT,
               VK_DYNAMIC_STATE_VERTEX_INPUT_BINDING_STRIDE_EXT,
               VK_DYNAMIC_STATE_PRIMITIVE_RESTART_ENABLE_EXT,
               VK_DYNAMIC_STATE_PATCH_CONTROL_POINTS_EXT,
               VK_DYNAMIC_STATE_VERTEX_INPUT_EXT}"
    by (rule isMeshShadingPipelineIncompatible_iff)
  show "badMeshShadingPipelineDynState c \<longleftrightarrow>
        (\<exists>s \<in> set (getDynamicStates c).
           s \<in> {VK_DYNAMIC_STATE_PRIMITIVE_TOPOLOGY_EXT,
                 VK_DYNAMIC_STATE_VERTEX_INPUT_BINDING_STRIDE_EXT,
                 VK_DYNAMIC_STATE_PRIMITIVE_RESTART_ENABLE_EXT,
                 VK_DYNAMIC_STATE_PATCH_CONTROL_POINTS_EXT,
                 VK_DYNAMIC_STATE_VERTEX_INPUT_EXT})"
    unfolding badMeshShadingPipelineDynState_def list_ex_iff Bex_def
    by (simp only: isMeshShadingPipelineIncompatible_iff)
  show "badMeshShadingPipelineDynState c \<longleftrightarrow>
        dynamicValue (topologyConfig c) \<noteq> None
        \<or> dynamicValue (strideConfig c) \<noteq> None
        \<or> dynamicValue (primRestartEnableConfig c) \<noteq> None
        \<or> dynamicValue (patchControlPointsConfig c) \<noteq> None
        \<or> dynamicValue (vertexGenerator c) \<noteq> None"
    by (rule badMeshShadingPipelineDynState_fields)
qed

theorem mesh_shading_incompatible_states_witness:
  "isMeshShadingPipelineIncompatible VK_DYNAMIC_STATE_VERTEX_INPUT_EXT
   \<and> \<not> isMeshShadingPipelineIncompatible VK_DYNAMIC_STATE_CULL_MODE_EXT
   \<and> \<not> isMeshShadingPipelineIncompatible (VK_DYNAMIC_STATE_OTHER 0)
   \<and> (\<exists>t. cullNoneTest True exampleFramework () CMD_BUFFER_START False = Some t
        \<and> getDynamicStates (m_testConfig t) = [VK_DYNAMIC_STATE_CULL_MODE_EXT]
        \<and> \<not> badMeshShadingPipelineDynState (m_testConfig t)
        \<and> badMeshShadingPipelineDynState
            ((m_testConfig t)\<lparr>topologyConfig :=
               StaticAndDynamic VK_PRIMITIVE_TOPOLOGY_TRIANGLE_LIST
                 VK_PRIMITIVE_TOPOLOGY_TRIANGLE_STRIP\<rparr>))"
proof -
  obtain t where t: "cullNoneTest True exampleFramework () CMD_BUFFER_START False = Some t"
    using cullNoneTest_Some [of True exampleFramework "()" CMD_BUFFER_START False] by auto
  have g: "getDynamicStates (m_testConfig t) = [VK_DYNAMIC_STATE_CULL_MODE_EXT]"
    by (simp add: getDynamicStates_def cullNoneTest_dynamic_values [OF t])
  have "\<not> badMeshShadingPipelineDynState (m_testConfig t)"
    using mesh_shading_incompatible_states
      [of VK_DYNAMIC_STATE_CULL_MODE_EXT "m_testConfig t", THEN conjunct2, THEN conjunct1] g
    by simp
  moreover
  have "badMeshShadingPipelineDynState
            ((m_testConfig t)\<lparr>topologyConfig :=
               StaticAndDynamic VK_PRIMITIVE_TOPOLOGY_TRIANGLE_LIST
                 VK_PRIMITIVE_TOPOLOGY_TRIANGLE_STRIP\<rparr>)"
    using mesh_shading_incompatible_states
      [of VK_DYNAMIC_STATE_CULL_MODE_EXT
        "(m_testConfig t)\<lparr>topologyConfig :=
               StaticAndDynamic VK_PRIMITIVE_TOPOLOGY_TRIANGLE_LIST
                 VK_PRIMITIVE_TOPOLOGY_TRIANGLE_STRIP\<rparr>", THEN conjunct2, THEN conjunct2]
    by (simp add: StaticAndDynamic_def)
  moreover
  have "isMeshShadingPipelineIncompatible VK_DYNAMIC_STATE_VERTEX_INPUT_EXT
   \<and> \<not> isMeshShadingPipelineIncompatible VK_DYNAMIC_STATE_CULL_MODE_EXT
   \<and> \<not> isMeshShadingPipelineIncompatible (VK_DYNAMIC_STATE_OTHER 0)"
    using mesh_shading_incompatible_states
        [of VK_DYNAMIC_STATE_VERTEX_INPUT_EXT "m_testConfig t", THEN conjunct1]
      mesh_shading_incompatible_states
        [of VK_DYNAMIC_STATE_CULL_MODE_EXT "m_testConfig t", THEN conjunct1]
      mesh_shading_incompatible_states
        [of "VK_DYNAMIC_STATE_OTHER 0" "m_testConfig t", THEN conjunct1]
    by simp
  ultimately show ?thesis using t g by blast
qed

subsection \<open>The two-draw orderings\<close>

text \<open>
  Claim C4. For the ordering TWO_DRAWS_DYNAMIC \<open>numIterations\<close> is 2 and every recording
  that completes has this sequence of render passes, pipeline binds, dynamic state commands
  and draws: in the first render pass the static pipeline is bound and the meshes are drawn,
  with no dynamic state command; in the second render pass the dynamic pipeline is bound,
  then the dynamic state of the configuration is set, the dynamic strides last (by binding
  the vertex buffers with them) if the configuration has any, then the meshes are drawn. For
  TWO_DRAWS_STATIC \<open>numIterations\<close> is 2 and the order is the opposite: the first render
  pass binds the dynamic pipeline, sets the dynamic state and the dynamic strides of the
  swapped configuration and draws, the second binds the static pipeline and draws, with no
  dynamic state command. Each pass draws once per active viewport and mesh. Before the
  dynamic pipeline, the unused mesh shading pipeline is bound if the configuration asks for
  it, and the extra pipeline with dynamic patch control points is bound, given its patch
  control points and drawn, if the configuration asks for it. For every other ordering
  \<open>numIterations\<close> is 1.

  \<^verbatim>\<open>iterate\<close> gets as far as the end of the recording of a two-draw ordering, in either
  build flavour, whenever, \<open>iterate_config c\<close> being the configuration it prepares and
  records with (the swapped one for TWO_DRAWS_STATIC):
  \<^item> the device supports one of the depth/stencil formats;
  \<^item> the active and the static vertex generator are not null, nor is the dynamic one if
    there is one;
  \<^item> the static strides are as many as the bindings of the static generator, and of the
    dynamic generator if there is one, or more;
  \<^item> the dynamic strides, if any, are exactly as many as the bindings of the active
    generator, with one active viewport and one mesh;
  \<^item> no unused mesh shading pipeline is bound;
  \<^item> only triangles are drawn reversed, and patches have more than one active control
    point;
  \<^item> a dynamic primitive restart comes with lines;
  \<^item> a mesh shading test draws more than one vertex of a static triangle strip, without
    dynamic strides;
  \<^item> the viewports and the scissors that the dynamic pipeline gets are not empty.

  For any ordering, \<^verbatim>\<open>iterate\<close> does not get to the recording when the device supports
  none of the depth/stencil formats, nor, in a debug build, when a mesh is drawn reversed
  with a static topology of lines or patches.
\<close>

theorem two_draws_recording:
  fixes c :: "('pct, 'vp, 'sc) TestConfig"
  shows
  "(sequenceOrdering c = TWO_DRAWS_DYNAMIC \<longrightarrow>
      numIterations c = 2
      \<and> (\<forall>cmds. iterate_record dbg dev c = Some cmds \<longrightarrow>
           (\<exists>states :: ('vp, 'sc, VertexBufferInfo) Cmd list.
              setDynamicStates c = Some states
              \<and> milestones cmds =
                  [BeginsRenderPass 0, Binds staticPipeline]
                  @ replicate (length (getActiveViewportVec c) * length (meshParams c)) Draws
                  @ [EndsRenderPass, BeginsRenderPass 1]
                  @ (if bindUnusedMeshShadingPipeline c then [Binds meshNoOutPipeline] else [])
                  @ (if useExtraDynPCPPipeline c
                     then [Binds extraDynPCPPipeline, SetsDynamicState, Draws] else [])
                  @ [Binds graphicsPipeline]
                  @ replicate (length states) SetsDynamicState
                  @ (case dynamicValue (strideConfig c) of
                       None \<Rightarrow> [] | Some strides \<Rightarrow> [SetsDynamicStride strides])
                  @ replicate (length (getActiveViewportVec c) * length (meshParams c)) Draws
                  @ [EndsRenderPass])))
   \<and> (sequenceOrdering c = TWO_DRAWS_STATIC \<longrightarrow>
      numIterations c = 2
      \<and> (\<forall>cmds. iterate_record dbg dev c = Some cmds \<longrightarrow>
           (\<exists>states :: ('vp, 'sc, VertexBufferInfo) Cmd list.
              setDynamicStates (swapValues c) = Some states
              \<and> milestones cmds =
                  [BeginsRenderPass 0]
                  @ (if bindUnusedMeshShadingPipeline c then [Binds meshNoOutPipeline] else [])
                  @ (if useExtraDynPCPPipeline c
                     then [Binds extraDynPCPPipeline, SetsDynamicState, Draws] else [])
                  @ [Binds graphicsPipeline]
                  @ replicate (length states) SetsDynamicState
                  @ (case dynamicValue (strideConfig (swapValues c)) of
                       None \<Rightarrow> [] | Some strides \<Rightarrow> [SetsDynamicStride strides])
                  @ replicate (length (getActiveViewportVec c) * length (meshParams c)) Draws
                  @ [EndsRenderPass, BeginsRenderPass 1, Binds staticPipeline]
                  @ replicate (length (getActiveViewportVec c) * length (meshParams c)) Draws
                  @ [EndsRenderPass])))
   \<and> (sequenceOrdering c \<noteq> TWO_DRAWS_DYNAMIC \<and> sequenceOrdering c \<noteq> TWO_DRAWS_STATIC \<longrightarrow>
        numIterations c = 1)
   \<and> ((sequenceOrdering c = TWO_DRAWS_DYNAMIC \<or> sequenceOrdering c = TWO_DRAWS_STATIC)
       \<and> list_ex (\<lambda>f. dev (imageFormat f)) kDepthStencilFormats
       \<and> getActiveVertexGenerator (iterate_config c) = Some g
       \<and> staticValue (vertexGenerator (iterate_config c)) = Some sg
       \<and> (case dynamicValue (vertexGenerator (iterate_config c)) of
             None \<Rightarrow> True
           | Some None \<Rightarrow> False
           | Some (Some dg) \<Rightarrow>
               length (getVertexDataStrides dg)
                 \<le> length (staticValue (strideConfig (iterate_config c))))
       \<and> length (getVertexDataStrides sg)
            \<le> length (staticValue (strideConfig (iterate_config c)))
       \<and> (case dynamicValue (strideConfig (iterate_config c)) of
             None \<Rightarrow> True
           | Some strides \<Rightarrow>
               length strides = length (getVertexDataStrides g)
               \<and> length (getActiveViewportVec c) = 1 \<and> length (meshParams c) = 1)
       \<and> \<not> bindUnusedMeshShadingPipeline c
       \<and> (getTopologyClass (staticValue (topologyConfig (iterate_config c))) = TRIANGLE
           \<or> list_all (\<lambda>mesh. \<not> reversed mesh) (meshParams c)
             \<and> (getTopologyClass (staticValue (topologyConfig (iterate_config c))) = PATCH
                  \<longrightarrow> 1 < getActivePatchControlPoints (iterate_config c)))
       \<and> (dynamicValue (primRestartEnableConfig c) \<noteq> None \<longrightarrow>
             getTopologyClass (staticValue (topologyConfig (iterate_config c))) = LINE)
       \<and> (useMeshShaders c \<longrightarrow>
             staticValue (topologyConfig (iterate_config c))
               = VK_PRIMITIVE_TOPOLOGY_TRIANGLE_STRIP
             \<and> dynamicValue (topologyConfig c) = None \<and> \<not> singleVertex c
             \<and> dynamicValue (strideConfig c) = None)
       \<and> (case dynamicValue (viewportConfig (iterate_config c)) of
             None \<Rightarrow> staticValue (viewportConfig (iterate_config c)) \<noteq> []
           | Some v \<Rightarrow> v \<noteq> [])
       \<and> (case dynamicValue (scissorConfig (iterate_config c)) of
             None \<Rightarrow> staticValue (scissorConfig (iterate_config c)) \<noteq> []
           | Some v \<Rightarrow> v \<noteq> []) \<longrightarrow>
        (\<exists>cmds. iterate_record dbg dev c = Some cmds))
   \<and> (\<not> list_ex (\<lambda>f. dev (imageFormat f)) kDepthStencilFormats \<longrightarrow>
        iterate_record dbg dev c = None)
   \<and> (dbg \<and> getTopologyClass (staticValue (topologyConfig (iterate_config c))) \<noteq> TRIANGLE
       \<and> list_ex reversed (meshParams c) \<longrightarrow>
        iterate_record dbg dev c = None)"
proof (intro conjI impI allI)
  assume "sequenceOrdering c = TWO_DRAWS_DYNAMIC"
  then show "numIterations c = 2" by (simp add: numIterations_def)
next
  assume "sequenceOrdering c = TWO_DRAWS_STATIC"
  then show "numIterations c = 2" by (simp add: numIterations_def)
next
  assume "sequenceOrdering c \<noteq> TWO_DRAWS_DYNAMIC \<and> sequenceOrdering c \<noteq> TWO_DRAWS_STATIC"
  then show "numIterations c = 1"
    by (cases "sequenceOrdering c") (simp_all add: numIterations_def)
next
  fix cmds :: "('vp, 'sc, VertexBufferInfo) Cmd list"
  assume "sequenceOrdering c = TWO_DRAWS_DYNAMIC" "iterate_record dbg dev c = Some cmds"
  then show "\<exists>states :: ('vp, 'sc, VertexBufferInfo) Cmd list.
              setDynamicStates c = Some states
              \<and> milestones cmds =
                  [BeginsRenderPass 0, Binds staticPipeline]
                  @ replicate (length (getActiveViewportVec c) * length (meshParams c)) Draws
                  @ [EndsRenderPass, BeginsRenderPass 1]
                  @ (if bindUnusedMeshShadingPipeline c then [Binds meshNoOutPipeline] else [])
                  @ (if useExtraDynPCPPipeline c
                     then [Binds extraDynPCPPipeline, SetsDynamicState, Draws] else [])
                  @ [Binds graphicsPipeline]
                  @ replicate (length states) SetsDynamicState
                  @ (case dynamicValue (strideConfig c) of
                       None \<Rightarrow> [] | Some strides \<Rightarrow> [SetsDynamicStride strides])
                  @ replicate (length (getActiveViewportVec c) * length (meshParams c)) Draws
                  @ [EndsRenderPass]"
    by (rule two_draws_dynamic_milestones)
next
  fix cmds :: "('vp, 'sc, VertexBufferInfo) Cmd list"
  assume "sequenceOrdering c = TWO_DRAWS_STATIC" "iterate_record dbg dev c = Some cmds"
  then show "\<exists>states :: ('vp, 'sc, VertexBufferInfo) Cmd list.
              setDynamicStates (swapValues c) = Some states
              \<and> milestones cmds =
                  [BeginsRenderPass 0]
                  @ (if bindUnusedMeshShadingPipeline c then [Binds meshNoOutPipeline] else [])
                  @ (if useExtraDynPCPPipeline c
                     then [Binds extraDynPCPPipeline, SetsDynamicState, Draws] else [])
                  @ [Binds graphicsPipeline]
                  @ replicate (length states) SetsDynamicState
                  @ (case dynamicValue (strideConfig (swapValues c)) of
                       None \<Rightarrow> [] | Some strides \<Rightarrow> [SetsDynamicStride strides])
                  @ replicate (length (getActiveViewportVec c) * length (meshParams c)) Draws
                  @ [EndsRenderPass, BeginsRenderPass 1, Binds staticPipeline]
                  @ replicate (length (getActiveViewportVec c) * length (meshParams c)) Draws
                  @ [EndsRenderPass]"
    by (rule two_draws_static_milestones)
next
  assume h: "(sequenceOrdering c = TWO_DRAWS_DYNAMIC \<or> sequenceOrdering c = TWO_DRAWS_STATIC)
       \<and> list_ex (\<lambda>f. dev (imageFormat f)) kDepthStencilFormats
       \<and> getActiveVertexGenerator (iterate_config c) = Some g
       \<and> staticValue (vertexGenerator (iterate_config c)) = Some sg
       \<and> (case dynamicValue (vertexGenerator (iterate_config c)) of
             None \<Rightarrow> True
           | Some None \<Rightarrow> False
           | Some (Some dg) \<Rightarrow>
               length (getVertexDataStrides dg)
                 \<le> length (staticValue (strideConfig (iterate_config c))))
       \<and> length (getVertexDataStrides sg)
            \<le> length (staticValue (strideConfig (iterate_config c)))
       \<and> (case dynamicValue (strideConfig (iterate_config c)) of
             None \<Rightarrow> True
           | Some strides \<Rightarrow>
               length strides = length (getVertexDataStrides g)
               \<and> length (getActiveViewportVec c) = 1 \<and> length (meshParams c) = 1)
       \<and> \<not> bindUnusedMeshShadingPipeline c
       \<and> (getTopologyClass (staticValue (topologyConfig (iterate_config c))) = TRIANGLE
           \<or> list_all (\<lambda>mesh. \<not> reversed mesh) (meshParams c)
             \<and> (getTopologyClass (staticValue (topologyConfig (iterate_config c))) = PATCH
                  \<longrightarrow> 1 < getActivePatchControlPoints (iterate_config c)))
       \<and> (dynamicValue (primRestartEnableConfig c) \<noteq> None \<longrightarrow>
             getTopologyClass (staticValue (topologyConfig (iterate_config c))) = LINE)
       \<and> (useMeshShaders c \<longrightarrow>
             staticValue (topologyConfig (iterate_config c))
               = VK_PRIMITIVE_TOPOLOGY_TRIANGLE_STRIP
             \<and> dynamicValue (topologyConfig c) = None \<and> \<not> singleVertex c
             \<and> dynamicValue (strideConfig c) = None)
       \<and> (case dynamicValue (viewportConfig (iterate_config c)) of
             None \<Rightarrow> staticValue (viewportConfig (iterate_config c)) \<noteq> []
           | Some v \<Rightarrow> v \<noteq> [])
       \<and> (case dynamicValue (scissorConfig (iterate_config c)) of
             None \<Rightarrow> staticValue (scissorConfig (iterate_config c)) \<noteq> []
           | Some v \<Rightarrow> v \<noteq> [])"
  have "iterate_record dbg dev c \<noteq> None"
    by (rule iterate_record_total [where g = g and sg = sg]) (use h in blast)+
  then show "\<exists>cmds. iterate_record dbg dev c = Some cmds" by auto
next
  assume "\<not> list_ex (\<lambda>f. dev (imageFormat f)) kDepthStencilFormats"
  then show "iterate_record dbg dev c = None" by (rule iterate_record_aborts(2))
next
  assume "dbg \<and> getTopologyClass (staticValue (topologyConfig (iterate_config c))) \<noteq> TRIANGLE
       \<and> list_ex reversed (meshParams c)"
  then show "iterate_record dbg dev c = None" by (intro iterate_record_aborts(1)) simp_all
qed

theorem two_draws_recording_witness:
  "(\<exists>t. cullNoneTest True exampleFramework () TWO_DRAWS_DYNAMIC False = Some t
        \<and> map_option milestones (iterate_record True exampleDevice (m_testConfig t)) =
            Some [BeginsRenderPass 0, Binds staticPipeline, Draws, EndsRenderPass,
                  BeginsRenderPass 1, Binds graphicsPipeline, SetsDynamicState, Draws,
                  EndsRenderPass])
   \<and> (\<exists>t. cullNoneTest True exampleFramework () TWO_DRAWS_STATIC False = Some t
        \<and> map_option milestones (iterate_record True exampleDevice (m_testConfig t)) =
            Some [BeginsRenderPass 0, Binds graphicsPipeline, SetsDynamicState, Draws,
                  EndsRenderPass, BeginsRenderPass 1, Binds staticPipeline, Draws,
                  EndsRenderPass])
   \<and> (\<exists>t. strideTest True exampleFramework () TWO_DRAWS_DYNAMIC False VertexWithPadding
             ''stride'' False [] [] = Some t
        \<and> map_option milestones (iterate_record True exampleDevice (m_testConfig t)) =
            Some [BeginsRenderPass 0, Binds staticPipeline, Draws, EndsRenderPass,
                  BeginsRenderPass 1, Binds graphicsPipeline, SetsDynamicStride [16], Draws,
                  EndsRenderPass])
   \<and> (\<exists>t. strideTest True exampleFramework () TWO_DRAWS_STATIC False VertexWithPadding
             ''stride'' False [] [] = Some t
        \<and> map_option milestones (iterate_record True exampleDevice (m_testConfig t)) =
            Some [BeginsRenderPass 0, Binds graphicsPipeline, SetsDynamicStride [8], Draws,
                  EndsRenderPass, BeginsRenderPass 1, Binds staticPipeline, Draws,
                  EndsRenderPass])
   \<and> (\<exists>t. cullNoneTest True exampleFramework () TWO_DRAWS_DYNAMIC True = Some t
        \<and> map_option milestones (iterate_record True exampleDevice (m_testConfig t)) =
            Some [BeginsRenderPass 0, Binds staticPipeline, Draws, EndsRenderPass,
                  BeginsRenderPass 1, Binds graphicsPipeline, SetsDynamicState, Draws,
                  EndsRenderPass])
   \<and> (\<exists>t. cullNoneTest True exampleFramework () TWO_DRAWS_DYNAMIC False = Some t
        \<and> iterate_record True (\<lambda>fmt. False) (m_testConfig t) = None
        \<and> iterate_record True exampleDevice
            ((m_testConfig t)\<lparr>meshParams := [MeshParams_default\<lparr>reversed := True\<rparr>],
                              topologyConfig := StaticOnly VK_PRIMITIVE_TOPOLOGY_LINE_STRIP\<rparr>)
            = None)
   \<and> (\<exists>t. cullNoneTest True exampleFramework () CMD_BUFFER_START False = Some t
        \<and> numIterations (m_testConfig t) = 1)"
proof -
  have dev: "list_ex (\<lambda>f. exampleDevice (imageFormat f)) kDepthStencilFormats"
    by (simp add: exampleDevice_def kDepthStencilFormats_def)
  obtain t1 where t1: "cullNoneTest True exampleFramework () TWO_DRAWS_DYNAMIC False = Some t1"
    using cullNoneTest_Some [of True exampleFramework "()" TWO_DRAWS_DYNAMIC False] by auto
  obtain t2 where t2: "cullNoneTest True exampleFramework () TWO_DRAWS_STATIC False = Some t2"
    using cullNoneTest_Some [of True exampleFramework "()" TWO_DRAWS_STATIC False] by auto
  obtain t3 where t3: "strideTest True exampleFramework () TWO_DRAWS_DYNAMIC False
      VertexWithPadding ''stride'' False [] [] = Some t3"
    using strideTest_Some [of True exampleFramework "()" TWO_DRAWS_DYNAMIC False
        VertexWithPadding "''stride''" False "[]" "[]"] by auto
  obtain t4 where t4: "strideTest True exampleFramework () TWO_DRAWS_STATIC False
      VertexWithPadding ''stride'' False [] [] = Some t4"
    using strideTest_Some [of True exampleFramework "()" TWO_DRAWS_STATIC False
        VertexWithPadding "''stride''" False "[]" "[]"] by auto
  obtain t5 where t5: "cullNoneTest True exampleFramework () TWO_DRAWS_DYNAMIC True = Some t5"
    using cullNoneTest_Some [of True exampleFramework "()" TWO_DRAWS_DYNAMIC True] by auto
  note f1 = cullNoneTest_config [OF t1] and p1 = cullNoneTest_pairs [OF t1]
    and b1 = cullNoneTest_buffers [OF t1]
  note f2 = cullNoneTest_config [OF t2] and p2 = cullNoneTest_pairs [OF t2]
    and b2 = cullNoneTest_buffers [OF t2]
  note f3 = strideTest_config [OF t3]
  note f4 = strideTest_config [OF t4]
  note f5 = cullNoneTest_config [OF t5] and p5 = cullNoneTest_pairs [OF t5]
    and b5 = cullNoneTest_buffers [OF t5]
  have s1: "setDynamicStates (m_testConfig t1) =
              Some [CmdSetCullMode VK_CULL_MODE_NONE
                      :: (nat \<times> nat, nat \<times> nat, VertexBufferInfo) Cmd]"
    by (rule f1(10))
  have s2: "setDynamicStates (swapValues (m_testConfig t2)) =
              Some [CmdSetCullMode VK_CULL_MODE_FRONT_BIT
                      :: (nat \<times> nat, nat \<times> nat, VertexBufferInfo) Cmd]"
    by (rule f2(11))
  have s3: "setDynamicStates (m_testConfig t3) =
              Some ([] :: (nat \<times> nat, nat \<times> nat, VertexBufferInfo) Cmd list)"
    by (rule f3(14))
  have s4: "setDynamicStates (swapValues (m_testConfig t4)) =
              Some ([] :: (nat \<times> nat, nat \<times> nat, VertexBufferInfo) Cmd list)"
    by (rule f4(15))
  have s5: "setDynamicStates (m_testConfig t5) =
              Some [CmdSetCullMode VK_CULL_MODE_NONE
                      :: (nat \<times> nat, nat \<times> nat, VertexBufferInfo) Cmd]"
    by (rule f5(10))
  note th1 = two_draws_recording [where c = "m_testConfig t1" and dbg = True
      and dev = exampleDevice and g = VertexWithPadding and sg = VertexWithPadding]
  note th2 = two_draws_recording [where c = "m_testConfig t2" and dbg = True
      and dev = exampleDevice and g = VertexWithPadding and sg = VertexWithPadding]
  note th3 = two_draws_recording [where c = "m_testConfig t3" and dbg = True
      and dev = exampleDevice and g = VertexWithPadding and sg = VertexWithPadding]
  note th4 = two_draws_recording [where c = "m_testConfig t4" and dbg = True
      and dev = exampleDevice and g = VertexWithPadding and sg = VertexWithPadding]
  note th5 = two_draws_recording [where c = "m_testConfig t5" and dbg = True
      and dev = exampleDevice and g = VertexWithPadding and sg = VertexWithPadding]
  have c1: "\<exists>cmds. iterate_record True exampleDevice (m_testConfig t1) = Some cmds"
    using th1 [THEN conjunct2, THEN conjunct2, THEN conjunct2] dev f1(1-6) p1 b1
    by (simp add: iterate_config_def isReversed_def StaticOnly_def
        getActiveVertexGenerator_def)
  have c2: "\<exists>cmds. iterate_record True exampleDevice (m_testConfig t2) = Some cmds"
    using th2 [THEN conjunct2, THEN conjunct2, THEN conjunct2] dev f2(1-6) p2 b2
    by (simp add: iterate_config_def isReversed_def StaticOnly_def swapValues_fields
        swapValuesPair_def getActiveVertexGenerator_def)
  have c3: "\<exists>cmds. iterate_record True exampleDevice (m_testConfig t3) = Some cmds"
    using th3 [THEN conjunct2, THEN conjunct2, THEN conjunct2] dev f3(1-13)
    by (simp add: iterate_config_def isReversed_def StaticOnly_def getActiveViewportVec_def
        getActiveVertexGenerator_def)
  have c4: "\<exists>cmds. iterate_record True exampleDevice (m_testConfig t4) = Some cmds"
    using th4 [THEN conjunct2, THEN conjunct2, THEN conjunct2] dev f4(1-13)
    by (simp add: iterate_config_def isReversed_def StaticOnly_def swapValues_fields
        swapValuesPair_def getActiveViewportVec_def getActiveVertexGenerator_def)
  have c5: "\<exists>cmds. iterate_record True exampleDevice (m_testConfig t5) = Some cmds"
    using th5 [THEN conjunct2, THEN conjunct2, THEN conjunct2] dev f5(1-6) p5 b5
    by (simp add: iterate_config_def isReversed_def StaticOnly_def
        getActiveVertexGenerator_def)
  have "map_option milestones (iterate_record True exampleDevice (m_testConfig t1)) =
            Some [BeginsRenderPass 0, Binds staticPipeline, Draws, EndsRenderPass,
                  BeginsRenderPass 1, Binds graphicsPipeline, SetsDynamicState, Draws,
                  EndsRenderPass]"
    using th1 [THEN conjunct1] c1 f1(1-9) b1(2) s1
    by (auto simp add: StaticOnly_def)
  moreover
  have "map_option milestones (iterate_record True exampleDevice (m_testConfig t2)) =
            Some [BeginsRenderPass 0, Binds graphicsPipeline, SetsDynamicState, Draws,
                  EndsRenderPass, BeginsRenderPass 1, Binds staticPipeline, Draws,
                  EndsRenderPass]"
    using th2 [THEN conjunct2, THEN conjunct1] c2 f2(1-9) b2(2) s2
    by (auto simp add: StaticOnly_def swapValues_fields swapValuesPair_def)
  moreover
  have "map_option milestones (iterate_record True exampleDevice (m_testConfig t3)) =
            Some [BeginsRenderPass 0, Binds staticPipeline, Draws, EndsRenderPass,
                  BeginsRenderPass 1, Binds graphicsPipeline, SetsDynamicStride [16], Draws,
                  EndsRenderPass]"
    using th3 [THEN conjunct1] c3 f3(1-12) s3
    by (auto simp add: StaticOnly_def getActiveViewportVec_def)
  moreover
  have "map_option milestones (iterate_record True exampleDevice (m_testConfig t4)) =
            Some [BeginsRenderPass 0, Binds graphicsPipeline, SetsDynamicStride [8], Draws,
                  EndsRenderPass, BeginsRenderPass 1, Binds staticPipeline, Draws,
                  EndsRenderPass]"
    using th4 [THEN conjunct2, THEN conjunct1] c4 f4(1-12) s4
    by (auto simp add: StaticOnly_def swapValues_fields swapValuesPair_def
        getActiveViewportVec_def)
  moreover
  have "map_option milestones (iterate_record True exampleDevice (m_testConfig t5)) =
            Some [BeginsRenderPass 0, Binds staticPipeline, Draws, EndsRenderPass,
                  BeginsRenderPass 1, Binds graphicsPipeline, SetsDynamicState, Draws,
                  EndsRenderPass]"
    using th5 [THEN conjunct1] c5 f5(1-9) b5(2) s5
    by (auto simp add: StaticOnly_def)
  moreover
  have "iterate_record True (\<lambda>fmt. False) (m_testConfig t1) = None"
    using two_draws_recording [where c = "m_testConfig t1" and dbg = True
        and dev = "\<lambda>fmt. False", THEN conjunct2, THEN conjunct2, THEN conjunct2,
        THEN conjunct2, THEN conjunct1]
    by (simp add: kDepthStencilFormats_def)
  moreover
  have "iterate_record True exampleDevice
            ((m_testConfig t1)\<lparr>meshParams := [MeshParams_default\<lparr>reversed := True\<rparr>],
                               topologyConfig := StaticOnly VK_PRIMITIVE_TOPOLOGY_LINE_STRIP\<rparr>)
            = None"
    using two_draws_recording [where
        c = "(m_testConfig t1)\<lparr>meshParams := [MeshParams_default\<lparr>reversed := True\<rparr>],
                               topologyConfig := StaticOnly VK_PRIMITIVE_TOPOLOGY_LINE_STRIP\<rparr>"
        and dbg = True and dev = exampleDevice, THEN conjunct2, THEN conjunct2, THEN conjunct2,
        THEN conjunct2, THEN conjunct2] f1(1)
    by (simp add: iterate_config_def isReversed_def StaticOnly_def)
  moreover
  obtain t6 where t6: "cullNoneTest True exampleFramework () CMD_BUFFER_START False = Some t6"
    using cullNoneTest_Some [of True exampleFramework "()" CMD_BUFFER_START False] by auto
  have "numIterations (m_testConfig t6) = 1"
    using two_draws_recording [where c = "m_testConfig t6", THEN conjunct2, THEN conjunct2,
        THEN conjunct1] cullNoneTest_config(1) [OF t6]
    by simp
  ultimately show ?thesis using t1 t2 t3 t4 t5 t6 by blast
qed

subsection \<open>The stencil enumeration\<close>

lemma kStencilOps_ok:
  "op \<in> set kStencilOps \<Longrightarrow>
     stencilOp op \<noteq> VK_STENCIL_OP_MAX_ENUM \<and> incompatibleOp op \<noteq> VK_STENCIL_OP_MAX_ENUM"
  by (auto simp add: kStencilOps_def)

lemma kCompare_ok:
  "compare \<in> set kCompare \<Longrightarrow> compare_compareOp compare \<noteq> VK_COMPARE_OP_NOT_EQUAL"
  by (auto simp add: kCompare_def)

lemma stencilPasses_Some:
  "cmp \<noteq> VK_COMPARE_OP_NOT_EQUAL \<Longrightarrow> \<exists>b. stencilPasses dbg cmp s r = Some b"
  by (cases cmp) auto

lemma stencilResult_Some:
  "sop \<noteq> VK_STENCIL_OP_MAX_ENUM \<Longrightarrow> \<exists>e. stencilResult dbg sop s r mn mx = Some e"
  by (cases sop) simp_all

lemma TestConfig_new_default:
  "\<exists>config. TestConfig_new dbg fw pct ord mesh None None = Some config
     \<and> meshParams config = [MeshParams_default]
     \<and> staticValue (stencilOpConfig config) = [kDefaultStencilOpParams]
     \<and> topologyConfig config = StaticOnly VK_PRIMITIVE_TOPOLOGY_TRIANGLE_STRIP
     \<and> patchControlPointsConfig config = StaticOnly 1
     \<and> \<not> useExtraDynPCPPipeline config
     \<and> \<not> staticValue (depthTestEnableConfig config)
     \<and> clearDepthValue config = 1"
  by (simp add: TestConfig_new_def makeVertexGeneratorConfig_def chooseVertexGenerator_def
      DE_ASSERT_def StaticOnly_def)

lemma stencilSubCase_result:
  assumes "stencilOp op \<noteq> VK_STENCIL_OP_MAX_ENUM" "incompatibleOp op \<noteq> VK_STENCIL_OP_MAX_ENUM"
    and "stencilResult dbg (stencilOp op) clearVal r8 kMinVal kMaxVal = Some expected"
  shows "\<exists>t. stencilSubCase dbg fw pct ord mesh fc compare op clearVal refVal r8 r32 wouldPass idx
               = Some t
     \<and> referenceColor (m_testConfig t) =
         SingleColorGenerator_Vec4
           (if wouldPass \<and> \<not> idx > 0 then kDefaultTriangleColor else kDefaultClearColor)
     \<and> expectedStencil (m_testConfig t) = ucast expected
     \<and> staticValue (depthTestEnableConfig (m_testConfig t)) = (idx > 0)
     \<and> clearStencilValue (m_testConfig t) = ucast clearVal
     \<and> referenceStencil (m_testConfig t) = r32
     \<and> list_all (\<lambda>m. color m = kDefaultTriangleColor) (meshParams (m_testConfig t))
     \<and> staticValue (stencilTestEnableConfig (m_testConfig t))"
proof -
  obtain config where c: "TestConfig_new dbg fw pct ord mesh None None = Some config"
    and cf: "meshParams config = [MeshParams_default]"
     "staticValue (stencilOpConfig config) = [kDefaultStencilOpParams]"
     "topologyConfig config = StaticOnly VK_PRIMITIVE_TOPOLOGY_TRIANGLE_STRIP"
     "patchControlPointsConfig config = StaticOnly 1"
     "\<not> useExtraDynPCPPipeline config"
     "\<not> staticValue (depthTestEnableConfig config)"
    using TestConfig_new_default [of dbg fw pct ord mesh] by blast
  show ?thesis
    using assms c cf
    by (cases "face fc"; cases wouldPass; cases "idx > 0")
      (simp_all add: stencilSubCase_def Let_def at_opt_def modify_at_def
        ExtendedDynamicStateTest_new_def DE_ASSERT_def StaticOnly_def
        testPatchControlPoints_def patchesTopology_def MeshParams_default_def)
qed

lemma uint_refVal:
  "0 \<le> x \<Longrightarrow> x \<le> 255 \<Longrightarrow> uint (word_of_int x :: 32 word) = x"
  by (simp add: uint_word_of_int take_bit_int_eq_self)

lemma stencilDeltaCases_out_of_range:
  "uint clearVal + delta < 0 \<or> uint clearVal + delta > 255 \<Longrightarrow>
     stencilDeltaCases dbg fw pct ord mesh fc compare op clearVal delta = Some []"
  by (auto simp add: stencilDeltaCases_def Let_def kMinValI_def kMaxValI_def kMinVal_def
      kMaxVal_def)

lemma stencilDeltaCases_in_range:
  assumes "stencilOp op \<noteq> VK_STENCIL_OP_MAX_ENUM" "incompatibleOp op \<noteq> VK_STENCIL_OP_MAX_ENUM"
    and "compare_compareOp compare \<noteq> VK_COMPARE_OP_NOT_EQUAL"
    and "0 \<le> uint clearVal + delta" "uint clearVal + delta \<le> 255"
  shows "\<exists>wouldPass expected tests.
      stencilPasses dbg (compare_compareOp compare) clearVal (word_of_int (uint clearVal + delta))
        = Some wouldPass
    \<and> stencilResult dbg (stencilOp op) clearVal (word_of_int (uint clearVal + delta)) 0 255
        = Some expected
    \<and> stencilDeltaCases dbg fw pct ord mesh fc compare op clearVal delta = Some tests
    \<and> map (\<lambda>t. staticValue (depthTestEnableConfig (m_testConfig t))) tests
        = (if wouldPass then [False, True] else [False])
    \<and> list_all (\<lambda>t.
          referenceColor (m_testConfig t) =
            SingleColorGenerator_Vec4
              (if wouldPass \<and> \<not> staticValue (depthTestEnableConfig (m_testConfig t))
               then kDefaultTriangleColor else kDefaultClearColor)
          \<and> expectedStencil (m_testConfig t) = ucast expected
          \<and> clearStencilValue (m_testConfig t) = ucast clearVal
          \<and> uint (referenceStencil (m_testConfig t)) = uint clearVal + delta
          \<and> list_all (\<lambda>m. color m = kDefaultTriangleColor) (meshParams (m_testConfig t))
          \<and> staticValue (stencilTestEnableConfig (m_testConfig t))) tests"
proof -
  let ?r = "uint clearVal + delta"
  obtain wouldPass where wp:
    "stencilPasses dbg (compare_compareOp compare) clearVal (word_of_int ?r) = Some wouldPass"
    using stencilPasses_Some [OF assms(3)] by blast
  obtain expected where ex:
    "stencilResult dbg (stencilOp op) clearVal (word_of_int ?r) kMinVal kMaxVal = Some expected"
    using stencilResult_Some [OF assms(1)] by blast
  note sub = stencilSubCase_result [OF assms(1,2) ex, of fw pct ord mesh fc compare ?r
      "word_of_int ?r" wouldPass]
  obtain t0 where t0:
    "stencilSubCase dbg fw pct ord mesh fc compare op clearVal ?r (word_of_int ?r)
       (word_of_int ?r) wouldPass 0 = Some t0"
    "referenceColor (m_testConfig t0) =
       SingleColorGenerator_Vec4 (if wouldPass then kDefaultTriangleColor else kDefaultClearColor)"
    "expectedStencil (m_testConfig t0) = ucast expected"
    "\<not> staticValue (depthTestEnableConfig (m_testConfig t0))"
    "clearStencilValue (m_testConfig t0) = ucast clearVal"
    "referenceStencil (m_testConfig t0) = word_of_int ?r"
    "list_all (\<lambda>m. color m = kDefaultTriangleColor) (meshParams (m_testConfig t0))"
    "staticValue (stencilTestEnableConfig (m_testConfig t0))"
    using sub [of 0] by auto
  obtain t1 where t1:
    "stencilSubCase dbg fw pct ord mesh fc compare op clearVal ?r (word_of_int ?r)
       (word_of_int ?r) wouldPass (Suc 0) = Some t1"
    "referenceColor (m_testConfig t1) = SingleColorGenerator_Vec4 kDefaultClearColor"
    "expectedStencil (m_testConfig t1) = ucast expected"
    "staticValue (depthTestEnableConfig (m_testConfig t1))"
    "clearStencilValue (m_testConfig t1) = ucast clearVal"
    "referenceStencil (m_testConfig t1) = word_of_int ?r"
    "list_all (\<lambda>m. color m = kDefaultTriangleColor) (meshParams (m_testConfig t1))"
    "staticValue (stencilTestEnableConfig (m_testConfig t1))"
    using sub [of "Suc 0"] by auto
  have cases: "stencilDeltaCases dbg fw pct ord mesh fc compare op clearVal delta
                 = Some (if wouldPass then [t0, t1] else [t0])"
    using assms(4,5) wp t0(1) t1(1)
    by (cases wouldPass)
      (simp_all add: stencilDeltaCases_def Let_def kMinValI_def kMaxValI_def kMinVal_def
        kMaxVal_def two_iterations)
  have r32: "uint (word_of_int ?r :: 32 word) = ?r"
    using assms(4,5) by (rule uint_refVal)
  have u0: "uint (referenceStencil (m_testConfig t0)) = ?r"
    using t0(6) r32 by (simp only:)
  have u1: "uint (referenceStencil (m_testConfig t1)) = ?r"
    using t1(6) r32 by (simp only:)
  show ?thesis
    using wp ex cases t0(2-5,7-) t1(2-5,7-) u0 u1
    by (cases wouldPass) (auto simp add: kMinVal_def kMaxVal_def)
qed

text \<open>
  Claim C8. For every face, compare operation and stencil operation of the three tables,
  every clear value of the stencil operation and every delta in -1, 0, 1 whose reference
  value (clear value plus delta) is in 0..255, the enumeration completes, in either build
  flavour, and generates two sub-cases when \<open>stencilPasses\<close> of the compare operation, the
  clear value and the reference value is true, the second one being the depth-fail variant
  (depth test enabled), and one sub-case, not a depth-fail one, otherwise. The expected
  colour of a sub-case is the triangle colour, which is the colour of all its meshes, when
  the stencil test passes and the sub-case is not the depth-fail one, and the clear colour
  otherwise. The expected stencil value of every sub-case is \<open>stencilResult\<close> of the stencil
  operation, the clear value, the reference value, 0 and 255.
\<close>

theorem stencil_enumeration_oracle:
  assumes "fc \<in> set kFaces" "compare \<in> set kCompare" "op \<in> set kStencilOps"
    and "clearVal \<in> set (clearValues op)" "delta \<in> {- 1, 0, 1}"
    and "0 \<le> uint clearVal + delta" "uint clearVal + delta \<le> 255"
  shows "\<exists>wouldPass expected tests.
      stencilPasses dbg (compare_compareOp compare) clearVal (word_of_int (uint clearVal + delta))
        = Some wouldPass
    \<and> stencilResult dbg (stencilOp op) clearVal (word_of_int (uint clearVal + delta)) 0 255
        = Some expected
    \<and> stencilDeltaCases dbg fw pct ord mesh fc compare op clearVal delta = Some tests
    \<and> map (\<lambda>t. staticValue (depthTestEnableConfig (m_testConfig t))) tests
        = (if wouldPass then [False, True] else [False])
    \<and> list_all (\<lambda>t.
          referenceColor (m_testConfig t) =
            SingleColorGenerator_Vec4
              (if wouldPass \<and> \<not> staticValue (depthTestEnableConfig (m_testConfig t))
               then kDefaultTriangleColor else kDefaultClearColor)
          \<and> expectedStencil (m_testConfig t) = ucast expected
          \<and> clearStencilValue (m_testConfig t) = ucast clearVal
          \<and> uint (referenceStencil (m_testConfig t)) = uint clearVal + delta
          \<and> list_all (\<lambda>m. color m = kDefaultTriangleColor) (meshParams (m_testConfig t))
          \<and> staticValue (stencilTestEnableConfig (m_testConfig t))) tests"
  using kStencilOps_ok [OF assms(3)] kCompare_ok [OF assms(2)] assms(6,7)
  by (intro stencilDeltaCases_in_range) simp_all

theorem stencil_enumeration_oracle_witness:
  "\<exists>tests.
      stencilDeltaCases True exampleFramework () CMD_BUFFER_START False
        \<lparr>face = VK_STENCIL_FACE_FRONT_BIT, face_name = ''face_front''\<rparr>
        \<lparr>compare_compareOp = VK_COMPARE_OP_LESS, compare_name = ''lt''\<rparr>
        \<lparr>stencilOp = VK_STENCIL_OP_INCREMENT_AND_CLAMP, op_name = ''inc_clamp'',
         clearValues = [kMaxVal - 1, kMaxVal], incompatibleOp = VK_STENCIL_OP_ZERO\<rparr>
        255 (- 1) = Some tests
    \<and> map (\<lambda>t. referenceColor (m_testConfig t)) tests =
          [SingleColorGenerator_Vec4 kDefaultTriangleColor,
           SingleColorGenerator_Vec4 kDefaultClearColor]
    \<and> map (\<lambda>t. expectedStencil (m_testConfig t)) tests = [255, 255]
    \<and> map (\<lambda>t. uint (referenceStencil (m_testConfig t))) tests = [254, 254]"
proof -
  let ?fc = "\<lparr>face = VK_STENCIL_FACE_FRONT_BIT, face_name = ''face_front''\<rparr>"
  let ?cmp = "\<lparr>compare_compareOp = VK_COMPARE_OP_LESS, compare_name = ''lt''\<rparr>"
  let ?op = "\<lparr>stencilOp = VK_STENCIL_OP_INCREMENT_AND_CLAMP, op_name = ''inc_clamp'',
         clearValues = [kMaxVal - 1, kMaxVal], incompatibleOp = VK_STENCIL_OP_ZERO\<rparr>"
  have h: "?fc \<in> set kFaces" "?cmp \<in> set kCompare" "?op \<in> set kStencilOps"
    "(255 :: deUint8) \<in> set (clearValues ?op)" "(- 1 :: int) \<in> {- 1, 0, 1}"
    "0 \<le> uint (255 :: deUint8) + (- 1)" "uint (255 :: deUint8) + (- 1) \<le> 255"
    by (simp_all add: kFaces_def kCompare_def kStencilOps_def kMaxVal_def)
  from stencil_enumeration_oracle [OF h, of True exampleFramework "()" CMD_BUFFER_START False]
  obtain wouldPass expected tests where
    "stencilPasses True VK_COMPARE_OP_LESS 255 (word_of_int (uint (255 :: deUint8) + (- 1)))
       = Some wouldPass"
    "stencilResult True VK_STENCIL_OP_INCREMENT_AND_CLAMP 255
       (word_of_int (uint (255 :: deUint8) + (- 1))) 0 255 = Some expected"
    "stencilDeltaCases True exampleFramework () CMD_BUFFER_START False ?fc ?cmp ?op 255 (- 1)
       = Some tests"
    "map (\<lambda>t. staticValue (depthTestEnableConfig (m_testConfig t))) tests
        = (if wouldPass then [False, True] else [False])"
    "list_all (\<lambda>t.
          referenceColor (m_testConfig t) =
            SingleColorGenerator_Vec4
              (if wouldPass \<and> \<not> staticValue (depthTestEnableConfig (m_testConfig t))
               then kDefaultTriangleColor else kDefaultClearColor)
          \<and> expectedStencil (m_testConfig t) = ucast expected
          \<and> clearStencilValue (m_testConfig t) = ucast (255 :: deUint8)
          \<and> uint (referenceStencil (m_testConfig t)) = uint (255 :: deUint8) + (- 1)
          \<and> list_all (\<lambda>m. color m = kDefaultTriangleColor) (meshParams (m_testConfig t))
          \<and> staticValue (stencilTestEnableConfig (m_testConfig t))) tests"
    by auto
  then show ?thesis
    by (auto simp add: map_eq_Cons_conv)
qed

lemma concatMapM_list_all:
  assumes "\<And>x. x \<in> set xs \<Longrightarrow> \<exists>ys. f x = Some ys \<and> list_all P ys"
  shows "\<exists>zs. concatMapM f xs = Some zs \<and> list_all P zs"
  using assms
proof (induction xs)
  case Nil
  then show ?case by simp
next
  case (Cons x xs)
  obtain ys where ys: "f x = Some ys" "list_all P ys"
    using Cons.prems [of x] by auto
  obtain zs where zs: "concatMapM f xs = Some zs" "list_all P zs"
    using Cons.IH Cons.prems by auto
  show ?case using ys zs by simp
qed

lemma uint_clearVal: "uint (ucast (v :: deUint8) :: deUint32) = uint v"
  by (simp add: uint_up_ucast is_up)

lemma stencilDeltaCases_refs:
  assumes "stencilOp op \<noteq> VK_STENCIL_OP_MAX_ENUM" "incompatibleOp op \<noteq> VK_STENCIL_OP_MAX_ENUM"
    and "compare_compareOp compare \<noteq> VK_COMPARE_OP_NOT_EQUAL"
  shows "\<exists>tests. stencilDeltaCases dbg fw pct ord mesh fc compare op clearVal delta = Some tests
     \<and> (tests \<noteq> [] \<longleftrightarrow> 0 \<le> uint clearVal + delta \<and> uint clearVal + delta \<le> 255)
     \<and> list_all (\<lambda>t. uint (referenceStencil (m_testConfig t)) = uint clearVal + delta
                     \<and> clearStencilValue (m_testConfig t) = ucast clearVal) tests"
proof (cases "0 \<le> uint clearVal + delta \<and> uint clearVal + delta \<le> 255")
  case True
  then have r: "0 \<le> uint clearVal + delta" "uint clearVal + delta \<le> 255" by simp_all
  from stencilDeltaCases_in_range [OF assms r, of dbg fw pct ord mesh fc]
  obtain wouldPass tests where
    t: "stencilDeltaCases dbg fw pct ord mesh fc compare op clearVal delta = Some tests"
    and m: "map (\<lambda>t. staticValue (depthTestEnableConfig (m_testConfig t))) tests
        = (if wouldPass then [False, True] else [False])"
    and a: "list_all (\<lambda>t. uint (referenceStencil (m_testConfig t)) = uint clearVal + delta
                     \<and> clearStencilValue (m_testConfig t) = ucast clearVal) tests"
    by (auto simp add: list_all_iff)
  from m have "tests \<noteq> []" by (auto split: if_splits)
  then show ?thesis using t a True by simp
next
  case False
  then have "stencilDeltaCases dbg fw pct ord mesh fc compare op clearVal delta = Some []"
    by (intro stencilDeltaCases_out_of_range) auto
  then show ?thesis using False by simp
qed

lemma stencilOpTests_refs:
  "\<exists>tests. stencilOpTests dbg fw pct ord mesh = Some tests
     \<and> list_all (\<lambda>t. uint (referenceStencil (m_testConfig t)) \<le> 255
                     \<and> uint (referenceStencil (m_testConfig t))
                         - uint (clearStencilValue (m_testConfig t)) \<in> {- 1, 0, 1}) tests"
  unfolding stencilOpTests_def
proof (intro concatMapM_list_all)
  fix fc compare op clearVal and delta :: int
  assume "compare \<in> set kCompare" "op \<in> set kStencilOps" "delta \<in> set [- 1, 0, 1]"
  then have c: "stencilOp op \<noteq> VK_STENCIL_OP_MAX_ENUM" "incompatibleOp op \<noteq> VK_STENCIL_OP_MAX_ENUM"
    "compare_compareOp compare \<noteq> VK_COMPARE_OP_NOT_EQUAL" and d: "delta \<in> {- 1, 0, 1}"
    using kStencilOps_ok kCompare_ok by auto
  from stencilDeltaCases_refs [OF c, of dbg fw pct ord mesh fc clearVal delta]
  obtain tests where
    t: "stencilDeltaCases dbg fw pct ord mesh fc compare op clearVal delta = Some tests"
    and r: "tests \<noteq> [] \<longleftrightarrow> 0 \<le> uint clearVal + delta \<and> uint clearVal + delta \<le> 255"
    and a: "list_all (\<lambda>t. uint (referenceStencil (m_testConfig t)) = uint clearVal + delta
                     \<and> clearStencilValue (m_testConfig t) = ucast clearVal) tests"
    by blast
  have "list_all (\<lambda>t. uint (referenceStencil (m_testConfig t)) \<le> 255
                     \<and> uint (referenceStencil (m_testConfig t))
                         - uint (clearStencilValue (m_testConfig t)) \<in> {- 1, 0, 1}) tests"
  proof (cases "tests = []")
    case True
    then show ?thesis by simp
  next
    case False
    then have "uint clearVal + delta \<le> 255" using r by simp
    then show ?thesis using a d by (auto simp add: list_all_iff uint_clearVal)
  qed
  then show "\<exists>ys. stencilDeltaCases dbg fw pct ord mesh fc compare op clearVal delta = Some ys
     \<and> list_all (\<lambda>t. uint (referenceStencil (m_testConfig t)) \<le> 255
                     \<and> uint (referenceStencil (m_testConfig t))
                         - uint (clearStencilValue (m_testConfig t)) \<in> {- 1, 0, 1}) ys"
    using t by blast
qed

lemma concatMapM_set:
  assumes "concatMapM f xs = Some zs"
  shows "z \<in> set zs \<longleftrightarrow> (\<exists>x \<in> set xs. \<exists>ys. f x = Some ys \<and> z \<in> set ys)"
  using assms
  by (induction xs arbitrary: zs) (auto simp add: bind_eq_Some_conv)

lemma concatMapM_elem:
  assumes "concatMapM f xs = Some zs" "x \<in> set xs"
  shows "\<exists>ys. f x = Some ys \<and> set ys \<subseteq> set zs"
  using assms
proof (induction xs arbitrary: zs)
  case Nil
  then show ?case by simp
next
  case (Cons a xs)
  from Cons.prems(1) obtain y ya where y: "f a = Some y" and ya: "concatMapM f xs = Some ya"
    and zs: "zs = y @ ya"
    by (auto simp add: bind_eq_Some_conv)
  show ?case
  proof (cases "x = a")
    case True
    then show ?thesis using y zs by simp
  next
    case False
    then have "x \<in> set xs" using Cons.prems(2) by simp
    from Cons.IH [OF ya this] show ?thesis using zs by auto
  qed
qed

lemma stencilOpTests_members:
  assumes "stencilOpTests dbg fw pct ord mesh = Some all"
  shows "t \<in> set all \<longleftrightarrow>
           (\<exists>fc \<in> set kFaces. \<exists>compare \<in> set kCompare. \<exists>op \<in> set kStencilOps.
              \<exists>clearVal \<in> set (clearValues op). \<exists>delta \<in> {- 1, 0, 1}. \<exists>tests.
                stencilDeltaCases dbg fw pct ord mesh fc compare op clearVal delta = Some tests
                \<and> t \<in> set tests)"
proof
  note a = assms [unfolded stencilOpTests_def]
  assume t: "t \<in> set all"
  from concatMapM_set [OF a, THEN iffD1, OF t] obtain fc ys1 where
    fc: "fc \<in> set kFaces" and
    e1: "concatMapM (\<lambda>compare.
           concatMapM (\<lambda>op.
             concatMapM (\<lambda>clearVal.
               concatMapM (\<lambda>delta.
                   stencilDeltaCases dbg fw pct ord mesh fc compare op clearVal delta)
                 [- 1, 0, 1])
               (clearValues op))
             kStencilOps)
           kCompare = Some ys1" and t1: "t \<in> set ys1"
    by blast
  from concatMapM_set [OF e1, THEN iffD1, OF t1] obtain compare ys2 where
    compare: "compare \<in> set kCompare" and
    e2: "concatMapM (\<lambda>op.
             concatMapM (\<lambda>clearVal.
               concatMapM (\<lambda>delta.
                   stencilDeltaCases dbg fw pct ord mesh fc compare op clearVal delta)
                 [- 1, 0, 1])
               (clearValues op))
             kStencilOps = Some ys2" and t2: "t \<in> set ys2"
    by blast
  from concatMapM_set [OF e2, THEN iffD1, OF t2] obtain op ys3 where
    op: "op \<in> set kStencilOps" and
    e3: "concatMapM (\<lambda>clearVal.
               concatMapM (\<lambda>delta.
                   stencilDeltaCases dbg fw pct ord mesh fc compare op clearVal delta)
                 [- 1, 0, 1])
               (clearValues op) = Some ys3" and t3: "t \<in> set ys3"
    by blast
  from concatMapM_set [OF e3, THEN iffD1, OF t3] obtain clearVal ys4 where
    clearVal: "clearVal \<in> set (clearValues op)" and
    e4: "concatMapM (\<lambda>delta.
                   stencilDeltaCases dbg fw pct ord mesh fc compare op clearVal delta)
                 [- 1, 0, 1] = Some ys4" and t4: "t \<in> set ys4"
    by blast
  from concatMapM_set [OF e4, THEN iffD1, OF t4] obtain delta tests where
    delta: "delta \<in> set [- 1, 0, 1]" and
    e5: "stencilDeltaCases dbg fw pct ord mesh fc compare op clearVal delta = Some tests" and
    t5: "t \<in> set tests"
    by blast
  from delta have "delta \<in> {- 1, 0, 1}" by simp
  then show "\<exists>fc \<in> set kFaces. \<exists>compare \<in> set kCompare. \<exists>op \<in> set kStencilOps.
              \<exists>clearVal \<in> set (clearValues op). \<exists>delta \<in> {- 1, 0, 1}. \<exists>tests.
                stencilDeltaCases dbg fw pct ord mesh fc compare op clearVal delta = Some tests
                \<and> t \<in> set tests"
    using fc compare op clearVal e5 t5 by blast
next
  note a = assms [unfolded stencilOpTests_def]
  assume "\<exists>fc \<in> set kFaces. \<exists>compare \<in> set kCompare. \<exists>op \<in> set kStencilOps.
              \<exists>clearVal \<in> set (clearValues op). \<exists>delta \<in> {- 1, 0, 1}. \<exists>tests.
                stencilDeltaCases dbg fw pct ord mesh fc compare op clearVal delta = Some tests
                \<and> t \<in> set tests"
  then obtain fc compare op clearVal delta tests where
    fc: "fc \<in> set kFaces" and compare: "compare \<in> set kCompare"
    and op: "op \<in> set kStencilOps" and clearVal: "clearVal \<in> set (clearValues op)"
    and delta: "delta \<in> {- 1, 0, 1}"
    and e: "stencilDeltaCases dbg fw pct ord mesh fc compare op clearVal delta = Some tests"
    and t: "t \<in> set tests"
    by blast
  from delta have delta': "delta \<in> set [- 1, 0, 1]" by simp
  from concatMapM_elem [OF a fc] obtain ys1 where
    e1: "concatMapM (\<lambda>compare.
           concatMapM (\<lambda>op.
             concatMapM (\<lambda>clearVal.
               concatMapM (\<lambda>delta.
                   stencilDeltaCases dbg fw pct ord mesh fc compare op clearVal delta)
                 [- 1, 0, 1])
               (clearValues op))
             kStencilOps)
           kCompare = Some ys1" and s1: "set ys1 \<subseteq> set all"
    by blast
  from concatMapM_elem [OF e1 compare] obtain ys2 where
    e2: "concatMapM (\<lambda>op.
             concatMapM (\<lambda>clearVal.
               concatMapM (\<lambda>delta.
                   stencilDeltaCases dbg fw pct ord mesh fc compare op clearVal delta)
                 [- 1, 0, 1])
               (clearValues op))
             kStencilOps = Some ys2" and s2: "set ys2 \<subseteq> set ys1"
    by blast
  from concatMapM_elem [OF e2 op] obtain ys3 where
    e3: "concatMapM (\<lambda>clearVal.
               concatMapM (\<lambda>delta.
                   stencilDeltaCases dbg fw pct ord mesh fc compare op clearVal delta)
                 [- 1, 0, 1])
               (clearValues op) = Some ys3" and s3: "set ys3 \<subseteq> set ys2"
    by blast
  from concatMapM_elem [OF e3 clearVal] obtain ys4 where
    e4: "concatMapM (\<lambda>delta.
                   stencilDeltaCases dbg fw pct ord mesh fc compare op clearVal delta)
                 [- 1, 0, 1] = Some ys4" and s4: "set ys4 \<subseteq> set ys3"
    by blast
  from concatMapM_elem [OF e4 delta'] obtain ys5 where
    e5: "stencilDeltaCases dbg fw pct ord mesh fc compare op clearVal delta = Some ys5"
    and s5: "set ys5 \<subseteq> set ys4"
    by blast
  from e e5 have "ys5 = tests" by simp
  then show "t \<in> set all" using t s1 s2 s3 s4 s5 by blast
qed

text \<open>
  Claim C9. For every compare operation and stencil operation of the tables, every face,
  every 8-bit clear value and every delta in -1, 0, 1, the loop body completes and generates
  at least one test exactly when the clear value plus the delta, computed in the integers,
  lies in 0..255; each test it generates has that sum as its reference stencil value. In
  particular nothing is generated for clear value 255 with delta 1 or for clear value 0
  with delta -1: the sum does not wrap around. The whole stencil enumeration completes, and
  its tests are exactly the tests that the loop body generates for the faces, the compare
  operations, the stencil operations and their clear values of the tables and the deltas
  -1, 0 and 1. So for a clear value of a stencil operation of the table and a delta in
  -1, 0, 1, the enumeration has a test with that clear value and the sum as its reference
  value exactly when the sum lies in 0..255; and every configuration of the enumeration
  has a reference stencil value of at most 255 that differs from its clear stencil value by
  -1, 0 or 1.
\<close>

theorem stencil_reference_in_range:
  "(compare \<in> set kCompare \<and> op \<in> set kStencilOps \<and> delta \<in> {- 1, 0, 1} \<longrightarrow>
      (\<exists>tests. stencilDeltaCases dbg fw pct ord mesh fc compare op clearVal delta = Some tests
         \<and> (tests \<noteq> [] \<longleftrightarrow> 0 \<le> uint clearVal + delta \<and> uint clearVal + delta \<le> 255)
         \<and> list_all (\<lambda>t. uint (referenceStencil (m_testConfig t)) = uint clearVal + delta
                         \<and> clearStencilValue (m_testConfig t) = ucast clearVal) tests))
   \<and> stencilDeltaCases dbg fw pct ord mesh fc compare op 255 1 = Some []
   \<and> stencilDeltaCases dbg fw pct ord mesh fc compare op 0 (- 1) = Some []
   \<and> (\<exists>tests. stencilOpTests dbg fw pct ord mesh = Some tests
         \<and> list_all (\<lambda>t. uint (referenceStencil (m_testConfig t)) \<le> 255
                         \<and> uint (referenceStencil (m_testConfig t))
                             - uint (clearStencilValue (m_testConfig t)) \<in> {- 1, 0, 1}) tests
         \<and> (\<forall>t. t \<in> set tests \<longleftrightarrow>
               (\<exists>fc' \<in> set kFaces. \<exists>compare' \<in> set kCompare. \<exists>op' \<in> set kStencilOps.
                  \<exists>clearVal' \<in> set (clearValues op'). \<exists>delta' \<in> {- 1, 0, 1}. \<exists>tests'.
                    stencilDeltaCases dbg fw pct ord mesh fc' compare' op' clearVal' delta'
                      = Some tests'
                    \<and> t \<in> set tests'))
         \<and> (op \<in> set kStencilOps \<and> clearVal \<in> set (clearValues op) \<and> delta \<in> {- 1, 0, 1} \<longrightarrow>
               ((\<exists>t \<in> set tests. clearStencilValue (m_testConfig t) = ucast clearVal
                    \<and> uint (referenceStencil (m_testConfig t)) = uint clearVal + delta)
                \<longleftrightarrow> 0 \<le> uint clearVal + delta \<and> uint clearVal + delta \<le> 255)))"
proof (intro conjI impI)
  assume "compare \<in> set kCompare \<and> op \<in> set kStencilOps \<and> delta \<in> {- 1, 0, 1}"
  then show "\<exists>tests. stencilDeltaCases dbg fw pct ord mesh fc compare op clearVal delta = Some tests
         \<and> (tests \<noteq> [] \<longleftrightarrow> 0 \<le> uint clearVal + delta \<and> uint clearVal + delta \<le> 255)
         \<and> list_all (\<lambda>t. uint (referenceStencil (m_testConfig t)) = uint clearVal + delta
                         \<and> clearStencilValue (m_testConfig t) = ucast clearVal) tests"
    using kStencilOps_ok [of op] kCompare_ok [of compare]
    by (intro stencilDeltaCases_refs) simp_all
next
  show "stencilDeltaCases dbg fw pct ord mesh fc compare op 255 1 = Some []"
    by (rule stencilDeltaCases_out_of_range) simp
next
  show "stencilDeltaCases dbg fw pct ord mesh fc compare op 0 (- 1) = Some []"
    by (rule stencilDeltaCases_out_of_range) simp
next
  from stencilOpTests_refs [of dbg fw pct ord mesh] obtain tests where
    e: "stencilOpTests dbg fw pct ord mesh = Some tests"
    and r: "list_all (\<lambda>t. uint (referenceStencil (m_testConfig t)) \<le> 255
                         \<and> uint (referenceStencil (m_testConfig t))
                             - uint (clearStencilValue (m_testConfig t)) \<in> {- 1, 0, 1}) tests"
    by blast
  note m = stencilOpTests_members [OF e]
  have "(\<exists>t \<in> set tests. clearStencilValue (m_testConfig t) = ucast clearVal
                    \<and> uint (referenceStencil (m_testConfig t)) = uint clearVal + delta)
                \<longleftrightarrow> 0 \<le> uint clearVal + delta \<and> uint clearVal + delta \<le> 255"
    if h: "op \<in> set kStencilOps \<and> clearVal \<in> set (clearValues op) \<and> delta \<in> {- 1, 0, 1}"
  proof
    assume "\<exists>t \<in> set tests. clearStencilValue (m_testConfig t) = ucast clearVal
                    \<and> uint (referenceStencil (m_testConfig t)) = uint clearVal + delta"
    then obtain t where t: "t \<in> set tests"
      "uint (referenceStencil (m_testConfig t)) = uint clearVal + delta"
      by blast
    have "uint (referenceStencil (m_testConfig t)) \<le> 255"
      using r t(1) by (simp add: list_all_iff)
    moreover have "0 \<le> uint (referenceStencil (m_testConfig t))" by simp
    ultimately show "0 \<le> uint clearVal + delta \<and> uint clearVal + delta \<le> 255"
      unfolding t(2) by simp
  next
    assume range: "0 \<le> uint clearVal + delta \<and> uint clearVal + delta \<le> 255"
    let ?fc = "\<lparr>face = VK_STENCIL_FACE_FRONT_BIT, face_name = ''face_front''\<rparr>"
    let ?cmp = "\<lparr>compare_compareOp = VK_COMPARE_OP_NEVER, compare_name = ''xf''\<rparr>"
    have tab: "?fc \<in> set kFaces" "?cmp \<in> set kCompare"
      by (simp_all add: kFaces_def kCompare_def)
    have c: "stencilOp op \<noteq> VK_STENCIL_OP_MAX_ENUM" "incompatibleOp op \<noteq> VK_STENCIL_OP_MAX_ENUM"
      "compare_compareOp ?cmp \<noteq> VK_COMPARE_OP_NOT_EQUAL"
      using kStencilOps_ok [of op] h by simp_all
    from stencilDeltaCases_refs [OF c, of dbg fw pct ord mesh ?fc clearVal delta]
    obtain tests' where
      t': "stencilDeltaCases dbg fw pct ord mesh ?fc ?cmp op clearVal delta = Some tests'"
      and ne: "tests' \<noteq> []"
      and a: "list_all (\<lambda>t. uint (referenceStencil (m_testConfig t)) = uint clearVal + delta
                     \<and> clearStencilValue (m_testConfig t) = ucast clearVal) tests'"
      using range by blast
    from ne obtain t where t: "t \<in> set tests'" by (cases tests') auto
    have "t \<in> set tests"
      unfolding m using tab h t' t by blast
    then show "\<exists>t \<in> set tests. clearStencilValue (m_testConfig t) = ucast clearVal
                    \<and> uint (referenceStencil (m_testConfig t)) = uint clearVal + delta"
      using a t by (auto simp add: list_all_iff)
  qed
  then show "\<exists>tests. stencilOpTests dbg fw pct ord mesh = Some tests
         \<and> list_all (\<lambda>t. uint (referenceStencil (m_testConfig t)) \<le> 255
                         \<and> uint (referenceStencil (m_testConfig t))
                             - uint (clearStencilValue (m_testConfig t)) \<in> {- 1, 0, 1}) tests
         \<and> (\<forall>t. t \<in> set tests \<longleftrightarrow>
               (\<exists>fc' \<in> set kFaces. \<exists>compare' \<in> set kCompare. \<exists>op' \<in> set kStencilOps.
                  \<exists>clearVal' \<in> set (clearValues op'). \<exists>delta' \<in> {- 1, 0, 1}. \<exists>tests'.
                    stencilDeltaCases dbg fw pct ord mesh fc' compare' op' clearVal' delta'
                      = Some tests'
                    \<and> t \<in> set tests'))
         \<and> (op \<in> set kStencilOps \<and> clearVal \<in> set (clearValues op) \<and> delta \<in> {- 1, 0, 1} \<longrightarrow>
               ((\<exists>t \<in> set tests. clearStencilValue (m_testConfig t) = ucast clearVal
                    \<and> uint (referenceStencil (m_testConfig t)) = uint clearVal + delta)
                \<longleftrightarrow> 0 \<le> uint clearVal + delta \<and> uint clearVal + delta \<le> 255))"
    using e r m by blast
qed

theorem stencil_reference_in_range_witness:
  "\<exists>all tests.
      stencilOpTests True exampleFramework () BEFORE_DRAW False = Some all
      \<and> stencilDeltaCases True exampleFramework () BEFORE_DRAW False
          \<lparr>face = VK_STENCIL_FACE_BACK_BIT, face_name = ''face_back''\<rparr>
          \<lparr>compare_compareOp = VK_COMPARE_OP_EQUAL, compare_name = ''eq''\<rparr>
          \<lparr>stencilOp = VK_STENCIL_OP_DECREMENT_AND_WRAP, op_name = ''dec_wrap'',
           clearValues = [kMinVal + 1, kMinVal], incompatibleOp = VK_STENCIL_OP_KEEP\<rparr>
          0 1 = Some tests
      \<and> tests \<noteq> []
      \<and> list_all (\<lambda>t. uint (referenceStencil (m_testConfig t)) = 1) tests
      \<and> set tests \<subseteq> set all
      \<and> stencilDeltaCases True exampleFramework () BEFORE_DRAW False
          \<lparr>face = VK_STENCIL_FACE_BACK_BIT, face_name = ''face_back''\<rparr>
          \<lparr>compare_compareOp = VK_COMPARE_OP_EQUAL, compare_name = ''eq''\<rparr>
          \<lparr>stencilOp = VK_STENCIL_OP_DECREMENT_AND_WRAP, op_name = ''dec_wrap'',
           clearValues = [kMinVal + 1, kMinVal], incompatibleOp = VK_STENCIL_OP_KEEP\<rparr>
          0 (- 1) = Some []
      \<and> list_ex (\<lambda>t. clearStencilValue (m_testConfig t) = 0
                      \<and> uint (referenceStencil (m_testConfig t)) = 1) all
      \<and> \<not> list_ex (\<lambda>t. clearStencilValue (m_testConfig t) = 0
                        \<and> uint (referenceStencil (m_testConfig t)) = 255) all"
proof -
  let ?fc = "\<lparr>face = VK_STENCIL_FACE_BACK_BIT, face_name = ''face_back''\<rparr>"
  let ?cmp = "\<lparr>compare_compareOp = VK_COMPARE_OP_EQUAL, compare_name = ''eq''\<rparr>"
  let ?op = "\<lparr>stencilOp = VK_STENCIL_OP_DECREMENT_AND_WRAP, op_name = ''dec_wrap'',
         clearValues = [kMinVal + 1, kMinVal], incompatibleOp = VK_STENCIL_OP_KEEP\<rparr>"
  have h: "?fc \<in> set kFaces" "?cmp \<in> set kCompare" "?op \<in> set kStencilOps"
    "(0 :: deUint8) \<in> set (clearValues ?op)" "(1 :: int) \<in> {- 1, 0, 1}"
    by (simp_all add: kFaces_def kCompare_def kStencilOps_def kMinVal_def)
  note th = stencil_reference_in_range [of ?cmp ?op 1 True exampleFramework "()" BEFORE_DRAW
        False ?fc 0]
  from th [THEN conjunct1] h obtain tests where
    t: "stencilDeltaCases True exampleFramework () BEFORE_DRAW False ?fc ?cmp ?op 0 1 = Some tests"
    and ne: "tests \<noteq> []"
    and one: "list_all (\<lambda>t. uint (referenceStencil (m_testConfig t)) = 1) tests"
    by (auto simp add: list_all_iff)
  have skip: "stencilDeltaCases True exampleFramework () BEFORE_DRAW False ?fc ?cmp ?op 0 (- 1)
      = Some []"
    by (rule th [THEN conjunct2, THEN conjunct2, THEN conjunct1])
  from th [THEN conjunct2, THEN conjunct2, THEN conjunct2] obtain all where
    e: "stencilOpTests True exampleFramework () BEFORE_DRAW False = Some all"
    and r: "list_all (\<lambda>t. uint (referenceStencil (m_testConfig t)) \<le> 255
                         \<and> uint (referenceStencil (m_testConfig t))
                             - uint (clearStencilValue (m_testConfig t)) \<in> {- 1, 0, 1}) all"
    and m: "\<forall>t. t \<in> set all \<longleftrightarrow>
               (\<exists>fc' \<in> set kFaces. \<exists>compare' \<in> set kCompare. \<exists>op' \<in> set kStencilOps.
                  \<exists>clearVal' \<in> set (clearValues op'). \<exists>delta' \<in> {- 1, 0, 1}. \<exists>tests'.
                    stencilDeltaCases True exampleFramework () BEFORE_DRAW False
                      fc' compare' op' clearVal' delta' = Some tests'
                    \<and> t \<in> set tests')"
    and x: "?op \<in> set kStencilOps \<and> (0 :: deUint8) \<in> set (clearValues ?op)
              \<and> (1 :: int) \<in> {- 1, 0, 1} \<longrightarrow>
               ((\<exists>t \<in> set all. clearStencilValue (m_testConfig t) = ucast (0 :: deUint8)
                    \<and> uint (referenceStencil (m_testConfig t)) = uint (0 :: deUint8) + 1)
                \<longleftrightarrow> 0 \<le> uint (0 :: deUint8) + 1 \<and> uint (0 :: deUint8) + 1 \<le> 255)"
    by blast
  have sub: "set tests \<subseteq> set all"
  proof
    fix u
    assume "u \<in> set tests"
    then show "u \<in> set all"
      using m h t by blast
  qed
  have ex: "list_ex (\<lambda>t. clearStencilValue (m_testConfig t) = 0
                      \<and> uint (referenceStencil (m_testConfig t)) = 1) all"
    using x h(3,4,5) by (auto simp add: list_ex_iff kMinVal_def)
  have nex: "\<not> list_ex (\<lambda>t. clearStencilValue (m_testConfig t) = 0
                        \<and> uint (referenceStencil (m_testConfig t)) = 255) all"
    using r by (auto simp add: list_ex_iff list_all_iff)
  show ?thesis
    using e t ne one sub skip ex nex by blast
qed

end
